theory Spec2Isabelle
  imports Complex_Main "HOL-Library.Log_Nat"
begin

section \<open>JavaScript values and numbers\<close>

text \<open>
  The three handlers of the repository (\<^verbatim>\<open>api/assessSpeaking.js\<close>,
  \<^verbatim>\<open>api/english-test.js\<close>, \<^verbatim>\<open>api/assessWriting.js\<close>) are embedded as HOL functions.
  A finite JavaScript number is the real number it denotes.  The arithmetic of the level
  mapper and of the multiple-choice percentage rounds every result to the nearest IEEE 754
  double, as JavaScript does; the day arithmetic of the streak code works on whole numbers
  of milliseconds and of days, where doubles are exact.  Strings are lists of 8-bit
  characters.
\<close>

text \<open>\<^verbatim>\<open>Math.round(x)\<close>: the integer nearest to \<open>x\<close>, halves going up.\<close>

definition Math_round :: "real \<Rightarrow> int" where
  "Math_round x = \<lfloor>x + 1 / 2\<rfloor>"

text \<open>\<^verbatim>\<open>Number(x) || 0\<close> on a finite number: a falsy number (zero) is replaced by \<open>0\<close>.\<close>

definition Number_or0 :: "real \<Rightarrow> real" where
  "Number_or0 x = (if x = 0 then 0 else x)"

subsection \<open>IEEE 754 double precision\<close>

text \<open>The integer nearest to \<open>y\<close>, a tie going to the even one.\<close>

definition round_even :: "real \<Rightarrow> int" where
  "round_even y =
     (let f = \<lfloor>y\<rfloor> in
      if y - of_int f < 1 / 2 then f
      else if 1 / 2 < y - of_int f then f + 1
      else if even f then f else f + 1)"

text \<open>The binary exponent of a positive number: \<open>2 powi expo x \<le> x < 2 powi (expo x + 1)\<close>.\<close>

definition expo :: "real \<Rightarrow> int" where
  "expo x = (if 1 \<le> x then bitlen \<lfloor>x\<rfloor> - 1 else - bitlen (\<lceil>1 / x\<rceil> - 1))"

text \<open>The distance between neighbouring doubles around \<open>x\<close>: 53 significant bits, and the
  fixed spacing \<open>2 powi (- 1074)\<close> of the subnormal numbers below \<open>2 powi (- 1022)\<close>.\<close>

definition ulp :: "real \<Rightarrow> real" where
  "ulp x = 2 powi (max (expo \<bar>x\<bar>) (- 1022) - 52)"

text \<open>Rounding to nearest, ties to even, before the test for overflow.  It is also the
  value of a decimal literal of the source, such as \<^verbatim>\<open>0.4\<close>.\<close>

definition rnd :: "real \<Rightarrow> real" where
  "rnd x = (if x = 0 then 0 else of_int (round_even (x / ulp x)) * ulp x)"

text \<open>A JavaScript number.  The two zeros are one value: nothing modelled here tells them
  apart.\<close>

datatype jsnum = Num real | PosInf | NegInf | NaN

text \<open>The double that an exact result \<open>x\<close> is delivered as: a rounded magnitude of
  \<open>2 ^ 1024\<close> or more, which is one of binary exponent 1024 or more, overflows to an
  infinity.\<close>

definition to_double :: "real \<Rightarrow> jsnum" where
  "to_double x =
     (if rnd x \<noteq> 0 \<and> 1024 \<le> expo \<bar>rnd x\<bar> then (if 0 < x then PosInf else NegInf)
      else Num (rnd x))"

text \<open>The sign of a number that is not NaN, and the infinity of a given sign (NaN for the
  sign 0, which is the product of zero and an infinity).\<close>

fun sign_of :: "jsnum \<Rightarrow> real" where
  "sign_of (Num a) = sgn a"
| "sign_of PosInf = 1"
| "sign_of NegInf = - 1"
| "sign_of NaN = 0"

definition signed_inf :: "real \<Rightarrow> jsnum" where
  "signed_inf s = (if s = 0 then NaN else if 0 < s then PosInf else NegInf)"

text \<open>\<^verbatim>\<open>x * y\<close> and \<^verbatim>\<open>x + y\<close> on numbers.\<close>

definition jmul :: "jsnum \<Rightarrow> jsnum \<Rightarrow> jsnum" where
  "jmul x y =
     (case (x, y) of
        (Num a, Num b) \<Rightarrow> to_double (a * b)
      | (NaN, _) \<Rightarrow> NaN
      | (_, NaN) \<Rightarrow> NaN
      | _ \<Rightarrow> signed_inf (sign_of x * sign_of y))"

definition jadd :: "jsnum \<Rightarrow> jsnum \<Rightarrow> jsnum" where
  "jadd x y =
     (case (x, y) of
        (Num a, Num b) \<Rightarrow> to_double (a + b)
      | (NaN, _) \<Rightarrow> NaN
      | (_, NaN) \<Rightarrow> NaN
      | (PosInf, NegInf) \<Rightarrow> NaN
      | (NegInf, PosInf) \<Rightarrow> NaN
      | (PosInf, _) \<Rightarrow> PosInf
      | (_, PosInf) \<Rightarrow> PosInf
      | _ \<Rightarrow> NegInf)"

text \<open>\<^verbatim>\<open>x <= t\<close> for a finite \<open>t\<close>: false on NaN.\<close>

fun jle :: "jsnum \<Rightarrow> real \<Rightarrow> bool" where
  "jle (Num a) t = (a \<le> t)"
| "jle NegInf t = True"
| "jle PosInf t = False"
| "jle NaN t = False"

text \<open>\<^verbatim>\<open>Number(x || 0)\<close> on a number: the falsy numbers are zero and NaN.\<close>

definition num_or0 :: "jsnum \<Rightarrow> jsnum" where
  "num_or0 x = (if x = Num 0 \<or> x = NaN then Num 0 else x)"

section \<open>LevelMapper (\<^verbatim>\<open>mapScoresToLevel\<close>, api/english-test.js)\<close>

record SubScores =
  vocab :: jsnum
  grammar :: jsnum
  cohesion :: jsnum

record level_mapping =
  map_level :: string
  map_overall :: jsnum

text \<open>\<^verbatim>\<open>0.4*vocab + 0.4*grammar + 0.2*cohesion\<close> is evaluated from the left: three rounded
  products and two rounded sums.\<close>

definition mapScoresToLevel :: "SubScores \<Rightarrow> level_mapping" where
  "mapScoresToLevel scores =
     (let v = num_or0 (vocab scores);
          g = num_or0 (grammar scores);
          c = num_or0 (cohesion scores);
          overall = jadd (jadd (jmul (Num (rnd 0.4)) v) (jmul (Num (rnd 0.4)) g))
                      (jmul (Num (rnd 0.2)) c);
          level = (if jle overall 20 then ''A1''
                   else if jle overall 35 then ''A2''
                   else if jle overall 55 then ''B1''
                   else if jle overall 75 then ''B2''
                   else if jle overall 90 then ''C1''
                   else ''C2'')
      in \<lparr>map_level = level, map_overall = overall\<rparr>)"

section \<open>StreakEngine\<close>

text \<open>
  The field \<^verbatim>\<open>lastAssessmentDateISO\<close> of a user document, classified by what the streak code
  does with the JavaScript value it holds:
  \<^item> \<open>Missing\<close>: a falsy value (\<^verbatim>\<open>undefined\<close>, \<^verbatim>\<open>null\<close>, the empty string);
  \<^item> \<open>Canon d\<close>: the ten-character string \<^verbatim>\<open>YYYY-MM-DD\<close> of the UTC calendar day number
    \<open>d\<close> (days since 1970-01-01), which is what every handler writes;
  \<^item> \<open>Stamp t\<close>: any other value that \<^verbatim>\<open>new Date\<close> parses, to the instant \<open>t\<close>
    (milliseconds since the epoch);
  \<^item> \<open>Malformed\<close>: a truthy value that \<^verbatim>\<open>new Date\<close> turns into an invalid date.
  The clock \<^verbatim>\<open>new Date()\<close> is the parameter \<open>now\<close>, in milliseconds since the epoch.
\<close>

datatype date_field = Missing | Canon int | Stamp int | Malformed

text \<open>
  What the code throws or lets through: the built-in errors, the rejection of \<^verbatim>\<open>fetch\<close>,
  the failure of \<^verbatim>\<open>fs.readFileSync\<close>, the refusal of an absent or empty document path by
  the store's client, a call of the store that throws or is rejected, and
  \<^verbatim>\<open>new Error(message)\<close>.
\<close>

datatype js_error =
    TypeError | RangeError | SyntaxError | FetchError | FileError | PathError | StoreError
  | Error string

definition msPerDay :: int where
  "msPerDay = 1000 * 60 * 60 * 24"

text \<open>\<^verbatim>\<open>new Date(x).toISOString().slice(0,10)\<close> as a day number; \<open>None\<close> when
  \<^verbatim>\<open>toISOString\<close> throws a RangeError (invalid date).\<close>

fun isoDay :: "date_field \<Rightarrow> int option" where
  "isoDay Missing = None"
| "isoDay (Canon d) = Some d"
| "isoDay (Stamp t) = Some (t div msPerDay)"
| "isoDay Malformed = None"

text \<open>\<^verbatim>\<open>new Date("YYYY-MM-DD")\<close>: the instant of UTC midnight of that day.\<close>

definition Date_of_day :: "int \<Rightarrow> int" where
  "Date_of_day d = d * msPerDay"

text \<open>\<^verbatim>\<open>x || k\<close> on a streak count that may be absent.\<close>

definition streak_or :: "nat option \<Rightarrow> nat \<Rightarrow> nat" where
  "streak_or x k = (case x of None \<Rightarrow> k | Some n \<Rightarrow> if n = 0 then k else n)"

record streak_result =
  new_streak :: nat
  todayISO :: int
  updated :: bool

text \<open>\<^verbatim>\<open>computeNewStreak(prevISO, prevStreak = 0)\<close> of api/assessWriting.js.  The copy inside
  api/assessSpeaking.js is the same text without the field \<^verbatim>\<open>updated\<close>.\<close>

definition computeNewStreak :: "int \<Rightarrow> date_field \<Rightarrow> nat option \<Rightarrow> streak_result" where
  "computeNewStreak now prevISO prevStreak =
     (let today = now div msPerDay in
      if prevISO = Missing then \<lparr>new_streak = 1, todayISO = today, updated = True\<rparr>
      else
        (case isoDay prevISO of
           None \<Rightarrow> \<lparr>new_streak = 1, todayISO = today, updated = True\<rparr>
         | Some prevDayStr \<Rightarrow>
             (let prevDate = Date_of_day prevDayStr;
                  tDate = Date_of_day today;
                  diffDays = Math_round (real_of_int (tDate - prevDate) / real_of_int msPerDay)
              in if diffDays = 0
                 then \<lparr>new_streak = streak_or prevStreak 1, todayISO = today, updated = False\<rparr>
                 else if diffDays = 1
                 then \<lparr>new_streak = streak_or prevStreak 0 + 1, todayISO = today, updated = True\<rparr>
                 else \<lparr>new_streak = 1, todayISO = today, updated = True\<rparr>)))"

text \<open>The streak computation written inline in the handler of api/english-test.js
  (placement path).  It has no \<^verbatim>\<open>try\<close> of its own: a RangeError of \<^verbatim>\<open>toISOString\<close>
  reaches the handler's \<^verbatim>\<open>catch\<close>.\<close>

definition placementStreak :: "int \<Rightarrow> date_field \<Rightarrow> nat option \<Rightarrow> js_error + nat" where
  "placementStreak now lastDate userStreak =
     (let today = now div msPerDay;
          streak = streak_or userStreak 0
      in if lastDate = Canon today then Inr streak
         else if lastDate \<noteq> Missing then
           (case isoDay lastDate of
              None \<Rightarrow> Inl RangeError
            | Some prevDay \<Rightarrow>
                (let diff = Math_round
                       (real_of_int (Date_of_day today - Date_of_day prevDay) / real_of_int msPerDay)
                 in if diff = 1 then Inr (streak_or (Some streak) 0 + 1) else Inr 1))
         else Inr 1)"

section \<open>JSON values\<close>

text \<open>
  A value produced by \<^verbatim>\<open>JSON.parse\<close> or received in a request body.  An object is the list
  of its properties in insertion order; \<^verbatim>\<open>undefined\<close> is not a JSON value and is written
  \<open>None\<close> in a \<open>json option\<close>.
\<close>

datatype json =
    JNull
  | JBool bool
  | JNum real
  | JStr string
  | JArr "json list"
  | JObj "(string \<times> json) list"

text \<open>Reading a property of a value that is not \<^verbatim>\<open>null\<close>.  A primitive or an array has
  none of the property names the handlers read, so the result is \<^verbatim>\<open>undefined\<close>.\<close>

fun get_prop :: "json \<Rightarrow> string \<Rightarrow> json option" where
  "get_prop (JObj kvs) k = map_of kvs k"
| "get_prop _ k = None"

text \<open>\<^verbatim>\<open>x?.k\<close>: \<^verbatim>\<open>undefined\<close> when \<open>x\<close> is \<^verbatim>\<open>undefined\<close> or \<^verbatim>\<open>null\<close>.\<close>

fun opt_prop :: "json option \<Rightarrow> string \<Rightarrow> json option" where
  "opt_prop None k = None"
| "opt_prop (Some JNull) k = None"
| "opt_prop (Some v) k = get_prop v k"

text \<open>\<^verbatim>\<open>x.k\<close>: a TypeError when \<open>x\<close> is \<^verbatim>\<open>undefined\<close> or \<^verbatim>\<open>null\<close>.\<close>

fun dot_prop :: "json option \<Rightarrow> string \<Rightarrow> js_error + json option" where
  "dot_prop None k = Inl TypeError"
| "dot_prop (Some JNull) k = Inl TypeError"
| "dot_prop (Some v) k = Inr (get_prop v k)"

text \<open>Truthiness of a JSON value.\<close>

fun truthy :: "json \<Rightarrow> bool" where
  "truthy JNull = False"
| "truthy (JBool b) = b"
| "truthy (JNum r) = (r \<noteq> 0)"
| "truthy (JStr s) = (s \<noteq> [])"
| "truthy (JArr xs) = True"
| "truthy (JObj kvs) = True"

text \<open>\<^verbatim>\<open>a === b\<close> between a value sent by the client and a value held by the server:
  primitives are compared by value, and an array or object of the client is never the
  same reference as one of the server.\<close>

fun strict_eq :: "json \<Rightarrow> json \<Rightarrow> bool" where
  "strict_eq JNull JNull = True"
| "strict_eq (JBool a) (JBool b) = (a = b)"
| "strict_eq (JNum a) (JNum b) = (a = b)"
| "strict_eq (JStr a) (JStr b) = (a = b)"
| "strict_eq _ _ = False"

section \<open>Multiple-choice grading (\<^verbatim>\<open>gradeMCQs\<close>, api/english-test.js)\<close>

record question =
  qid :: string
  qtype :: string
  answer :: json

record mcq_detail =
  detail_id :: string
  expected :: json
  selected :: "json option"
  isCorrect :: bool

record grading =
  correct :: nat
  total :: nat
  details :: "mcq_detail list"

text \<open>\<^verbatim>\<open>answers.reduce((acc,item,idx) => { acc[idx] = item; return acc; }, {})\<close>: the
  dictionary from positions to the items of the array.\<close>

definition answersByIndex_of :: "json list \<Rightarrow> nat \<rightharpoonup> json" where
  "answersByIndex_of answers = (\<lambda>idx. if idx < length answers then Some (answers ! idx) else None)"

text \<open>The body of \<^verbatim>\<open>questions.forEach((q, idx) => ...)\<close>, with the two variables it
  updates, \<^verbatim>\<open>correct\<close> and \<^verbatim>\<open>details\<close>.\<close>

fun gradeLoop ::
  "question list \<Rightarrow> nat \<Rightarrow> (nat \<rightharpoonup> json) \<Rightarrow> nat \<times> mcq_detail list \<Rightarrow> nat \<times> mcq_detail list" where
  "gradeLoop [] idx answersByIndex acc = acc"
| "gradeLoop (q # qs) idx answersByIndex (cnt, ds) =
     (if qtype q = ''mcq'' then
        (let sel = opt_prop (answersByIndex idx) ''selected'';
             ok = (case sel of None \<Rightarrow> False | Some v \<Rightarrow> strict_eq v (answer q))
         in gradeLoop qs (Suc idx) answersByIndex
              (if ok then Suc cnt else cnt,
               ds @ [\<lparr>detail_id = qid q, expected = answer q, selected = sel, isCorrect = ok\<rparr>]))
      else gradeLoop qs (Suc idx) answersByIndex (cnt, ds))"

definition gradeMCQs :: "question list \<Rightarrow> (nat \<rightharpoonup> json) \<Rightarrow> grading" where
  "gradeMCQs questions answersByIndex =
     (case gradeLoop questions 0 answersByIndex (0, []) of
        (cnt, ds) \<Rightarrow>
          \<lparr>correct = cnt,
           total = length (filter (\<lambda>q. qtype q = ''mcq'') questions),
           details = ds\<rparr>)"

text \<open>\<^verbatim>\<open>Math.round((grading.correct / Math.max(grading.total,1)) * 100)\<close> of the handler: the
  quotient is rounded to a double, then the product, and \<^verbatim>\<open>Math.round\<close> is exact.  The two
  counts are lengths of arrays, so they are doubles and nothing overflows.\<close>

definition mcqPercent_of :: "grading \<Rightarrow> int" where
  "mcqPercent_of g = Math_round (rnd (rnd (real (correct g) / real (max (total g) 1)) * 100))"

text \<open>The server-side canonical questions of the handler.\<close>

definition QUESTIONS :: "question list" where
  "QUESTIONS =
    [\<lparr>qid = ''q1'', qtype = ''mcq'', answer = JStr ''went''\<rparr>,
     \<lparr>qid = ''q2'', qtype = ''mcq'', answer = JStr ''study''\<rparr>,
     \<lparr>qid = ''q3'', qtype = ''mcq'', answer = JStr ''In a restaurant''\<rparr>,
     \<lparr>qid = ''q4'', qtype = ''mcq'', answer = JStr ''He doesn't like pizza''\<rparr>,
     \<lparr>qid = ''q5'', qtype = ''mcq'', answer = JStr ''Verb is incorrect''\<rparr>,
     \<lparr>qid = ''q6'', qtype = ''writing'', answer = JNull\<rparr>,
     \<lparr>qid = ''q7'', qtype = ''mcq'', answer = JStr ''had arrived''\<rparr>,
     \<lparr>qid = ''q8'', qtype = ''mcq'', answer = JStr ''The project will be finished next week''\<rparr>,
     \<lparr>qid = ''q9'', qtype = ''mcq'', answer = JStr ''should have''\<rparr>,
     \<lparr>qid = ''q10'', qtype = ''mcq'', answer = JStr ''He said he was busy''\<rparr>,
     \<lparr>qid = ''q11'', qtype = ''mcq'', answer = JStr ''turn off''\<rparr>]"

section \<open>TranscriptionOrchestrator (\<^verbatim>\<open>pollTranscript\<close>, api/assessSpeaking.js)\<close>

text \<open>
  One answer of the provider to \<^verbatim>\<open>GET /v2/transcript/{id}\<close>: the request is rejected
  (\<^verbatim>\<open>fetch\<close> throws), the body is not JSON (\<^verbatim>\<open>r.json()\<close> throws), or the body is an object,
  read at its properties \<^verbatim>\<open>status\<close>, \<^verbatim>\<open>text\<close> and \<^verbatim>\<open>error\<close> (strings when present).
\<close>

datatype poll_reply =
    PollRejected
  | PollNotJson
  | PollBody "string option" "string option" "string option"

text \<open>\<^verbatim>\<open>x || d\<close> on a string that may be absent.\<close>

definition str_or :: "string option \<Rightarrow> string \<Rightarrow> string" where
  "str_or x d = (case x of None \<Rightarrow> d | Some s \<Rightarrow> if s = [] then d else s)"

text \<open>The body of the loop after the wait: \<open>None\<close> when the loop goes round again.\<close>

fun poll_step :: "poll_reply \<Rightarrow> (js_error + string option) option" where
  "poll_step PollRejected = Some (Inl FetchError)"
| "poll_step PollNotJson = Some (Inl SyntaxError)"
| "poll_step (PollBody status text err) =
     (if status = Some ''completed'' then Some (Inr text)
      else if status = Some ''error''
      then Some (Inl (Error (''Transcription error: '' @ str_or err ''unknown'')))
      else None)"

text \<open>The requests made so far and the time spent in \<^verbatim>\<open>setTimeout(r, 3000)\<close>.\<close>

record poll_clock =
  requests :: nat
  waited_ms :: nat

text \<open>\<^verbatim>\<open>while (true)\<close>: the loop may run forever, which is the value \<open>None\<close>.  The provider
  is the sequence of its answers.\<close>

partial_function (option) pollTranscript ::
  "(nat \<Rightarrow> poll_reply) \<Rightarrow> poll_clock \<Rightarrow> ((js_error + string option) \<times> poll_clock) option" where
  "pollTranscript provider c =
     (let c' = \<lparr>requests = Suc (requests c), waited_ms = waited_ms c + 3000\<rparr>
      in case poll_step (provider (requests c)) of
           Some r \<Rightarrow> Some (r, c')
         | None \<Rightarrow> pollTranscript provider c')"

section \<open>\<^verbatim>\<open>JSON.parse\<close>\<close>

text \<open>
  The built-in \<^verbatim>\<open>JSON.parse\<close>, as a lexer followed by a pushdown automaton over the tokens;
  \<open>None\<close> stands for the SyntaxError it throws.  The grammar is that of ECMA-404.  Numbers
  are read as exact reals.  Strings are 8-bit: an escape \<^verbatim>\<open>\uXXXX\<close> above \<^verbatim>\<open>00FF\<close> is outside
  the model and rejected.  A repeated key of an object keeps its first position and takes
  the last value.
\<close>

subsection \<open>Characters\<close>

definition is_digit :: "char \<Rightarrow> bool" where
  "is_digit c = (48 \<le> (of_char c :: nat) \<and> (of_char c :: nat) \<le> 57)"

definition digit_of :: "char \<Rightarrow> nat" where
  "digit_of c = of_char c - 48"

definition digits_val :: "string \<Rightarrow> nat" where
  "digits_val ds = foldl (\<lambda>a c. 10 * a + digit_of c) 0 ds"

text \<open>The white space of JSON: space, tab, line feed, carriage return.\<close>

definition is_json_ws :: "char \<Rightarrow> bool" where
  "is_json_ws c = (c = CHR 0x20 \<or> c = CHR 0x09 \<or> c = CHR 0x0A \<or> c = CHR 0x0D)"

text \<open>The white space and line terminators of JavaScript below \<^verbatim>\<open>0100\<close>, which
  \<^verbatim>\<open>trim\<close> removes.\<close>

definition is_js_space :: "char \<Rightarrow> bool" where
  "is_js_space c = (c = CHR 0x20 \<or> c = CHR 0x09 \<or> c = CHR 0x0A \<or> c = CHR 0x0B
      \<or> c = CHR 0x0C \<or> c = CHR 0x0D \<or> c = CHR 0xA0)"

text \<open>An ASCII capital letter as its small letter.\<close>

definition lower_ascii :: "char \<Rightarrow> char" where
  "lower_ascii c = (if 65 \<le> (of_char c :: nat) \<and> (of_char c :: nat) \<le> 90
                    then char_of (of_char c + 32 :: nat) else c)"

definition hex_val :: "char \<Rightarrow> nat option" where
  "hex_val c = (let n = (of_char c :: nat) in
     if 48 \<le> n \<and> n \<le> 57 then Some (n - 48)
     else if 65 \<le> n \<and> n \<le> 70 then Some (n - 55)
     else if 97 \<le> n \<and> n \<le> 102 then Some (n - 87)
     else None)"

subsection \<open>Tokens\<close>

datatype token =
    TLBrace | TRBrace | TLBrack | TRBrack | TColon | TComma
  | TString string | TNumber real | TTrue | TFalse | TNull

text \<open>The character a backslash escape of one letter stands for.\<close>

definition unescape :: "char \<Rightarrow> char option" where
  "unescape e =
     (if e = CHR 0x22 then Some (CHR 0x22)
      else if e = CHR 0x5C then Some (CHR 0x5C)
      else if e = CHR ''/'' then Some (CHR ''/'')
      else if e = CHR ''b'' then Some (CHR 0x08)
      else if e = CHR ''f'' then Some (CHR 0x0C)
      else if e = CHR ''n'' then Some (CHR 0x0A)
      else if e = CHR ''r'' then Some (CHR 0x0D)
      else if e = CHR ''t'' then Some (CHR 0x09)
      else None)"

definition hex4 :: "string \<Rightarrow> nat option" where
  "hex4 s = (case map hex_val s of
      [Some a, Some b, Some c, Some d] \<Rightarrow> Some (((a * 16 + b) * 16 + c) * 16 + d)
    | _ \<Rightarrow> None)"

text \<open>A string after its opening quote: its characters and the input after the closing
  quote.  A control character must be escaped.\<close>

fun lex_string :: "string \<Rightarrow> (string \<times> string) option" where
  "lex_string [] = None"
| "lex_string (c # cs) =
     (if c = CHR 0x22 then Some ([], cs)
      else if c = CHR 0x5C then
        (case cs of
           [] \<Rightarrow> None
         | e # rest \<Rightarrow>
             if e = CHR ''u'' then
               (case hex4 (take 4 rest) of
                  None \<Rightarrow> None
                | Some n \<Rightarrow>
                    if n < 256 then map_option (\<lambda>(s, r). (char_of n # s, r)) (lex_string (drop 4 rest))
                    else None)
             else
               (case unescape e of
                  None \<Rightarrow> None
                | Some ch \<Rightarrow> map_option (\<lambda>(s, r). (ch # s, r)) (lex_string rest)))
      else if (of_char c :: nat) < 32 then None
      else map_option (\<lambda>(s, r). (c # s, r)) (lex_string cs))"

text \<open>A number: an optional minus, an integer part without leading zero, an optional
  fraction with at least one digit, an optional exponent with at least one digit.\<close>

definition frac_part :: "string \<Rightarrow> (string \<times> string) option" where
  "frac_part s =
     (case s of
        [] \<Rightarrow> Some ([], [])
      | c # r \<Rightarrow>
          if c = CHR ''.'' then
            (if takeWhile is_digit r = [] then None
             else Some (takeWhile is_digit r, dropWhile is_digit r))
          else Some ([], s))"

definition exp_part :: "string \<Rightarrow> (int \<times> string) option" where
  "exp_part s =
     (case s of
        [] \<Rightarrow> Some (0, [])
      | c # r \<Rightarrow>
          if c = CHR ''e'' \<or> c = CHR ''E'' then
            (let (sg, r1) =
                   (case r of
                      [] \<Rightarrow> (1, r)
                    | d # r' \<Rightarrow>
                        if d = CHR ''+'' then (1, r')
                        else if d = CHR ''-'' then (- 1, r')
                        else (1, r))
             in if takeWhile is_digit r1 = [] then None
                else Some (sg * int (digits_val (takeWhile is_digit r1)), dropWhile is_digit r1))
          else Some (0, s))"

definition pow10 :: "int \<Rightarrow> real" where
  "pow10 e = (if 0 \<le> e then 10 ^ nat e else 1 / 10 ^ nat (- e))"

definition lex_number :: "string \<Rightarrow> (real \<times> string) option" where
  "lex_number s =
     (let (neg, s1) = (case s of [] \<Rightarrow> (False, s)
                       | c # r \<Rightarrow> if c = CHR ''-'' then (True, r) else (False, s));
          ip = takeWhile is_digit s1
      in if ip = [] \<or> (1 < length ip \<and> hd ip = CHR ''0'') then None
         else
           (case frac_part (dropWhile is_digit s1) of
              None \<Rightarrow> None
            | Some (fp, s3) \<Rightarrow>
                (case exp_part s3 of
                   None \<Rightarrow> None
                 | Some (ex, s4) \<Rightarrow>
                     Some ((if neg then - 1 else 1)
                           * (real (digits_val ip) + real (digits_val fp) / 10 ^ length fp)
                           * pow10 ex, s4))))"

text \<open>Each token consumes input, which is what the termination of \<open>lex\<close> rests on.\<close>

lemma lex_string_length:
  "lex_string s = Some (str, rest) \<Longrightarrow> length rest < length s"
proof (induction s arbitrary: str rest rule: lex_string.induct)
  case 1
  then show ?case by simp
next
  case (2 c cs)
  show ?case
  proof (cases "c = CHR 0x22")
    case True
    with 2(4) show ?thesis by simp
  next
    case nq: False
    show ?thesis
    proof (cases "c = CHR 0x5C")
      case True
      with nq 2(4) obtain e r where cs: "cs = e # r"
        by (cases cs) auto
      show ?thesis
      proof (cases "e = CHR ''u''")
        case u: True
        from 2(4) nq True cs u obtain n s' where
          h: "hex4 (take 4 r) = Some n" "n < 256" "lex_string (drop 4 r) = Some (s', rest)"
          by (auto split: option.splits if_splits)
        from 2(1) [OF nq True cs u h(1) h(2) h(3)] have "length rest < length (drop 4 r)" .
        then show ?thesis using cs by simp
      next
        case nu: False
        from 2(4) nq True cs nu obtain ch s' where
          h: "unescape e = Some ch" "lex_string r = Some (s', rest)"
          by (auto split: option.splits if_splits)
        from 2(2) [OF nq True cs nu h(1) h(2)] have "length rest < length r" .
        then show ?thesis using cs by simp
      qed
    next
      case nb: False
      from 2(4) nq nb obtain s' where
        h: "\<not> (of_char c :: nat) < 32" "lex_string cs = Some (s', rest)"
        by (auto split: option.splits if_splits)
      from 2(3) [OF nq nb h(1) h(2)] have "length rest < length cs" .
      then show ?thesis by simp
    qed
  qed
qed

lemma frac_part_length: "frac_part s = Some (fp, r) \<Longrightarrow> length r \<le> length s"
  by (auto simp: frac_part_def length_dropWhile_le le_SucI split: list.splits if_splits)

lemma exp_part_length: "exp_part s = Some (e, r) \<Longrightarrow> length r \<le> length s"
  by (auto simp: exp_part_def Let_def length_dropWhile_le le_SucI
      intro: order_trans [OF length_dropWhile_le]
      split: list.splits if_splits prod.splits)

lemma lex_number_length:
  assumes "lex_number s = Some (v, r)"
  shows "length r < length s"
proof -
  obtain neg s1 where ns: "(case s of [] \<Rightarrow> (False, s)
        | c # r \<Rightarrow> if c = CHR ''-'' then (True, r) else (False, s)) = (neg, s1)"
    by (cases "(case s of [] \<Rightarrow> (False, s)
        | c # r \<Rightarrow> if c = CHR ''-'' then (True, r) else (False, s))") auto
  then have s1: "length s1 \<le> length s"
    by (auto split: list.splits if_splits)
  from assms ns have ip: "takeWhile is_digit s1 \<noteq> []"
    by (auto simp: lex_number_def Let_def split: if_splits)
  from assms ns ip obtain fp s3 ex where
    f: "frac_part (dropWhile is_digit s1) = Some (fp, s3)" and e: "exp_part s3 = Some (ex, r)"
    by (auto simp: lex_number_def Let_def split: if_splits option.splits)
  have "length (takeWhile is_digit s1) + length (dropWhile is_digit s1) = length s1"
    by (metis length_append takeWhile_dropWhile_id)
  with ip have "length (dropWhile is_digit s1) < length s1"
    by (cases "takeWhile is_digit s1") auto
  with frac_part_length [OF f] exp_part_length [OF e] s1 show ?thesis
    by linarith
qed

text \<open>The tokens of a text; \<open>None\<close> when some character starts no token.\<close>

function lex :: "string \<Rightarrow> token list option" where
  "lex [] = Some []"
| "lex (c # cs) =
     (if is_json_ws c then lex cs
      else if c = CHR ''{'' then map_option (Cons TLBrace) (lex cs)
      else if c = CHR ''}'' then map_option (Cons TRBrace) (lex cs)
      else if c = CHR ''['' then map_option (Cons TLBrack) (lex cs)
      else if c = CHR '']'' then map_option (Cons TRBrack) (lex cs)
      else if c = CHR '':'' then map_option (Cons TColon) (lex cs)
      else if c = CHR '','' then map_option (Cons TComma) (lex cs)
      else if c = CHR 0x22 then
        (case lex_string cs of
           None \<Rightarrow> None
         | Some (str, rest) \<Rightarrow> map_option (Cons (TString str)) (lex rest))
      else if c = CHR ''-'' \<or> is_digit c then
        (case lex_number (c # cs) of
           None \<Rightarrow> None
         | Some (r, rest) \<Rightarrow> map_option (Cons (TNumber r)) (lex rest))
      else if take 4 (c # cs) = ''true'' then map_option (Cons TTrue) (lex (drop 3 cs))
      else if take 5 (c # cs) = ''false'' then map_option (Cons TFalse) (lex (drop 4 cs))
      else if take 4 (c # cs) = ''null'' then map_option (Cons TNull) (lex (drop 3 cs))
      else None)"
  by pat_completeness auto
termination
proof (relation "measure length", goal_cases)
  case 1
  then show ?case by simp
next
  case (9 c cs x2 x y)
  then show ?case using lex_string_length [of cs x y] by simp
next
  case (10 c cs x2 x y)
  then show ?case using lex_number_length [of "c # cs" x y] by simp
qed simp_all

subsection \<open>Parser\<close>

text \<open>
  The stack holds the arrays and objects that are still open, an object being followed by
  the key whose value is being read.  The mode says what may come next.
\<close>

datatype frame = InArr "json list" | InObj "(string \<times> json) list" | Key string

datatype mode =
    MValue | MArrStart | MArrNext | MObjStart | MObjNext | MKey | MColon | MDone json

text \<open>Setting a property of an object.\<close>

fun put :: "string \<Rightarrow> json \<Rightarrow> (string \<times> json) list \<Rightarrow> (string \<times> json) list" where
  "put k v [] = [(k, v)]"
| "put k v ((k', v') # kvs) = (if k = k' then (k, v) # kvs else (k', v') # put k v kvs)"

text \<open>A value is complete: it is the result, the next element of the open array, or the
  value of the pending key of the open object.\<close>

fun complete :: "json \<Rightarrow> frame list \<Rightarrow> (mode \<times> frame list) option" where
  "complete v [] = Some (MDone v, [])"
| "complete v (InArr acc # st) = Some (MArrNext, InArr (acc @ [v]) # st)"
| "complete v (Key k # InObj kvs # st) = Some (MObjNext, InObj (put k v kvs) # st)"
| "complete v _ = None"

text \<open>A token where a value is expected.\<close>

fun value_start :: "frame list \<Rightarrow> token \<Rightarrow> (mode \<times> frame list) option" where
  "value_start st TLBrace = Some (MObjStart, InObj [] # st)"
| "value_start st TLBrack = Some (MArrStart, InArr [] # st)"
| "value_start st (TString s) = complete (JStr s) st"
| "value_start st (TNumber r) = complete (JNum r) st"
| "value_start st TTrue = complete (JBool True) st"
| "value_start st TFalse = complete (JBool False) st"
| "value_start st TNull = complete JNull st"
| "value_start st _ = None"

text \<open>One token in a given mode.\<close>

fun step :: "mode \<Rightarrow> frame list \<Rightarrow> token \<Rightarrow> (mode \<times> frame list) option" where
  "step MValue st t = value_start st t"
| "step MArrStart (InArr acc # st) TRBrack = complete (JArr acc) st"
| "step MArrStart st t = value_start st t"
| "step MArrNext (InArr acc # st) TComma = Some (MValue, InArr acc # st)"
| "step MArrNext (InArr acc # st) TRBrack = complete (JArr acc) st"
| "step MObjStart (InObj kvs # st) TRBrace = complete (JObj kvs) st"
| "step MObjStart st (TString k) = Some (MColon, Key k # st)"
| "step MKey st (TString k) = Some (MColon, Key k # st)"
| "step MColon st TColon = Some (MValue, st)"
| "step MObjNext (InObj kvs # st) TComma = Some (MKey, InObj kvs # st)"
| "step MObjNext (InObj kvs # st) TRBrace = complete (JObj kvs) st"
| "step _ _ _ = None"

text \<open>The run over the tokens: the text must end exactly when a value is complete and
  nothing is open.\<close>

fun pda :: "mode \<Rightarrow> frame list \<Rightarrow> token list \<Rightarrow> json option" where
  "pda m st [] = (case m of MDone v \<Rightarrow> Some v | _ \<Rightarrow> None)"
| "pda m st (t # ts) = (case step m st t of None \<Rightarrow> None | Some (m', st') \<Rightarrow> pda m' st' ts)"

definition JSON_parse :: "string \<Rightarrow> json option" where
  "JSON_parse s = (case lex s of None \<Rightarrow> None | Some ts \<Rightarrow> pda MValue [] ts)"

section \<open>ResponseNormalizer\<close>

text \<open>
  The same lines stand in all three files:
  \<^verbatim>\<open>raw = String(raw).replace(/```json/gi, "").replace(/```/g, "").trim()\<close>, then
  \<^verbatim>\<open>JSON.parse(raw)\<close> and, when that throws, \<^verbatim>\<open>raw.match(/\{[\s\S]*\}/)\<close>.
\<close>

subsection \<open>String operations\<close>

text \<open>\<open>prefix_by eq pat s\<close>: the pattern matches at the start of \<open>s\<close>, characters
  being compared by \<open>eq\<close>.\<close>

fun prefix_by :: "(char \<Rightarrow> char \<Rightarrow> bool) \<Rightarrow> string \<Rightarrow> string \<Rightarrow> bool" where
  "prefix_by eq [] s = True"
| "prefix_by eq (p # ps) [] = False"
| "prefix_by eq (p # ps) (c # cs) = (eq p c \<and> prefix_by eq ps cs)"

text \<open>The flag \<^verbatim>\<open>i\<close> of the regular expression, on ASCII letters.\<close>

definition eq_ci :: "char \<Rightarrow> char \<Rightarrow> bool" where
  "eq_ci p c = (lower_ascii p = lower_ascii c)"

text \<open>\<^verbatim>\<open>s.replace(/pat/g, "")\<close>: the matches are found from left to right and do not
  overlap.\<close>

function remove_all :: "(char \<Rightarrow> char \<Rightarrow> bool) \<Rightarrow> string \<Rightarrow> string \<Rightarrow> string" where
  "remove_all eq pat [] = []"
| "remove_all eq pat (c # cs) =
     (if pat \<noteq> [] \<and> prefix_by eq pat (c # cs)
      then remove_all eq pat (drop (length pat) (c # cs))
      else c # remove_all eq pat cs)"
  by pat_completeness auto
termination
  by (relation "measure (\<lambda>(eq, pat, s). length s)") (auto simp: neq_Nil_conv)

definition strip_fences :: "string \<Rightarrow> string" where
  "strip_fences raw = remove_all (=) ''```'' (remove_all eq_ci ''```json'' raw)"

text \<open>\<^verbatim>\<open>s.trim()\<close>, with the white space and line terminators below \<^verbatim>\<open>0100\<close>.\<close>

definition trim :: "string \<Rightarrow> string" where
  "trim s = rev (dropWhile is_js_space (rev (dropWhile is_js_space s)))"

text \<open>\<^verbatim>\<open>raw.match(/\{[\s\S]*\}/)\<close>: the span from the first \<^verbatim>\<open>{\<close> to the last \<^verbatim>\<open>}\<close>
  after it, when there is one.\<close>

definition brace_match :: "string \<Rightarrow> string option" where
  "brace_match s =
     (let m = rev (dropWhile (\<lambda>c. c \<noteq> CHR ''}'') (rev (dropWhile (\<lambda>c. c \<noteq> CHR ''{'') s)))
      in if m = [] then None else Some m)"

text \<open>Lines 61 to 70 of \<^verbatim>\<open>callGeminiEvaluate\<close> (api/english-test.js), on the text
  \<^verbatim>\<open>String(raw)\<close> of the candidate.  The \<^verbatim>\<open>JSON.parse(m[0])\<close> inside the \<^verbatim>\<open>catch\<close> block is
  not guarded: its SyntaxError leaves the function.\<close>

definition callGeminiEvaluate_parse :: "string \<Rightarrow> js_error + json" where
  "callGeminiEvaluate_parse content =
     (let raw = trim (strip_fences content) in
      case JSON_parse raw of
        Some parsed \<Rightarrow> Inr parsed
      | None \<Rightarrow>
          (case brace_match raw of
             Some m \<Rightarrow> (case JSON_parse m of Some parsed \<Rightarrow> Inr parsed | None \<Rightarrow> Inl SyntaxError)
           | None \<Rightarrow> Inl (Error ''Gemini returned unparsable JSON'')))"

text \<open>Lines 83 to 87 of \<^verbatim>\<open>callGemini\<close> (api/assessSpeaking.js), which are lines 69 to
  77 of the handler of api/assessWriting.js: without a match the result is the object
  \<^verbatim>\<open>{ raw }\<close>.\<close>

definition callGemini_parse :: "string \<Rightarrow> js_error + json" where
  "callGemini_parse content =
     (let raw = trim (strip_fences content) in
      case JSON_parse raw of
        Some parsed \<Rightarrow> Inr parsed
      | None \<Rightarrow>
          (case brace_match raw of
             Some m \<Rightarrow> (case JSON_parse m of Some parsed \<Rightarrow> Inr parsed | None \<Rightarrow> Inl SyntaxError)
           | None \<Rightarrow> Inr (JObj [(''raw'', JStr raw)])))"

section \<open>The persistent store\<close>

text \<open>
  A user document of the collection \<^verbatim>\<open>users\<close>, with the fields the handlers read and write;
  \<open>None\<close> is an absent field.  The level and its confidence are JSON values, since the
  writing and speaking paths store what the model returned.
\<close>

record user_doc =
  level :: "json option"
  levelConfidence :: "json option"
  lastAssessmentAt :: "int option"
  lastAssessmentDateISO :: date_field
  streak :: "nat option"
  avatars :: "string list option"

text \<open>\<^verbatim>\<open>userSnap.exists ? userSnap.data() : {}\<close>\<close>

definition empty_doc :: user_doc where
  "empty_doc = \<lparr>level = None, levelConfidence = None, lastAssessmentAt = None,
     lastAssessmentDateISO = Missing, streak = None, avatars = None\<rparr>"

definition user_data :: "(string \<rightharpoonup> user_doc) \<Rightarrow> string \<Rightarrow> user_doc" where
  "user_data us uid = (case us uid of None \<Rightarrow> empty_doc | Some d \<Rightarrow> d)"

record SubScores_reply =
  reply_vocab :: "real option"
  reply_grammar :: "real option"
  reply_cohesion :: "real option"

text \<open>What \<^verbatim>\<open>callGeminiEvaluate\<close> parsed, read at the properties the placement handler uses:
  \<^verbatim>\<open>scores\<close>, \<^verbatim>\<open>confidence\<close> and \<^verbatim>\<open>analysis\<close>.  \<open>None\<close> is a property that is absent or
  \<^verbatim>\<open>null\<close>; a score or confidence that is present is a finite number.\<close>

record gemini_reply =
  reply_scores :: "SubScores_reply option"
  reply_confidence :: "real option"
  reply_analysis :: "string option"

record placement_result =
  result_level :: string
  result_confidence :: real
  result_scores :: SubScores
  result_explanation :: string
  details_mcq :: "mcq_detail list"
  details_geminiRaw :: "gemini_reply option"

text \<open>A document of the sub-collection \<^verbatim>\<open>assessments\<close> of a user; \<open>atype\<close> is its field
  \<^verbatim>\<open>type\<close>.\<close>

datatype assessment =
    WritingEntry string json int
  | SpeakingEntry "string option" json int
  | PlacementEntry "json option" "json list" placement_result int

fun atype :: "assessment \<Rightarrow> string" where
  "atype (WritingEntry textSample result createdAt) = ''writing''"
| "atype (SpeakingEntry transcript result createdAt) = ''speaking''"
| "atype (PlacementEntry claimedLevel answers result createdAt) = ''placement''"

record firestore =
  users :: "string \<rightharpoonup> user_doc"
  assessments :: "string \<Rightarrow> assessment list"

text \<open>
  The client of the store (firebase-admin, which is not part of the repository) checks the
  data of a write before it sends anything, and throws on a value it does not take.  Two of
  its checks are modelled: a field whose value is \<^verbatim>\<open>undefined\<close> and a property whose name
  is the empty string are refused, at any depth.
\<close>

fun firestore_valid :: "json \<Rightarrow> bool" where
  "firestore_valid (JArr xs) = (\<forall>x \<in> set xs. firestore_valid x)"
| "firestore_valid (JObj kvs) = (\<forall>kv \<in> set kvs. fst kv \<noteq> [] \<and> firestore_valid (snd kv))"
| "firestore_valid v = True"

text \<open>A field that may be \<^verbatim>\<open>undefined\<close>.\<close>

definition defined_valid :: "json option \<Rightarrow> bool" where
  "defined_valid x = (case x of None \<Rightarrow> False | Some v \<Rightarrow> firestore_valid v)"

text \<open>The check on a document of the history.  The fields \<^verbatim>\<open>transcript\<close>,
  \<^verbatim>\<open>payload.claimedLevel\<close> and \<^verbatim>\<open>result.details.mcq[i].selected\<close> are the ones the handlers can
  leave \<^verbatim>\<open>undefined\<close>.\<close>

fun entry_valid :: "assessment \<Rightarrow> bool" where
  "entry_valid (WritingEntry textSample result createdAt) = firestore_valid result"
| "entry_valid (SpeakingEntry transcript result createdAt) =
     (transcript \<noteq> None \<and> firestore_valid result)"
| "entry_valid (PlacementEntry claimedLevel answers result createdAt) =
     (defined_valid claimedLevel \<and> firestore_valid (JArr answers)
      \<and> (\<forall>d \<in> set (details_mcq result). firestore_valid (expected d) \<and> defined_valid (selected d)))"

text \<open>
  What the store does with the calls of one request, once the client has taken their data:
  making the reference of the user and reading the document (\<^verbatim>\<open>doc(uid).get()\<close>), the write
  of the progress (\<^verbatim>\<open>userRef.set\<close>) and the write of the history entry (\<^verbatim>\<open>add\<close>, or \<^verbatim>\<open>set\<close>
  on a new document).  A call fails when the network or the backend fails it, or when the
  data breaks a rule of the store that is not modelled above.
\<close>

record store_calls =
  get_succeeds :: bool
  set_succeeds :: bool
  add_succeeds :: bool

section \<open>Responses and provider outcomes\<close>

datatype response_body =
    ErrorMessage string
  | Thrown js_error
  | GeminiError nat string
  | ModelResult json
  | PlacementResult placement_result

record response =
  http_status :: nat
  body :: response_body

text \<open>
  What the call of the generative model does: \<^verbatim>\<open>fetch\<close> rejects, the response is not
  \<^verbatim>\<open>ok\<close> (with its status and text), \<^verbatim>\<open>r.json()\<close> throws, or the body is JSON and
  \<^verbatim>\<open>String(j?.candidates?.[0]?.content || j?.content || JSON.stringify(j))\<close> is the given
  text.
\<close>

datatype gemini_http = FetchRejected | NotOk nat string | BodyNotJson | Candidate string

section \<open>Writing path (handler of api/assessWriting.js)\<close>

record writing_request =
  w_method :: string
  w_textSample :: "string option"
  w_uid :: "string option"

text \<open>\<^verbatim>\<open>!x\<close> on a string that may be absent.\<close>

definition falsy_str :: "string option \<Rightarrow> bool" where
  "falsy_str x = (case x of None \<Rightarrow> True | Some s \<Rightarrow> s = [])"

text \<open>\<^verbatim>\<open>parsed.level || "Unknown"\<close> and \<^verbatim>\<open>parsed.confidence ?? 0\<close>\<close>

definition level_or_unknown :: "json option \<Rightarrow> json" where
  "level_or_unknown x = (case x of None \<Rightarrow> JStr ''Unknown''
     | Some v \<Rightarrow> if truthy v then v else JStr ''Unknown'')"

definition confidence_or0 :: "json option \<Rightarrow> json" where
  "confidence_or0 x = (case x of None \<Rightarrow> JNum 0 | Some JNull \<Rightarrow> JNum 0 | Some v \<Rightarrow> v)"

text \<open>The effect of the two writes shared by the writing and speaking handlers:
  \<^verbatim>\<open>userRef.set({...}, { merge: true })\<close>, which leaves the other fields of the document as
  they are, and \<^verbatim>\<open>userRef.collection("assessments").add(...)\<close>.\<close>

definition set_progress ::
  "string \<Rightarrow> json \<Rightarrow> json \<Rightarrow> int \<Rightarrow> int \<Rightarrow> nat \<Rightarrow> firestore \<Rightarrow> firestore" where
  "set_progress uid lv conf now today st db =
     db\<lparr>users := (users db)(uid \<mapsto>
        (user_data (users db) uid)\<lparr>level := Some lv, levelConfidence := Some conf,
           lastAssessmentAt := Some now, lastAssessmentDateISO := Canon today,
           streak := Some st\<rparr>)\<rparr>"

definition add_assessment :: "string \<Rightarrow> assessment \<Rightarrow> firestore \<Rightarrow> firestore" where
  "add_assessment uid a db = db\<lparr>assessments := (assessments db)(uid := assessments db uid @ [a])\<rparr>"

text \<open>The handler.  The progress is written before the history entry, inside one \<^verbatim>\<open>try\<close>:
  when the second write throws, the request is answered with 500 and the first write
  stays.\<close>

definition assessWriting ::
  "int \<Rightarrow> store_calls \<Rightarrow> gemini_http \<Rightarrow> writing_request \<Rightarrow> firestore \<Rightarrow> response \<times> firestore"
  where
  "assessWriting now store gemini req db =
     (if w_method req \<noteq> ''POST''
      then (\<lparr>http_status = 405, body = ErrorMessage ''Method not allowed''\<rparr>, db)
      else if falsy_str (w_textSample req) \<or> falsy_str (w_uid req)
      then (\<lparr>http_status = 400, body = ErrorMessage ''textSample & uid required''\<rparr>, db)
      else
        (case gemini of
           FetchRejected \<Rightarrow> (\<lparr>http_status = 500, body = Thrown FetchError\<rparr>, db)
         | NotOk st txt \<Rightarrow> (\<lparr>http_status = 502, body = GeminiError st txt\<rparr>, db)
         | BodyNotJson \<Rightarrow> (\<lparr>http_status = 500, body = Thrown SyntaxError\<rparr>, db)
         | Candidate content \<Rightarrow>
             (case callGemini_parse content of
                Inl e \<Rightarrow> (\<lparr>http_status = 500, body = Thrown e\<rparr>, db)
              | Inr parsed \<Rightarrow>
                  if \<not> get_succeeds store
                  then (\<lparr>http_status = 500, body = Thrown StoreError\<rparr>, db)
                  else
                  (let uid = str_or (w_uid req) [];
                       userData = user_data (users db) uid;
                       r = computeNewStreak now (lastAssessmentDateISO userData) (streak userData)
                   in case dot_prop (Some parsed) ''level'' of
                        Inl e \<Rightarrow> (\<lparr>http_status = 500, body = Thrown e\<rparr>, db)
                      | Inr lv \<Rightarrow>
                          (let lv' = level_or_unknown lv;
                               conf = confidence_or0 (get_prop parsed ''confidence'')
                           in if \<not> (firestore_valid lv' \<and> firestore_valid conf
                                    \<and> set_succeeds store)
                              then (\<lparr>http_status = 500, body = Thrown StoreError\<rparr>, db)
                              else
                                (let db1 = set_progress uid lv' conf now (todayISO r) (new_streak r) db;
                                     entry = WritingEntry (str_or (w_textSample req) []) parsed now
                                 in if \<not> (entry_valid entry \<and> add_succeeds store)
                                    then (\<lparr>http_status = 500, body = Thrown StoreError\<rparr>, db1)
                                    else (\<lparr>http_status = 200, body = ModelResult parsed\<rparr>,
                                          add_assessment uid entry db1)))))))"

section \<open>Speaking path (api/assessSpeaking.js)\<close>

text \<open>A non-negative integer as JavaScript prints it in a string.\<close>

fun show_nat :: "nat \<Rightarrow> string" where
  "show_nat n = (if n < 10 then [char_of (48 + n)]
                 else show_nat (n div 10) @ [char_of (48 + n mod 10)])"

text \<open>
  What the two calls that start the transcription do: the file cannot be read, \<^verbatim>\<open>fetch\<close>
  rejects, \<^verbatim>\<open>r.json()\<close> throws, or the body is JSON, read at \<^verbatim>\<open>upload_url\<close> and at \<^verbatim>\<open>id\<close>.
  Neither function looks at the HTTP status.
\<close>

datatype upload_http = ReadFails | UploadRejected | UploadNotJson | UploadBody "string option"

datatype create_http = CreateRejected | CreateNotJson | CreateBody "string option"

fun uploadToAssembly :: "upload_http \<Rightarrow> js_error + string option" where
  "uploadToAssembly ReadFails = Inl FileError"
| "uploadToAssembly UploadRejected = Inl FetchError"
| "uploadToAssembly UploadNotJson = Inl SyntaxError"
| "uploadToAssembly (UploadBody upload_url) = Inr upload_url"

fun createTranscription :: "create_http \<Rightarrow> js_error + string option" where
  "createTranscription CreateRejected = Inl FetchError"
| "createTranscription CreateNotJson = Inl SyntaxError"
| "createTranscription (CreateBody tid) = Inr tid"

fun callGemini :: "gemini_http \<Rightarrow> js_error + json" where
  "callGemini FetchRejected = Inl FetchError"
| "callGemini (NotOk st txt) = Inl (Error (''Gemini error '' @ show_nat st))"
| "callGemini BodyNotJson = Inl SyntaxError"
| "callGemini (Candidate content) = callGemini_parse content"

record speaking_request =
  s_method :: string
  s_uid :: "string option"
  s_file :: "string option"

record speaking_env =
  env_upload :: upload_http
  env_create :: create_http
  env_provider :: "nat \<Rightarrow> poll_reply"
  env_gemini :: gemini_http

text \<open>The handler does not return while \<^verbatim>\<open>pollTranscript\<close> does not: the value \<open>None\<close>.
  \<^verbatim>\<open>db.collection("users").doc(uid)\<close> throws on an absent or empty \<^verbatim>\<open>uid\<close>.  The two writes
  are those of the writing handler, in the same order; the history entry carries the
  transcript, which is \<^verbatim>\<open>undefined\<close> (\<open>None\<close>) when the provider's answer has no \<^verbatim>\<open>text\<close>.\<close>

definition assessSpeaking ::
  "int \<Rightarrow> store_calls \<Rightarrow> speaking_env \<Rightarrow> speaking_request \<Rightarrow> firestore
     \<Rightarrow> (response \<times> firestore) option" where
  "assessSpeaking now store env req db =
     (if s_method req \<noteq> ''POST''
      then Some (\<lparr>http_status = 405, body = ErrorMessage ''Method not allowed''\<rparr>, db)
      else if s_file req = None
      then Some (\<lparr>http_status = 400, body = ErrorMessage ''file required''\<rparr>, db)
      else
        (case uploadToAssembly (env_upload env) of
           Inl e \<Rightarrow> Some (\<lparr>http_status = 500, body = Thrown e\<rparr>, db)
         | Inr uploadUrl \<Rightarrow>
        (case createTranscription (env_create env) of
           Inl e \<Rightarrow> Some (\<lparr>http_status = 500, body = Thrown e\<rparr>, db)
         | Inr transcriptId \<Rightarrow>
        (case pollTranscript (env_provider env) \<lparr>requests = 0, waited_ms = 0\<rparr> of
           None \<Rightarrow> None
         | Some (Inl e, c) \<Rightarrow> Some (\<lparr>http_status = 500, body = Thrown e\<rparr>, db)
         | Some (Inr transcriptText, c) \<Rightarrow>
        (case callGemini (env_gemini env) of
           Inl e \<Rightarrow> Some (\<lparr>http_status = 500, body = Thrown e\<rparr>, db)
         | Inr parsed \<Rightarrow>
             if falsy_str (s_uid req)
             then Some (\<lparr>http_status = 500, body = Thrown PathError\<rparr>, db)
             else if \<not> get_succeeds store
             then Some (\<lparr>http_status = 500, body = Thrown StoreError\<rparr>, db)
             else
               (let uid = str_or (s_uid req) [];
                    userData = user_data (users db) uid;
                    r = computeNewStreak now (lastAssessmentDateISO userData) (streak userData)
                in case dot_prop (Some parsed) ''level'' of
                     Inl e \<Rightarrow> Some (\<lparr>http_status = 500, body = Thrown e\<rparr>, db)
                   | Inr lv \<Rightarrow>
                       (let lv' = level_or_unknown lv;
                            conf = confidence_or0 (get_prop parsed ''confidence'')
                        in if \<not> (firestore_valid lv' \<and> firestore_valid conf
                                 \<and> set_succeeds store)
                           then Some (\<lparr>http_status = 500, body = Thrown StoreError\<rparr>, db)
                           else
                             (let db1 = set_progress uid lv' conf now (todayISO r) (new_streak r) db;
                                  entry = SpeakingEntry transcriptText parsed now
                              in if \<not> (entry_valid entry \<and> add_succeeds store)
                                 then Some (\<lparr>http_status = 500, body = Thrown StoreError\<rparr>, db1)
                                 else Some (\<lparr>http_status = 200, body = ModelResult parsed\<rparr>,
                                            add_assessment uid entry db1)))))))))"

section \<open>Placement path (handler of api/english-test.js)\<close>

record placement_request =
  p_method :: string
  p_uid :: "string option"
  p_claimedLevel :: "json option"
  p_answers :: "json option"

text \<open>What \<^verbatim>\<open>await callGeminiEvaluate(...)\<close> does: it throws (the request is rejected, the
  response is not \<^verbatim>\<open>ok\<close>, the body or the text cannot be parsed), it returns
  \<^verbatim>\<open>{ ok:false }\<close> for want of a key, or it returns \<^verbatim>\<open>{ ok:true, parsed }\<close>, \<open>None\<close> being a
  parsed \<^verbatim>\<open>null\<close>.\<close>

datatype evaluate_outcome = EvalThrows js_error | EvalNoKey | EvalParsed "gemini_reply option"

text \<open>The callback of \<^verbatim>\<open>answers.find\<close>:
  \<^verbatim>\<open>a.type === "writing" && a.writingSample && a.writingSample.trim().length >= 20\<close>.
  It throws a TypeError on an item that is \<^verbatim>\<open>null\<close>, and on a truthy \<^verbatim>\<open>writingSample\<close> that
  is not a string.\<close>

definition is_writing_entry :: "json \<Rightarrow> js_error + bool" where
  "is_writing_entry a =
     (case dot_prop (Some a) ''type'' of
        Inl e \<Rightarrow> Inl e
      | Inr ty \<Rightarrow>
          if ty \<noteq> Some (JStr ''writing'') then Inr False
          else
            (case get_prop a ''writingSample'' of
               None \<Rightarrow> Inr False
             | Some w \<Rightarrow>
                 if \<not> truthy w then Inr False
                 else (case w of JStr s \<Rightarrow> Inr (20 \<le> length (trim s)) | _ \<Rightarrow> Inl TypeError)))"

fun find_writing :: "json list \<Rightarrow> js_error + json option" where
  "find_writing [] = Inr None"
| "find_writing (a # as) =
     (case is_writing_entry a of
        Inl e \<Rightarrow> Inl e
      | Inr found \<Rightarrow> if found then Inr (Some a) else find_writing as)"

text \<open>\<^verbatim>\<open>geminiParsed?.scores?.vocab ?? mcqPercent\<close>, for each of the three scores.\<close>

definition merged_score ::
  "gemini_reply option \<Rightarrow> (SubScores_reply \<Rightarrow> real option) \<Rightarrow> real \<Rightarrow> real" where
  "merged_score geminiParsed sel mcqPercent =
     (case geminiParsed of
        None \<Rightarrow> mcqPercent
      | Some g \<Rightarrow>
          (case reply_scores g of
             None \<Rightarrow> mcqPercent
           | Some sc \<Rightarrow> (case sel sc of None \<Rightarrow> mcqPercent | Some x \<Rightarrow> x)))"

text \<open>The result object of the handler, from the grading and what the model returned.
  \<^verbatim>\<open>mcqPercent/100\<close> is a rounded quotient.\<close>

definition placement_result_of :: "grading \<Rightarrow> gemini_reply option \<Rightarrow> placement_result" where
  "placement_result_of grading geminiParsed =
     (let mcqPercent = real_of_int (mcqPercent_of grading);
          scores = \<lparr>vocab = Num (merged_score geminiParsed reply_vocab mcqPercent),
                    grammar = Num (merged_score geminiParsed reply_grammar mcqPercent),
                    cohesion = Num (merged_score geminiParsed reply_cohesion mcqPercent)\<rparr>;
          mapping = mapScoresToLevel scores;
          finalConfidence =
            (case geminiParsed of
               None \<Rightarrow> rnd (mcqPercent / 100)
             | Some g \<Rightarrow>
                 (case reply_confidence g of None \<Rightarrow> rnd (mcqPercent / 100) | Some c \<Rightarrow> c));
          analysis = (case geminiParsed of None \<Rightarrow> None | Some g \<Rightarrow> reply_analysis g)
      in \<lparr>result_level = map_level mapping,
          result_confidence = Number_or0 finalConfidence,
          result_scores = scores,
          result_explanation =
            (if falsy_str analysis
             then ''MCQ accuracy '' @ show_nat (correct grading) @ ''/'' @ show_nat (total grading)
             else str_or analysis []),
          details_mcq = details grading,
          details_geminiRaw = geminiParsed\<rparr>)"

text \<open>\<^verbatim>\<open>userData.avatars || []\<close>\<close>

definition avatars_or_empty :: "user_doc \<Rightarrow> string list" where
  "avatars_or_empty userData = (case avatars userData of None \<Rightarrow> [] | Some av \<Rightarrow> av)"

text \<open>\<^verbatim>\<open>if (streak >= th && !currentAvatars.includes(b)) currentAvatars.push(b)\<close>, and the four
  such lines of the handler in their order.\<close>

definition push_badge :: "nat \<Rightarrow> nat \<Rightarrow> string \<Rightarrow> string list \<Rightarrow> string list" where
  "push_badge st th b currentAvatars =
     (if th \<le> st \<and> b \<notin> set currentAvatars then currentAvatars @ [b] else currentAvatars)"

definition award_badges :: "nat \<Rightarrow> string list \<Rightarrow> string list" where
  "award_badges st currentAvatars =
     push_badge st 30 ''gold''
       (push_badge st 14 ''silver''
          (push_badge st 7 ''bronze''
             (push_badge st 3 ''starter'' currentAvatars)))"

text \<open>The handler.  The data of the progress write holds strings, numbers and the list of
  badges, which the client of the store takes.  The history entry is written after the
  progress, inside the same \<^verbatim>\<open>try\<close>.  It carries the reply of the model, kept here as the
  properties the handler reads: a reply with a value that the client refuses is a history
  write that fails (\<open>add_succeeds\<close>).\<close>

definition englishTest ::
  "int \<Rightarrow> store_calls \<Rightarrow> evaluate_outcome \<Rightarrow> placement_request \<Rightarrow> firestore
     \<Rightarrow> response \<times> firestore" where
  "englishTest now store evaluation req db =
     (if p_method req \<noteq> ''POST''
      then (\<lparr>http_status = 405, body = ErrorMessage ''Method not allowed''\<rparr>, db)
      else
        (case p_answers req of
           Some (JArr answers) \<Rightarrow>
             (let grading = gradeMCQs QUESTIONS (answersByIndex_of answers) in
              case find_writing answers of
                Inl e \<Rightarrow> (\<lparr>http_status = 500, body = Thrown e\<rparr>, db)
              | Inr writingEntry \<Rightarrow>
                  (let geminiParsed =
                         (if writingEntry = None then None
                          else (case evaluation of EvalParsed g \<Rightarrow> g | _ \<Rightarrow> None));
                       result = placement_result_of grading geminiParsed
                   in if falsy_str (p_uid req)
                      then (\<lparr>http_status = 200, body = PlacementResult result\<rparr>, db)
                      else if \<not> get_succeeds store
                      then (\<lparr>http_status = 500, body = Thrown StoreError\<rparr>, db)
                      else
                        (let uid = str_or (p_uid req) [];
                             userData = user_data (users db) uid
                         in case placementStreak now (lastAssessmentDateISO userData)
                                   (streak userData) of
                              Inl e \<Rightarrow> (\<lparr>http_status = 500, body = Thrown e\<rparr>, db)
                            | Inr st \<Rightarrow>
                                if \<not> set_succeeds store
                                then (\<lparr>http_status = 500, body = Thrown StoreError\<rparr>, db)
                                else
                                (let currentAvatars = award_badges st (avatars_or_empty userData);
                                     db1 = db\<lparr>users := (users db)(uid \<mapsto>
                                        userData\<lparr>level := Some (JStr (result_level result)),
                                          levelConfidence := Some (JNum (result_confidence result)),
                                          lastAssessmentAt := Some now,
                                          lastAssessmentDateISO := Canon (now div msPerDay),
                                          streak := Some st,
                                          avatars := Some currentAvatars\<rparr>)\<rparr>;
                                     entry = PlacementEntry (p_claimedLevel req) answers result now
                                 in if \<not> (entry_valid entry \<and> add_succeeds store)
                                    then (\<lparr>http_status = 500, body = Thrown StoreError\<rparr>, db1)
                                    else (\<lparr>http_status = 200, body = PlacementResult result\<rparr>,
                                          add_assessment uid entry db1)))))
         | _ \<Rightarrow> (\<lparr>http_status = 400, body = ErrorMessage ''answers required''\<rparr>, db)))"

section \<open>Properties of the double arithmetic\<close>

lemma expo_bounds:
  assumes "0 < x"
  shows "2 powi (expo x) \<le> x" and "x < 2 powi (expo x + 1)"
proof -
  have "2 powi (expo x) \<le> x \<and> x < 2 powi (expo x + 1)"
  proof (cases "1 \<le> x")
    case True
    define n where "n = \<lfloor>x\<rfloor>"
    have n: "1 \<le> n" using True by (simp add: n_def)
    then have n0: "0 < n" by simp
    from bitlen_bounds [OF n0] have b: "2 ^ nat (bitlen n - 1) \<le> n" "n < 2 ^ nat (bitlen n)"
      by simp_all
    have b1: "1 \<le> bitlen n"
      using n0 by (simp add: bitlen_alt_def)
    have e: "expo x = bitlen n - 1"
      using True by (simp add: expo_def n_def)
    have "real_of_int (2 ^ nat (bitlen n - 1)) \<le> real_of_int n"
      using b(1) by (simp only: of_int_le_iff)
    also have "\<dots> \<le> x" by (simp add: n_def)
    finally have lo: "2 powi (expo x) \<le> x"
      using b1 by (simp add: e power_int_def)
    have "x < real_of_int (n + 1)" unfolding n_def by linarith
    also have "\<dots> \<le> real_of_int (2 ^ nat (bitlen n))"
    proof -
      from b(2) have "n + 1 \<le> 2 ^ nat (bitlen n)" by simp
      then show ?thesis by (simp only: of_int_le_iff)
    qed
    finally have hi: "x < 2 powi (expo x + 1)"
      using b1 by (simp add: e power_int_def)
    from lo hi show ?thesis by simp
  next
    case False
    with assms have x1: "x < 1" by simp
    define N where "N = \<lceil>1 / x\<rceil>"
    define m where "m = N - 1"
    have "1 < 1 / x" using assms x1 by simp
    then have N: "2 \<le> N" unfolding N_def by linarith
    then have m0: "0 < m" by (simp add: m_def)
    from bitlen_bounds [OF m0] have b: "2 ^ nat (bitlen m - 1) \<le> m" "m < 2 ^ nat (bitlen m)"
      by simp_all
    have b1: "1 \<le> bitlen m"
      using m0 by (simp add: bitlen_alt_def)
    have e: "expo x = - bitlen m"
      using False by (simp add: expo_def N_def m_def)
    have "1 / x \<le> real_of_int N" unfolding N_def by linarith
    also have "\<dots> \<le> real_of_int (2 ^ nat (bitlen m))"
    proof -
      from b(2) have "N \<le> 2 ^ nat (bitlen m)" by (simp add: m_def)
      then show ?thesis by (simp only: of_int_le_iff)
    qed
    finally have "1 / x \<le> 2 ^ nat (bitlen m)" by simp
    then have "1 \<le> 2 ^ nat (bitlen m) * x"
      using assms by (simp add: field_simps)
    then have lo: "2 powi (expo x) \<le> x"
      using b1 by (simp add: e power_int_def field_simps)
    have "real_of_int (2 ^ nat (bitlen m - 1)) \<le> real_of_int m"
      using b(1) by (simp only: of_int_le_iff)
    also have "\<dots> < 1 / x" unfolding m_def N_def by linarith
    finally have "2 ^ nat (bitlen m - 1) < 1 / x" by simp
    then have "x < 1 / 2 ^ nat (bitlen m - 1)"
      using assms by (simp add: field_simps)
    moreover have "(2::real) powi (expo x + 1) = 1 / 2 ^ nat (bitlen m - 1)"
    proof (cases "bitlen m = 1")
      case True
      then show ?thesis by (simp add: e)
    next
      case False
      with b1 have "nat (bitlen m - 1) = nat (- (1 - bitlen m))" "\<not> 0 \<le> - bitlen m + 1" by simp_all
      then show ?thesis
        by (simp add: e power_int_def field_simps)
    qed
    ultimately have hi: "x < 2 powi (expo x + 1)"
      by (simp only:)
    from lo hi show ?thesis by simp
  qed
  then show "2 powi (expo x) \<le> x" and "x < 2 powi (expo x + 1)" by simp_all
qed


lemma round_even_of_int: "round_even (real_of_int k) = k"
  by (simp add: round_even_def)

lemma round_even_bounds:
  "y - 1 / 2 \<le> real_of_int (round_even y)" "real_of_int (round_even y) \<le> y + 1 / 2"
  unfolding round_even_def Let_def by (auto; linarith)+

lemma round_even_mono:
  assumes "x \<le> y"
  shows "round_even x \<le> round_even y"
proof (cases "x = y")
  case True
  then show ?thesis by simp
next
  case False
  with assms have lt: "x < y" by simp
  show ?thesis
  proof (rule ccontr)
    assume "\<not> round_even x \<le> round_even y"
    then have "round_even y + 1 \<le> round_even x" by simp
    then have "real_of_int (round_even y) + 1 \<le> real_of_int (round_even x)"
      by (metis of_int_1 of_int_add of_int_le_iff)
    with round_even_bounds(2) [of x] round_even_bounds(1) [of y] lt show False
      by linarith
  qed
qed

lemma ulp_pos: "0 < ulp x"
  by (simp add: ulp_def)

lemma expo_mono:
  assumes "0 < x" and "x \<le> y"
  shows "expo x \<le> expo y"
proof -
  have "(2::real) powi (expo x) < 2 powi (expo y + 1)"
    using expo_bounds(1) [OF assms(1)] expo_bounds(2) [of y] assms by linarith
  then have "\<not> expo y + 1 \<le> expo x"
    using power_int_increasing [of "expo y + 1" "expo x" "2::real"] by auto
  then show ?thesis by simp
qed


lemma ulp_eq: "ulp x * 2 ^ 52 = 2 powi (max (expo \<bar>x\<bar>) (- 1022))"
proof -
  have "(2::real) powi (max (expo \<bar>x\<bar>) (- 1022) - 52 + 52)
      = 2 powi (max (expo \<bar>x\<bar>) (- 1022) - 52) * 2 powi 52"
    by (rule power_int_add) simp
  then show ?thesis by (simp add: ulp_def)
qed

lemma rnd_upper:
  assumes "0 < x"
  shows "rnd x \<le> 2 * (ulp x * 2 ^ 52)"
proof -
  have "x < 2 powi (expo x + 1)" by (rule expo_bounds(2) [OF assms])
  also have "\<dots> \<le> 2 powi (max (expo \<bar>x\<bar>) (- 1022) + 1)"
    using assms by (intro power_int_increasing) simp_all
  also have "\<dots> = 2 powi (max (expo \<bar>x\<bar>) (- 1022)) * 2"
    by (simp add: power_int_add)
  also have "\<dots> = ulp x * 2 ^ 53" by (simp flip: ulp_eq)
  finally have "x / ulp x \<le> real_of_int (2 ^ 53)"
    using ulp_pos [of x] by (simp add: field_simps)
  then have "round_even (x / ulp x) \<le> round_even (real_of_int (2 ^ 53))"
    by (rule round_even_mono)
  then have "round_even (x / ulp x) \<le> 2 ^ 53"
    by (simp only: round_even_of_int)
  then have "real_of_int (round_even (x / ulp x)) \<le> real_of_int (2 ^ 53)"
    by (simp only: of_int_le_iff)
  then have "real_of_int (round_even (x / ulp x)) * ulp x \<le> real_of_int (2 ^ 53) * ulp x"
    using ulp_pos [of x] by (simp only: mult_le_cancel_right_pos)
  then show ?thesis using assms by (simp add: rnd_def)
qed

lemma rnd_lower:
  assumes "0 < x" and "- 1022 \<le> expo x"
  shows "ulp x * 2 ^ 52 \<le> rnd x"
proof -
  have m: "max (expo \<bar>x\<bar>) (- 1022) = expo x" using assms by simp
  have "ulp x * 2 ^ 52 \<le> x"
    unfolding ulp_eq m by (rule expo_bounds(1) [OF assms(1)])
  then have "real_of_int (2 ^ 52) \<le> x / ulp x"
    using ulp_pos [of x] by (simp add: field_simps)
  then have "round_even (real_of_int (2 ^ 52)) \<le> round_even (x / ulp x)"
    by (rule round_even_mono)
  then have "2 ^ 52 \<le> round_even (x / ulp x)"
    by (simp only: round_even_of_int)
  then have "real_of_int (2 ^ 52) \<le> real_of_int (round_even (x / ulp x))"
    by (simp only: of_int_le_iff)
  then have "real_of_int (2 ^ 52) * ulp x \<le> real_of_int (round_even (x / ulp x)) * ulp x"
    using ulp_pos [of x] by (simp only: mult_le_cancel_right_pos)
  then show ?thesis using assms by (simp add: rnd_def mult.commute)
qed

lemma rnd_nonneg:
  assumes "0 \<le> x"
  shows "0 \<le> rnd x"
proof -
  have "0 \<le> x / ulp x" using assms ulp_pos [of x] by simp
  then have "round_even (real_of_int 0) \<le> round_even (x / ulp x)"
    by (intro round_even_mono) simp
  then have "0 \<le> round_even (x / ulp x)"
    by (simp only: round_even_of_int)
  then show ?thesis using ulp_pos [of x] by (simp add: rnd_def)
qed

lemma rnd_mono:
  assumes "0 \<le> x" and "x \<le> y"
  shows "rnd x \<le> rnd y"
proof (cases "x = 0")
  case True
  then show ?thesis using rnd_nonneg [of y] assms by (simp add: rnd_def)
next
  case False
  with assms have x: "0 < x" and y: "0 < y" by simp_all
  have e: "expo x \<le> expo y" by (rule expo_mono [OF x assms(2)])
  show ?thesis
  proof (cases "max (expo \<bar>x\<bar>) (- 1022) = max (expo \<bar>y\<bar>) (- 1022)")
    case True
    then have u: "ulp x = ulp y" by (simp add: ulp_def)
    have "x / ulp y \<le> y / ulp y"
      using assms(2) ulp_pos [of y] by (simp add: divide_right_mono)
    then have "round_even (x / ulp y) \<le> round_even (y / ulp y)"
      by (rule round_even_mono)
    then have "real_of_int (round_even (x / ulp y)) \<le> real_of_int (round_even (y / ulp y))"
      by (simp only: of_int_le_iff)
    then have "real_of_int (round_even (x / ulp y)) * ulp y
        \<le> real_of_int (round_even (y / ulp y)) * ulp y"
      using ulp_pos [of y] by (simp only: mult_le_cancel_right_pos)
    then show ?thesis using x y by (simp add: rnd_def u)
  next
    case False
    with e x y have lt: "max (expo \<bar>x\<bar>) (- 1022) < expo y" and n: "- 1022 \<le> expo y"
      by (simp_all add: max_def split: if_splits)
    have "rnd x \<le> 2 * (ulp x * 2 ^ 52)" by (rule rnd_upper [OF x])
    also have "\<dots> = 2 powi (max (expo \<bar>x\<bar>) (- 1022) + 1)"
      using ulp_eq [of x] by (simp add: power_int_add)
    also have "\<dots> \<le> 2 powi (expo y)"
    proof -
      from lt have "max (expo \<bar>x\<bar>) (- 1022) + 1 \<le> expo y" by linarith
      then show ?thesis by (intro power_int_increasing) simp_all
    qed
    also have "\<dots> = ulp y * 2 ^ 52"
      using y n ulp_eq [of y] by simp
    also have "\<dots> \<le> rnd y" by (rule rnd_lower [OF y n])
    finally show ?thesis .
  qed
qed

lemma rnd_error: "\<bar>rnd x - x\<bar> \<le> ulp x / 2"
proof (cases "x = 0")
  case True
  then show ?thesis using ulp_pos [of 0] by (simp add: rnd_def)
next
  case False
  have "\<bar>real_of_int (round_even (x / ulp x)) - x / ulp x\<bar> \<le> 1 / 2"
    using round_even_bounds [of "x / ulp x"] by linarith
  then have "\<bar>real_of_int (round_even (x / ulp x)) - x / ulp x\<bar> * ulp x \<le> 1 / 2 * ulp x"
    using ulp_pos [of x] by (simp only: mult_le_cancel_right_pos)
  moreover have "\<bar>real_of_int (round_even (x / ulp x)) - x / ulp x\<bar> * ulp x
      = \<bar>real_of_int (round_even (x / ulp x)) * ulp x - x\<bar>"
  proof -
    have "\<bar>real_of_int (round_even (x / ulp x)) - x / ulp x\<bar> * ulp x
        = \<bar>(real_of_int (round_even (x / ulp x)) - x / ulp x) * ulp x\<bar>"
      using ulp_pos [of x] by (simp add: abs_mult)
    also have "(real_of_int (round_even (x / ulp x)) - x / ulp x) * ulp x
        = real_of_int (round_even (x / ulp x)) * ulp x - x"
      using ulp_pos [of x] by (simp add: field_simps)
    finally show ?thesis .
  qed
  ultimately show ?thesis using False by (simp add: rnd_def)
qed

lemma rnd_error_pow:
  assumes "- 1022 \<le> k" and "\<bar>x\<bar> \<le> 2 powi k"
  shows "\<bar>rnd x - x\<bar> \<le> 2 powi (k - 53)"
proof (cases "x = 0")
  case True
  then show ?thesis by (simp add: rnd_def)
next
  case False
  then have a: "0 < \<bar>x\<bar>" by simp
  have "(2::real) powi (expo \<bar>x\<bar>) \<le> 2 powi k"
    using expo_bounds(1) [OF a] assms(2) by linarith
  then have "\<not> k + 1 \<le> expo \<bar>x\<bar>"
    using power_int_strict_increasing [of k "expo \<bar>x\<bar>" "2::real"] by auto
  then have "max (expo \<bar>x\<bar>) (- 1022) \<le> k" using assms(1) by simp
  then have "ulp x \<le> 2 powi (k - 52)"
    unfolding ulp_def by (intro power_int_increasing) simp_all
  also have "\<dots> = 2 powi (k - 53) * 2"
    using power_int_add [of "2::real" "k - 53" 1] by simp
  finally show ?thesis using rnd_error [of x] by simp
qed

section \<open>Properties of the LevelMapper\<close>

lemma rnd_0: "rnd 0 = 0"
  by (simp add: rnd_def)

lemma to_double_128:
  assumes "\<bar>x\<bar> \<le> 128"
  shows "to_double x = Num (rnd x)" and "\<bar>rnd x - x\<bar> \<le> 1 / 70368744177664"
proof -
  have "\<bar>x\<bar> \<le> 2 powi 7" using assms by simp
  moreover have "(2::real) powi (7 - 53) = 1 / 70368744177664"
    by (simp add: power_int_def field_simps)
  ultimately show e: "\<bar>rnd x - x\<bar> \<le> 1 / 70368744177664"
    using rnd_error_pow [of 7 x] by simp
  have r: "\<bar>rnd x\<bar> \<le> 129" using e assms by linarith
  have "\<not> 1024 \<le> expo \<bar>rnd x\<bar>" if "rnd x \<noteq> 0"
  proof
    assume "1024 \<le> expo \<bar>rnd x\<bar>"
    then have "(2::real) powi 1024 \<le> 2 powi (expo \<bar>rnd x\<bar>)"
      by (intro power_int_increasing) simp_all
    also have "\<dots> \<le> \<bar>rnd x\<bar>"
      using that by (intro expo_bounds(1)) simp
    finally show False using r by simp
  qed
  then show "to_double x = Num (rnd x)"
    by (auto simp: to_double_def)
qed

lemma rnd_literals:
  "rnd (2 / 5) = 3602879701896397 / 9007199254740992"
  "rnd (1 / 5) = 3602879701896397 / 18014398509481984"
  by code_simp+

lemma num_or0_Num: "num_or0 (Num v) = Num v"
  by (simp add: num_or0_def)

lemma mapScoresToLevel_overall:
  "map_overall (mapScoresToLevel s) =
     jadd (jadd (jmul (Num (rnd 0.4)) (num_or0 (vocab s))) (jmul (Num (rnd 0.4)) (num_or0 (grammar s))))
       (jmul (Num (rnd 0.2)) (num_or0 (cohesion s)))"
  by (simp add: mapScoresToLevel_def Let_def)

lemma mapScoresToLevel_level:
  "map_level (mapScoresToLevel s) =
     (if jle (map_overall (mapScoresToLevel s)) 20 then ''A1''
      else if jle (map_overall (mapScoresToLevel s)) 35 then ''A2''
      else if jle (map_overall (mapScoresToLevel s)) 55 then ''B1''
      else if jle (map_overall (mapScoresToLevel s)) 75 then ''B2''
      else if jle (map_overall (mapScoresToLevel s)) 90 then ''C1''
      else ''C2'')"
  by (simp add: mapScoresToLevel_def Let_def)

lemma composite_error:
  assumes "0 \<le> v" "v \<le> 100" "0 \<le> g" "g \<le> 100" "0 \<le> c" "c \<le> 100"
  shows "\<exists>r. map_overall (mapScoresToLevel \<lparr>vocab = Num v, grammar = Num g, cohesion = Num c\<rparr>) = Num r
           \<and> \<bar>r - (0.4 * v + 0.4 * g + 0.2 * c)\<bar> \<le> 1 / 10 ^ 13"
proof -
  define k4 :: real where "k4 = 3602879701896397 / 9007199254740992"
  define k2 :: real where "k2 = 3602879701896397 / 18014398509481984"
  define p1 where "p1 = rnd (k4 * v)"
  define p2 where "p2 = rnd (k4 * g)"
  define p3 where "p3 = rnd (k2 * c)"
  define s1 where "s1 = rnd (p1 + p2)"
  define s2 where "s2 = rnd (s1 + p3)"
  have a1: "\<bar>k4 * v\<bar> \<le> 128" using assms by (simp add: k4_def abs_if)
  have a2: "\<bar>k4 * g\<bar> \<le> 128" using assms by (simp add: k4_def abs_if)
  have a3: "\<bar>k2 * c\<bar> \<le> 128" using assms by (simp add: k2_def abs_if)
  note e1 = to_double_128 [OF a1, folded p1_def]
  note e2 = to_double_128 [OF a2, folded p2_def]
  note e3 = to_double_128 [OF a3, folded p3_def]
  have a4: "\<bar>p1 + p2\<bar> \<le> 128"
    using e1(2) e2(2) assms unfolding k4_def by (simp add: abs_if split: if_splits)
  note e4 = to_double_128 [OF a4, folded s1_def]
  have a5: "\<bar>s1 + p3\<bar> \<le> 128"
    using e1(2) e2(2) e3(2) e4(2) assms unfolding k4_def k2_def
    by (simp add: abs_if split: if_splits)
  note e5 = to_double_128 [OF a5, folded s2_def]
  have ov: "map_overall (mapScoresToLevel \<lparr>vocab = Num v, grammar = Num g, cohesion = Num c\<rparr>)
      = Num s2"
    unfolding mapScoresToLevel_overall
    by (simp add: num_or0_Num jmul_def jadd_def rnd_literals e1(1) e2(1) e3(1) e4(1) e5(1)
        flip: k4_def k2_def p1_def p2_def p3_def s1_def s2_def)
  have "\<bar>s2 - (0.4 * v + 0.4 * g + 0.2 * c)\<bar> \<le> 1 / 10 ^ 13"
    using e1(2) e2(2) e3(2) e4(2) e5(2) assms unfolding k4_def k2_def
    by (simp add: abs_if split: if_splits)
  with ov show ?thesis by blast
qed

lemma jle_mono: "jle x a \<Longrightarrow> a \<le> b \<Longrightarrow> jle x b"
  by (cases x) simp_all

lemma rnd_boundaries: "20 < rnd 20.01" "rnd 20.01 \<le> 35" "90 < rnd 90.01"
  by code_simp+

text \<open>
  Claim C1.  The level mapper is a total function of the three sub-scores.  Its composite
  is the value of \<^verbatim>\<open>0.4*vocab + 0.4*grammar + 0.2*cohesion\<close> in the arithmetic of JavaScript
  numbers, where the two literals, the three products and the two sums are each rounded to
  the nearest double; for finite scores between 0 and 100 it is a finite number within
  \<open>1 / 10 ^ 13\<close> of the exact weighted sum.  The level is decided by the ascending
  inclusive thresholds 20, 35, 55, 75, 90 on that composite: each label is produced
  exactly on its interval, the last one also taking a composite that is NaN, so every
  input gets one of the six labels.  At the boundaries, a composite of 20 gives A1, 20.01
  gives A2, 90 gives C1 and 90.01 gives C2.
\<close>

theorem mapScoresToLevel_table:
  fixes s :: SubScores
  defines "ov \<equiv> map_overall (mapScoresToLevel s)"
  defines "lv \<equiv> map_level (mapScoresToLevel s)"
  shows "ov = jadd (jadd (jmul (Num (rnd 0.4)) (num_or0 (vocab s)))
                      (jmul (Num (rnd 0.4)) (num_or0 (grammar s))))
                (jmul (Num (rnd 0.2)) (num_or0 (cohesion s)))
    \<and> (lv = ''A1'' \<longleftrightarrow> jle ov 20)
    \<and> (lv = ''A2'' \<longleftrightarrow> \<not> jle ov 20 \<and> jle ov 35)
    \<and> (lv = ''B1'' \<longleftrightarrow> \<not> jle ov 35 \<and> jle ov 55)
    \<and> (lv = ''B2'' \<longleftrightarrow> \<not> jle ov 55 \<and> jle ov 75)
    \<and> (lv = ''C1'' \<longleftrightarrow> \<not> jle ov 75 \<and> jle ov 90)
    \<and> (lv = ''C2'' \<longleftrightarrow> \<not> jle ov 90)
    \<and> lv \<in> set [''A1'', ''A2'', ''B1'', ''B2'', ''C1'', ''C2'']
    \<and> (ov = Num 20 \<longrightarrow> lv = ''A1'')
    \<and> (ov = Num (rnd 20.01) \<longrightarrow> lv = ''A2'')
    \<and> (ov = Num 90 \<longrightarrow> lv = ''C1'')
    \<and> (ov = Num (rnd 90.01) \<longrightarrow> lv = ''C2'')
    \<and> (\<forall>v g c. s = \<lparr>vocab = Num v, grammar = Num g, cohesion = Num c\<rparr>
          \<and> 0 \<le> v \<and> v \<le> 100 \<and> 0 \<le> g \<and> g \<le> 100 \<and> 0 \<le> c \<and> c \<le> 100 \<longrightarrow>
          (\<exists>r. ov = Num r \<and> \<bar>r - (0.4 * v + 0.4 * g + 0.2 * c)\<bar> \<le> 1 / 10 ^ 13))"
proof -
  have o: "ov = jadd (jadd (jmul (Num (rnd 0.4)) (num_or0 (vocab s)))
                      (jmul (Num (rnd 0.4)) (num_or0 (grammar s))))
                (jmul (Num (rnd 0.2)) (num_or0 (cohesion s)))"
    unfolding ov_def by (rule mapScoresToLevel_overall)
  have l: "lv = (if jle ov 20 then ''A1'' else if jle ov 35 then ''A2''
       else if jle ov 55 then ''B1'' else if jle ov 75 then ''B2''
       else if jle ov 90 then ''C1'' else ''C2'')"
    unfolding lv_def ov_def by (rule mapScoresToLevel_level)
  have m: "jle ov 20 \<Longrightarrow> jle ov 35" "jle ov 35 \<Longrightarrow> jle ov 55" "jle ov 55 \<Longrightarrow> jle ov 75"
    "jle ov 75 \<Longrightarrow> jle ov 90"
    by (erule jle_mono, simp)+
  have a1: "lv = ''A1'' \<longleftrightarrow> jle ov 20"
    unfolding l by simp
  have a2: "lv = ''A2'' \<longleftrightarrow> \<not> jle ov 20 \<and> jle ov 35"
    unfolding l by simp
  have b1: "lv = ''B1'' \<longleftrightarrow> \<not> jle ov 35 \<and> jle ov 55"
    unfolding l using m by auto
  have b2: "lv = ''B2'' \<longleftrightarrow> \<not> jle ov 55 \<and> jle ov 75"
    unfolding l using m by auto
  have c1: "lv = ''C1'' \<longleftrightarrow> \<not> jle ov 75 \<and> jle ov 90"
    unfolding l using m by auto
  have c2: "lv = ''C2'' \<longleftrightarrow> \<not> jle ov 90"
    unfolding l using m by auto
  have six: "lv \<in> set [''A1'', ''A2'', ''B1'', ''B2'', ''C1'', ''C2'']"
    unfolding l by simp
  have e1: "ov = Num 20 \<longrightarrow> lv = ''A1''"
    unfolding a1 by simp
  have e2: "ov = Num (rnd 20.01) \<longrightarrow> lv = ''A2''"
    unfolding a2 using rnd_boundaries by simp
  have e3: "ov = Num 90 \<longrightarrow> lv = ''C1''"
    unfolding c1 by simp
  have e4: "ov = Num (rnd 90.01) \<longrightarrow> lv = ''C2''"
    unfolding c2 using rnd_boundaries by simp
  have err: "\<forall>v g c. s = \<lparr>vocab = Num v, grammar = Num g, cohesion = Num c\<rparr>
          \<and> 0 \<le> v \<and> v \<le> 100 \<and> 0 \<le> g \<and> g \<le> 100 \<and> 0 \<le> c \<and> c \<le> 100 \<longrightarrow>
          (\<exists>r. ov = Num r \<and> \<bar>r - (0.4 * v + 0.4 * g + 0.2 * c)\<bar> \<le> 1 / 10 ^ 13)"
    unfolding ov_def using composite_error by blast
  from o a1 a2 b1 b2 c1 c2 six e1 e2 e3 e4 err show ?thesis by blast
qed

lemma composite_72_68_70_steps:
  "to_double (rnd 0.4 * 72) = Num (8106479329266893 / 281474976710656)"
  "to_double (rnd 0.4 * 68) = Num (1914029841632461 / 70368744177664)"
  "to_double (rnd 0.2 * 70) = Num 14"
  "to_double (8106479329266893 / 281474976710656 + 1914029841632461 / 70368744177664) = Num 56"
  "to_double (56 + 14) = Num 70"
  by code_simp+

lemma composite_0_2_96_steps:
  "to_double (rnd 0.4 * 0) = Num 0"
  "to_double (rnd 0.4 * 2) = Num (3602879701896397 / 4503599627370496)"
  "to_double (rnd 0.2 * 96) = Num (1351079888211149 / 70368744177664)"
  "to_double (0 + 3602879701896397 / 4503599627370496) = Num (3602879701896397 / 4503599627370496)"
  "to_double (3602879701896397 / 4503599627370496 + 1351079888211149 / 70368744177664) = Num (5629499534213121 / 281474976710656)"
  by code_simp+

lemma composite_20_steps:
  "to_double (rnd 0.4 * 20) = Num 8"
  "to_double (rnd 0.2 * 20) = Num 4"
  "to_double (8 + 8) = Num 16"
  "to_double (16 + 4) = Num 20"
  by code_simp+

lemma composite_90_steps:
  "to_double (rnd 0.4 * 90) = Num 36"
  "to_double (rnd 0.2 * 90) = Num 18"
  "to_double (36 + 36) = Num 72"
  "to_double (72 + 18) = Num 90"
  by code_simp+

lemma composite_examples:
  "map_overall (mapScoresToLevel \<lparr>vocab = Num 72, grammar = Num 68, cohesion = Num 70\<rparr>) = Num 70"
  "map_overall (mapScoresToLevel \<lparr>vocab = Num 0, grammar = Num 2, cohesion = Num 96\<rparr>)
     = Num (5629499534213121 / 281474976710656)"
  "map_overall (mapScoresToLevel \<lparr>vocab = Num 20, grammar = Num 20, cohesion = Num 20\<rparr>) = Num 20"
  "map_overall (mapScoresToLevel \<lparr>vocab = Num 90, grammar = Num 90, cohesion = Num 90\<rparr>) = Num 90"
  "map_overall (mapScoresToLevel \<lparr>vocab = PosInf, grammar = Num 0, cohesion = NegInf\<rparr>) = NaN"
proof -
  show "map_overall (mapScoresToLevel \<lparr>vocab = Num 72, grammar = Num 68, cohesion = Num 70\<rparr>)
      = Num 70"
    using composite_72_68_70_steps
    by (simp add: mapScoresToLevel_overall num_or0_def jmul_def jadd_def)
  show "map_overall (mapScoresToLevel \<lparr>vocab = Num 0, grammar = Num 2, cohesion = Num 96\<rparr>)
     = Num (5629499534213121 / 281474976710656)"
    using composite_0_2_96_steps
    by (simp add: mapScoresToLevel_overall num_or0_def jmul_def jadd_def)
  show "map_overall (mapScoresToLevel \<lparr>vocab = Num 20, grammar = Num 20, cohesion = Num 20\<rparr>)
      = Num 20"
    using composite_20_steps
    by (simp add: mapScoresToLevel_overall num_or0_def jmul_def jadd_def)
  show "map_overall (mapScoresToLevel \<lparr>vocab = Num 90, grammar = Num 90, cohesion = Num 90\<rparr>)
      = Num 90"
    using composite_90_steps
    by (simp add: mapScoresToLevel_overall num_or0_def jmul_def jadd_def)
  show "map_overall (mapScoresToLevel \<lparr>vocab = PosInf, grammar = Num 0, cohesion = NegInf\<rparr>) = NaN"
    by (simp add: mapScoresToLevel_overall num_or0_def jmul_def jadd_def signed_inf_def
        rnd_literals to_double_def rnd_0)
qed

theorem mapScoresToLevel_table_witness:
  "map_overall (mapScoresToLevel \<lparr>vocab = Num 72, grammar = Num 68, cohesion = Num 70\<rparr>) = Num 70
   \<and> map_level (mapScoresToLevel \<lparr>vocab = Num 72, grammar = Num 68, cohesion = Num 70\<rparr>) = ''B2''
   \<and> map_overall (mapScoresToLevel \<lparr>vocab = Num 0, grammar = Num 2, cohesion = Num 96\<rparr>)
       = Num (5629499534213121 / 281474976710656)
   \<and> map_level (mapScoresToLevel \<lparr>vocab = Num 0, grammar = Num 2, cohesion = Num 96\<rparr>) = ''A2''
   \<and> map_level (mapScoresToLevel \<lparr>vocab = Num 20, grammar = Num 20, cohesion = Num 20\<rparr>) = ''A1''
   \<and> map_level (mapScoresToLevel \<lparr>vocab = Num 90, grammar = Num 90, cohesion = Num 90\<rparr>) = ''C1''
   \<and> map_level (mapScoresToLevel \<lparr>vocab = PosInf, grammar = Num 0, cohesion = NegInf\<rparr>) = ''C2''"
  using mapScoresToLevel_table [of "\<lparr>vocab = Num 72, grammar = Num 68, cohesion = Num 70\<rparr>"]
    mapScoresToLevel_table [of "\<lparr>vocab = Num 0, grammar = Num 2, cohesion = Num 96\<rparr>"]
    mapScoresToLevel_table [of "\<lparr>vocab = Num 20, grammar = Num 20, cohesion = Num 20\<rparr>"]
    mapScoresToLevel_table [of "\<lparr>vocab = Num 90, grammar = Num 90, cohesion = Num 90\<rparr>"]
    mapScoresToLevel_table [of "\<lparr>vocab = PosInf, grammar = Num 0, cohesion = NegInf\<rparr>"]
  unfolding composite_examples
  by simp

section \<open>Properties of the StreakEngine\<close>

lemma msPerDay_pos: "0 < msPerDay"
  by (simp add: msPerDay_def)

lemma diffDays_exact:
  "Math_round (real_of_int (Date_of_day a - Date_of_day b) / real_of_int msPerDay) = a - b"
proof -
  have "Date_of_day a - Date_of_day b = (a - b) * msPerDay"
    by (simp add: Date_of_day_def algebra_simps)
  moreover have "real_of_int msPerDay \<noteq> 0"
    using msPerDay_pos by simp
  ultimately have "real_of_int (Date_of_day a - Date_of_day b) / real_of_int msPerDay
      = real_of_int (a - b)"
    by simp
  then show ?thesis
    by (simp add: Math_round_def)
qed

lemma diffDays_exact':
  "Math_round ((real_of_int (Date_of_day a) - real_of_int (Date_of_day b)) / real_of_int msPerDay)
     = a - b"
  using diffDays_exact [of a b] by simp

lemma computeNewStreak_days:
  "computeNewStreak now prevISO ps =
     (let today = now div msPerDay in
      case isoDay prevISO of
        None \<Rightarrow> \<lparr>new_streak = 1, todayISO = today, updated = True\<rparr>
      | Some d \<Rightarrow>
          if d = today then \<lparr>new_streak = streak_or ps 1, todayISO = today, updated = False\<rparr>
          else if d = today - 1
          then \<lparr>new_streak = streak_or ps 0 + 1, todayISO = today, updated = True\<rparr>
          else \<lparr>new_streak = 1, todayISO = today, updated = True\<rparr>)"
  by (cases prevISO) (auto simp: computeNewStreak_def Let_def diffDays_exact')

lemma placementStreak_days:
  "placementStreak now lastDate us =
     (let today = now div msPerDay in
      if lastDate = Canon today then Inr (streak_or us 0)
      else if lastDate = Missing then Inr 1
      else case isoDay lastDate of
        None \<Rightarrow> Inl RangeError
      | Some d \<Rightarrow> if d = today - 1 then Inr (streak_or us 0 + 1) else Inr 1)"
  by (cases lastDate)
    (auto simp: placementStreak_def Let_def diffDays_exact' streak_or_def split: option.splits)

text \<open>
  Claim C2.  \<open>computeNewStreak\<close>, for every clock value, previous date and previous streak
  count (absent, zero or positive): an absent previous date gives streak 1, changed;
  a previous date on today's calendar day gives the previous streak (1 when that was zero
  or absent), not changed; a previous date on the day before today gives the previous
  streak plus one, changed; a previous date on any other day, past or future, gives
  streak 1, changed, and so does a value that is no date.  The result always carries
  today's date.
\<close>

theorem computeNewStreak_cases:
  fixes now :: int and prevISO :: date_field and prevStreak :: "nat option"
  defines "today \<equiv> now div msPerDay"
  defines "prev \<equiv> (case prevStreak of None \<Rightarrow> 0 | Some n \<Rightarrow> n)"
  shows "(prevISO = Missing \<longrightarrow>
            computeNewStreak now prevISO prevStreak
              = \<lparr>new_streak = 1, todayISO = today, updated = True\<rparr>)
    \<and> (isoDay prevISO = Some today \<longrightarrow>
            computeNewStreak now prevISO prevStreak
              = \<lparr>new_streak = (if prev = 0 then 1 else prev), todayISO = today, updated = False\<rparr>)
    \<and> (isoDay prevISO = Some (today - 1) \<longrightarrow>
            computeNewStreak now prevISO prevStreak
              = \<lparr>new_streak = prev + 1, todayISO = today, updated = True\<rparr>)
    \<and> (\<forall>d. isoDay prevISO = Some d \<and> d \<noteq> today \<and> d \<noteq> today - 1 \<longrightarrow>
            computeNewStreak now prevISO prevStreak
              = \<lparr>new_streak = 1, todayISO = today, updated = True\<rparr>)
    \<and> (prevISO = Malformed \<longrightarrow>
            computeNewStreak now prevISO prevStreak
              = \<lparr>new_streak = 1, todayISO = today, updated = True\<rparr>)"
  unfolding today_def prev_def computeNewStreak_days [of now prevISO prevStreak]
  by (auto simp: Let_def streak_or_def split: option.splits)

theorem computeNewStreak_cases_witness:
  "computeNewStreak 1793620800000 Missing (Some 0)
      = \<lparr>new_streak = 1, todayISO = 20759, updated = True\<rparr>
   \<and> computeNewStreak 1793620800000 (Canon 20759) (Some 5)
      = \<lparr>new_streak = 5, todayISO = 20759, updated = False\<rparr>
   \<and> computeNewStreak 1793620800000 (Canon 20758) (Some 5)
      = \<lparr>new_streak = 6, todayISO = 20759, updated = True\<rparr>
   \<and> computeNewStreak 1793620800000 (Canon 20756) (Some 5)
      = \<lparr>new_streak = 1, todayISO = 20759, updated = True\<rparr>"
proof -
  have t: "(1793620800000::int) div msPerDay = 20759"
    by (simp add: msPerDay_def)
  show ?thesis
    using computeNewStreak_cases [of Missing 1793620800000 "Some 0"]
      computeNewStreak_cases [of "Canon 20759" 1793620800000 "Some 5"]
      computeNewStreak_cases [of "Canon 20758" 1793620800000 "Some 5"]
      computeNewStreak_cases [of "Canon 20756" 1793620800000 "Some 5"]
    by (simp add: t)
qed

section \<open>Properties of the multiple-choice grading\<close>

lemma gradeLoop_fst:
  "fst (gradeLoop qs k a (c, ds)) =
     c + length (filter (\<lambda>(i, q). \<exists>v. opt_prop (a i) ''selected'' = Some v \<and> strict_eq v (answer q))
           (filter (\<lambda>(i, q). qtype q = ''mcq'') (enumerate k qs)))"
  by (induction qs arbitrary: k c ds) (auto simp: Let_def split: option.splits)

lemma gradeLoop_snd:
  "snd (gradeLoop qs k a (c, ds)) =
     ds @ map (\<lambda>(i, q). \<lparr>detail_id = qid q, expected = answer q,
                 selected = opt_prop (a i) ''selected'',
                 isCorrect = (\<exists>v. opt_prop (a i) ''selected'' = Some v \<and> strict_eq v (answer q))\<rparr>)
           (filter (\<lambda>(i, q). qtype q = ''mcq'') (enumerate k qs))"
  by (induction qs arbitrary: k c ds) (auto simp: Let_def split: option.splits)

lemma total_gradeMCQs:
  "total (gradeMCQs qs a) = length (filter (\<lambda>q. qtype q = ''mcq'') qs)"
  by (simp add: gradeMCQs_def split: prod.splits)

lemma length_filter_enumerate:
  "length (filter (\<lambda>(i, q). P q) (enumerate k qs)) = length (filter P qs)"
  by (induction qs arbitrary: k) auto

lemma gradeMCQs_correct_le_total: "correct (gradeMCQs qs a) \<le> total (gradeMCQs qs a)"
proof -
  have "correct (gradeMCQs qs a) = fst (gradeLoop qs 0 a (0, []))"
    by (simp add: gradeMCQs_def split: prod.splits)
  also have "\<dots> \<le> length (filter (\<lambda>(i, q). qtype q = ''mcq'') (enumerate 0 qs))"
    unfolding gradeLoop_fst add_0 by (rule length_filter_le)
  also have "\<dots> = total (gradeMCQs qs a)"
    by (simp add: gradeMCQs_def length_filter_enumerate split: prod.splits)
  finally show ?thesis .
qed

lemma rnd_fixed: "rnd 1 = 1" "rnd 100 = 100"
  by code_simp+

lemma mcqPercent_bounds:
  assumes "correct g \<le> total g"
  shows "0 \<le> mcqPercent_of g" "mcqPercent_of g \<le> 100" "total g = 0 \<Longrightarrow> mcqPercent_of g = 0"
proof -
  define q where "q = rnd (real (correct g) / real (max (total g) 1))"
  define y where "y = rnd (q * 100)"
  have m: "0 < real (max (total g) 1)" by simp
  have "real (correct g) \<le> real (max (total g) 1)" using assms by simp
  then have le: "real (correct g) / real (max (total g) 1) \<le> 1"
    using m by (simp add: field_simps)
  have ge: "0 \<le> real (correct g) / real (max (total g) 1)" by simp
  have q0: "0 \<le> q" unfolding q_def by (rule rnd_nonneg [OF ge])
  have q1: "q \<le> 1" unfolding q_def using rnd_mono [OF ge le] by (simp only: rnd_fixed)
  have y0: "0 \<le> y" unfolding y_def using q0 by (intro rnd_nonneg) simp
  have "rnd (q * 100) \<le> rnd 100"
    using q0 q1 by (intro rnd_mono) simp_all
  then have y1: "y \<le> 100" unfolding y_def by (simp only: rnd_fixed)
  have p: "mcqPercent_of g = Math_round y"
    by (simp add: mcqPercent_of_def y_def q_def)
  show "0 \<le> mcqPercent_of g"
    unfolding p Math_round_def using y0 by linarith
  show "mcqPercent_of g \<le> 100"
    unfolding p Math_round_def using y1 by linarith
  show "mcqPercent_of g = 0" if "total g = 0"
    using that assms by (simp add: mcqPercent_of_def Math_round_def rnd_0)
qed

text \<open>
  Claim C4.  For every question list and every answer list, with \<open>sel i\<close> the value
  \<^verbatim>\<open>answers[i]?.selected\<close> (absent when the list has no item at position \<open>i\<close>, or the item
  is null or has no such property): only the questions of type \<^verbatim>\<open>mcq\<close> are counted in
  \<open>total\<close>; the number of correct ones is the number of multiple-choice questions whose
  position carries a selected value strictly equal to the question's answer; every
  multiple-choice question gets a detail entry, a missing selection being recorded as not
  correct; and the percentage is \<^verbatim>\<open>Math.round((correct / Math.max(total,1)) * 100)\<close> in the
  arithmetic of JavaScript numbers, where the quotient and the product are each rounded to
  the nearest double; it is 0 when there is no multiple-choice question and always lies
  between 0 and 100.
\<close>

theorem gradeMCQs_correct:
  fixes questions :: "question list" and answers :: "json list"
  defines "g \<equiv> gradeMCQs questions (answersByIndex_of answers)"
  defines "sel \<equiv> \<lambda>i. opt_prop (if i < length answers then Some (answers ! i) else None) ''selected''"
  defines "mcqs \<equiv> filter (\<lambda>(i, q). qtype q = ''mcq'') (enumerate 0 questions)"
  shows "total g = length mcqs
    \<and> correct g = length (filter (\<lambda>(i, q). \<exists>v. sel i = Some v \<and> strict_eq v (answer q)) mcqs)
    \<and> details g = map (\<lambda>(i, q). \<lparr>detail_id = qid q, expected = answer q, selected = sel i,
                          isCorrect = (\<exists>v. sel i = Some v \<and> strict_eq v (answer q))\<rparr>) mcqs
    \<and> mcqPercent_of g = Math_round (rnd (rnd (real (correct g) / real (max (total g) 1)) * 100))
    \<and> (total g = 0 \<longrightarrow> mcqPercent_of g = 0)
    \<and> 0 \<le> mcqPercent_of g \<and> mcqPercent_of g \<le> 100"
proof -
  have t: "total g = length mcqs"
    by (simp add: g_def mcqs_def gradeMCQs_def length_filter_enumerate split: prod.splits)
  have "correct g = fst (gradeLoop questions 0 (answersByIndex_of answers) (0, []))"
    by (simp add: g_def gradeMCQs_def split: prod.splits)
  then have c: "correct g
      = length (filter (\<lambda>(i, q). \<exists>v. sel i = Some v \<and> strict_eq v (answer q)) mcqs)"
    unfolding gradeLoop_fst by (simp add: sel_def mcqs_def answersByIndex_of_def)
  have "details g = snd (gradeLoop questions 0 (answersByIndex_of answers) (0, []))"
    by (simp add: g_def gradeMCQs_def split: prod.splits)
  then have d: "details g = map (\<lambda>(i, q). \<lparr>detail_id = qid q, expected = answer q, selected = sel i,
                          isCorrect = (\<exists>v. sel i = Some v \<and> strict_eq v (answer q))\<rparr>) mcqs"
    unfolding gradeLoop_snd by (simp add: sel_def mcqs_def answersByIndex_of_def)
  have le: "correct g \<le> total g"
    unfolding g_def by (rule gradeMCQs_correct_le_total)
  have p: "mcqPercent_of g
      = Math_round (rnd (rnd (real (correct g) / real (max (total g) 1)) * 100))"
    by (simp add: mcqPercent_of_def)
  from t c d p mcqPercent_bounds [OF le] show ?thesis by blast
qed


lemma percent_examples:
  "Math_round (rnd (rnd (2 / 10) * 100)) = 20"
  "Math_round (rnd (rnd (3 / 5) * 100)) = 60"
  "Math_round (rnd (rnd (23 / 40) * 100)) = 57"
  "rnd (rnd (23 / 40) * 100) = 8092405580431359 / 140737488355328"
  by code_simp+

lemma grade_examples:
  "correct (gradeMCQs QUESTIONS (answersByIndex_of
        [JObj [(''selected'', JStr ''went'')], JObj [(''selected'', JStr ''studies'')],
         JNull, JObj [(''type'', JStr ''mcq'')], JObj [(''selected'', JStr ''Verb is incorrect'')]])) = 2"
  "correct (gradeMCQs (replicate 5 \<lparr>qid = ''q'', qtype = ''mcq'', answer = JStr ''a''\<rparr>)
        (answersByIndex_of (replicate 3 (JObj [(''selected'', JStr ''a'')])))) = 3"
  "correct (gradeMCQs (replicate 40 \<lparr>qid = ''q'', qtype = ''mcq'', answer = JStr ''a''\<rparr>)
        (answersByIndex_of (replicate 23 (JObj [(''selected'', JStr ''a'')])))) = 23"
  by code_simp+

theorem gradeMCQs_correct_witness:
  "total (gradeMCQs [\<lparr>qid = ''q6'', qtype = ''writing'', answer = JNull\<rparr>]
            (answersByIndex_of [JObj [(''selected'', JNull)]])) = 0
   \<and> mcqPercent_of (gradeMCQs [\<lparr>qid = ''q6'', qtype = ''writing'', answer = JNull\<rparr>]
            (answersByIndex_of [JObj [(''selected'', JNull)]])) = 0
   \<and> correct (gradeMCQs QUESTIONS (answersByIndex_of
        [JObj [(''selected'', JStr ''went'')], JObj [(''selected'', JStr ''studies'')],
         JNull, JObj [(''type'', JStr ''mcq'')], JObj [(''selected'', JStr ''Verb is incorrect'')]])) = 2
   \<and> total (gradeMCQs QUESTIONS (answersByIndex_of
        [JObj [(''selected'', JStr ''went'')], JObj [(''selected'', JStr ''studies'')],
         JNull, JObj [(''type'', JStr ''mcq'')], JObj [(''selected'', JStr ''Verb is incorrect'')]])) = 10
   \<and> mcqPercent_of (gradeMCQs QUESTIONS (answersByIndex_of
        [JObj [(''selected'', JStr ''went'')], JObj [(''selected'', JStr ''studies'')],
         JNull, JObj [(''type'', JStr ''mcq'')], JObj [(''selected'', JStr ''Verb is incorrect'')]])) = 20
   \<and> total (gradeMCQs (replicate 5 \<lparr>qid = ''q'', qtype = ''mcq'', answer = JStr ''a''\<rparr>)
        (answersByIndex_of (replicate 3 (JObj [(''selected'', JStr ''a'')])))) = 5
   \<and> mcqPercent_of (gradeMCQs (replicate 5 \<lparr>qid = ''q'', qtype = ''mcq'', answer = JStr ''a''\<rparr>)
        (answersByIndex_of (replicate 3 (JObj [(''selected'', JStr ''a'')])))) = 60
   \<and> total (gradeMCQs (replicate 40 \<lparr>qid = ''q'', qtype = ''mcq'', answer = JStr ''a''\<rparr>)
        (answersByIndex_of (replicate 23 (JObj [(''selected'', JStr ''a'')])))) = 40
   \<and> mcqPercent_of (gradeMCQs (replicate 40 \<lparr>qid = ''q'', qtype = ''mcq'', answer = JStr ''a''\<rparr>)
        (answersByIndex_of (replicate 23 (JObj [(''selected'', JStr ''a'')])))) = 57"
proof -
  have a: "total (gradeMCQs [\<lparr>qid = ''q6'', qtype = ''writing'', answer = JNull\<rparr>]
            (answersByIndex_of [JObj [(''selected'', JNull)]])) = 0"
    by (simp add: total_gradeMCQs)
  have c: "total (gradeMCQs QUESTIONS a) = 10"
    "total (gradeMCQs (replicate 5 \<lparr>qid = ''q'', qtype = ''mcq'', answer = JStr ''a''\<rparr>) a) = 5"
    "total (gradeMCQs (replicate 40 \<lparr>qid = ''q'', qtype = ''mcq'', answer = JStr ''a''\<rparr>) a) = 40"
    for a
    by (simp_all add: total_gradeMCQs QUESTIONS_def)
  note p = gradeMCQs_correct [THEN conjunct2, THEN conjunct2, THEN conjunct2, THEN conjunct1]
  have w1: "mcqPercent_of (gradeMCQs [\<lparr>qid = ''q6'', qtype = ''writing'', answer = JNull\<rparr>]
            (answersByIndex_of [JObj [(''selected'', JNull)]])) = 0"
    using gradeMCQs_correct [of "[\<lparr>qid = ''q6'', qtype = ''writing'', answer = JNull\<rparr>]"
        "[JObj [(''selected'', JNull)]]"] a
    by blast
  have w2: "mcqPercent_of (gradeMCQs QUESTIONS (answersByIndex_of
        [JObj [(''selected'', JStr ''went'')], JObj [(''selected'', JStr ''studies'')],
         JNull, JObj [(''type'', JStr ''mcq'')], JObj [(''selected'', JStr ''Verb is incorrect'')]])) = 20"
    using p [of QUESTIONS "[JObj [(''selected'', JStr ''went'')],
         JObj [(''selected'', JStr ''studies'')],
         JNull, JObj [(''type'', JStr ''mcq'')], JObj [(''selected'', JStr ''Verb is incorrect'')]]"]
      percent_examples(1)
    by (simp add: c grade_examples)
  have w3: "mcqPercent_of (gradeMCQs (replicate 5 \<lparr>qid = ''q'', qtype = ''mcq'', answer = JStr ''a''\<rparr>)
        (answersByIndex_of (replicate 3 (JObj [(''selected'', JStr ''a'')])))) = 60"
    using p [of "replicate 5 \<lparr>qid = ''q'', qtype = ''mcq'', answer = JStr ''a''\<rparr>"
        "replicate 3 (JObj [(''selected'', JStr ''a'')])"] percent_examples(2)
    by (simp add: c grade_examples)
  have w4: "mcqPercent_of (gradeMCQs (replicate 40 \<lparr>qid = ''q'', qtype = ''mcq'', answer = JStr ''a''\<rparr>)
        (answersByIndex_of (replicate 23 (JObj [(''selected'', JStr ''a'')])))) = 57"
    using p [of "replicate 40 \<lparr>qid = ''q'', qtype = ''mcq'', answer = JStr ''a''\<rparr>"
        "replicate 23 (JObj [(''selected'', JStr ''a'')])"] percent_examples(3)
    by (simp add: c grade_examples)
  from a c grade_examples w1 w2 w3 w4 show ?thesis
    by (simp only:) 
qed

section \<open>The two streak computations compared\<close>

lemma streak_computations_agree:
  assumes "prev = Missing \<or> (\<exists>d. prev = Canon d)"
    and "prev = Canon (now div msPerDay) \<Longrightarrow> streak_or ps 0 \<noteq> 0"
  shows "placementStreak now prev ps = Inr (new_streak (computeNewStreak now prev ps))"
  using assms
  unfolding placementStreak_days computeNewStreak_days
  by (auto simp: Let_def streak_or_def split: option.splits)

text \<open>
  Claim C10.  The two streak computations do not agree on every pair of previous date and
  previous streak.  On a record dated today whose streak is zero or absent,
  \<open>computeNewStreak\<close> (writing and speaking paths) yields 1, while the computation written
  inline in the placement handler leaves the streak at 0.
\<close>

theorem streak_computations_differ_same_day:
  "new_streak (computeNewStreak 1793620800000 (Canon 20759) (Some 0)) = 1
   \<and> placementStreak 1793620800000 (Canon 20759) (Some 0) = Inr 0
   \<and> new_streak (computeNewStreak 1793620800000 (Canon 20759) None) = 1
   \<and> placementStreak 1793620800000 (Canon 20759) None = Inr 0"
proof -
  have t: "(1793620800000::int) div msPerDay = 20759"
    by (simp add: msPerDay_def)
  show ?thesis
    by (simp add: computeNewStreak_days placementStreak_days t streak_or_def)
qed

section \<open>Properties of the transcription polling\<close>

lemma pollTranscript_returns:
  assumes "poll_step (provider (requests c + k)) = Some r"
    and "\<forall>j<k. poll_step (provider (requests c + j)) = None"
  shows "pollTranscript provider c
     = Some (r, \<lparr>requests = requests c + k + 1, waited_ms = waited_ms c + 3000 * (k + 1)\<rparr>)"
  using assms
proof (induction k arbitrary: c)
  case 0
  then show ?case
    by (subst pollTranscript.simps) (simp add: Let_def)
next
  case (Suc k)
  let ?c = "\<lparr>requests = Suc (requests c), waited_ms = waited_ms c + 3000\<rparr>"
  have first: "poll_step (provider (requests c)) = None"
    using Suc.prems(2) by (metis add.right_neutral zero_less_Suc)
  have a: "poll_step (provider (requests ?c + k)) = Some r"
    using Suc.prems(1) by simp
  have b: "\<forall>j<k. poll_step (provider (requests ?c + j)) = None"
  proof (intro allI impI)
    fix j assume "j < k"
    then have "Suc j < Suc k" by simp
    with Suc.prems(2) have "poll_step (provider (requests c + Suc j)) = None" by blast
    then show "poll_step (provider (requests ?c + j)) = None" by simp
  qed
  have "pollTranscript provider c = pollTranscript provider ?c"
    by (subst pollTranscript.simps) (simp add: Let_def first)
  also have "\<dots> = Some (r, \<lparr>requests = requests ?c + k + 1,
        waited_ms = waited_ms ?c + 3000 * (k + 1)\<rparr>)"
    by (rule Suc.IH [OF a b])
  finally show ?case by simp
qed

lemma pollTranscript_only_terminal:
  assumes "pollTranscript provider c = Some y"
  shows "\<exists>k. poll_step (provider (requests c + k)) = Some (fst y)
           \<and> (\<forall>j<k. poll_step (provider (requests c + j)) = None)"
proof (rule pollTranscript.raw_induct
    [where P = "\<lambda>provider c y. \<exists>k. poll_step (provider (requests c + k)) = Some (fst y)
           \<and> (\<forall>j<k. poll_step (provider (requests c + j)) = None)", OF _ assms])
  fix f :: "(nat \<Rightarrow> poll_reply) \<Rightarrow> poll_clock \<Rightarrow> ((js_error + string option) \<times> poll_clock) option"
  fix provider c y
  assume IH: "\<And>p c y. f p c = Some y \<Longrightarrow>
      \<exists>k. poll_step (p (requests c + k)) = Some (fst y)
           \<and> (\<forall>j<k. poll_step (p (requests c + j)) = None)"
  assume body: "(let c' = \<lparr>requests = Suc (requests c), waited_ms = waited_ms c + 3000\<rparr>
      in case poll_step (provider (requests c)) of
         None \<Rightarrow> f provider c' | Some r \<Rightarrow> Some (r, c')) = Some y"
  show "\<exists>k. poll_step (provider (requests c + k)) = Some (fst y)
           \<and> (\<forall>j<k. poll_step (provider (requests c + j)) = None)"
  proof (cases "poll_step (provider (requests c))")
    case None
    let ?c = "\<lparr>requests = Suc (requests c), waited_ms = waited_ms c + 3000\<rparr>"
    from body None have "f provider ?c = Some y" by (simp add: Let_def)
    from IH [OF this] obtain k where
      k: "poll_step (provider (requests ?c + k)) = Some (fst y)"
         "\<forall>j<k. poll_step (provider (requests ?c + j)) = None" by blast
    have "\<forall>j<Suc k. poll_step (provider (requests c + j)) = None"
    proof (intro allI impI)
      fix j assume j: "j < Suc k"
      show "poll_step (provider (requests c + j)) = None"
      proof (cases j)
        case 0 then show ?thesis using None by simp
      next
        case (Suc i)
        with j have "i < k" by simp
        with k(2) have "poll_step (provider (requests ?c + i)) = None" by blast
        then show ?thesis using Suc by simp
      qed
    qed
    moreover have "poll_step (provider (requests c + Suc k)) = Some (fst y)"
      using k(1) by simp
    ultimately show ?thesis by blast
  next
    case (Some r)
    with body have "fst y = r" by (auto simp: Let_def)
    with Some have "poll_step (provider (requests c + 0)) = Some (fst y)" by simp
    moreover have "\<forall>j<(0::nat). poll_step (provider (requests c + j)) = None" by simp
    ultimately show ?thesis by blast
  qed
qed

lemma pollTranscript_Some_iff:
  "pollTranscript provider c = Some (r, c') \<longleftrightarrow>
     (\<exists>k. poll_step (provider (requests c + k)) = Some r
        \<and> (\<forall>j<k. poll_step (provider (requests c + j)) = None)
        \<and> c' = \<lparr>requests = requests c + k + 1, waited_ms = waited_ms c + 3000 * (k + 1)\<rparr>)"
proof
  assume a: "pollTranscript provider c = Some (r, c')"
  from pollTranscript_only_terminal [OF a] obtain k where
    k: "poll_step (provider (requests c + k)) = Some r"
       "\<forall>j<k. poll_step (provider (requests c + j)) = None" by auto
  from pollTranscript_returns [OF k] a
  have "c' = \<lparr>requests = requests c + k + 1, waited_ms = waited_ms c + 3000 * (k + 1)\<rparr>"
    by simp
  with k show "\<exists>k. poll_step (provider (requests c + k)) = Some r
        \<and> (\<forall>j<k. poll_step (provider (requests c + j)) = None)
        \<and> c' = \<lparr>requests = requests c + k + 1, waited_ms = waited_ms c + 3000 * (k + 1)\<rparr>"
    by blast
next
  assume "\<exists>k. poll_step (provider (requests c + k)) = Some r
        \<and> (\<forall>j<k. poll_step (provider (requests c + j)) = None)
        \<and> c' = \<lparr>requests = requests c + k + 1, waited_ms = waited_ms c + 3000 * (k + 1)\<rparr>"
  then obtain k where k: "poll_step (provider (requests c + k)) = Some r"
       "\<forall>j<k. poll_step (provider (requests c + j)) = None"
       "c' = \<lparr>requests = requests c + k + 1, waited_ms = waited_ms c + 3000 * (k + 1)\<rparr>"
    by blast
  from pollTranscript_returns [OF k(1,2)] k(3)
  show "pollTranscript provider c = Some (r, c')" by simp
qed

lemma pollTranscript_None_iff:
  "pollTranscript provider c = None \<longleftrightarrow> (\<forall>k. poll_step (provider (requests c + k)) = None)"
proof
  assume n: "pollTranscript provider c = None"
  show "\<forall>k. poll_step (provider (requests c + k)) = None"
  proof (rule ccontr)
    assume "\<not> (\<forall>k. poll_step (provider (requests c + k)) = None)"
    then have ex: "\<exists>k. poll_step (provider (requests c + k)) \<noteq> None" by blast
    define k where "k = (LEAST k. poll_step (provider (requests c + k)) \<noteq> None)"
    have 1: "poll_step (provider (requests c + k)) \<noteq> None"
      unfolding k_def using ex by (rule LeastI_ex)
    have 2: "\<forall>j<k. poll_step (provider (requests c + j)) = None"
      unfolding k_def using not_less_Least by blast
    from 1 obtain r where "poll_step (provider (requests c + k)) = Some r" by blast
    from pollTranscript_returns [OF this 2] n show False by simp
  qed
next
  assume a: "\<forall>k. poll_step (provider (requests c + k)) = None"
  show "pollTranscript provider c = None"
  proof (cases "pollTranscript provider c")
    case None then show ?thesis .
  next
    case (Some y)
    from pollTranscript_only_terminal [OF Some] a show ?thesis by auto
  qed
qed

lemma poll_step_completed:
  "poll_step reply = Some (Inr tx) \<longleftrightarrow> (\<exists>e. reply = PollBody (Some ''completed'') tx e)"
  by (cases reply) auto

lemma poll_step_error:
  "poll_step reply = Some (Inl (Error msg)) \<longleftrightarrow>
     (\<exists>t e. reply = PollBody (Some ''error'') t e
        \<and> msg = ''Transcription error: '' @ str_or e ''unknown'')"
  by (cases reply) auto

lemma poll_step_continue:
  "poll_step (PollBody status tx err) = None \<longleftrightarrow>
     status \<noteq> Some ''completed'' \<and> status \<noteq> Some ''error''"
  by simp

text \<open>
  Claim C8.  The polling loop waits 3000 ms before each request.  It returns exactly when
  some answer of the provider ends the loop, at the first such answer, after \<open>k + 1\<close>
  requests and \<open>3000 * (k + 1)\<close> ms; it never returns exactly when no answer ends the
  loop.  An answer yields the transcript text exactly when its status is \<^verbatim>\<open>completed\<close>; it
  yields the error \<^verbatim>\<open>Transcription error: \<close> followed by the provider's error detail
  (\<^verbatim>\<open>unknown\<close> when there is none) exactly when its status is \<^verbatim>\<open>error\<close>; a body with any
  other status makes the loop go round again.  The number of requests has no bound: for
  every \<open>n\<close> some provider is polled \<open>n + 1\<close> times.
\<close>

theorem pollTranscript_terminal:
  "(pollTranscript provider c = Some (r, c') \<longleftrightarrow>
     (\<exists>k. poll_step (provider (requests c + k)) = Some r
        \<and> (\<forall>j<k. poll_step (provider (requests c + j)) = None)
        \<and> c' = \<lparr>requests = requests c + k + 1, waited_ms = waited_ms c + 3000 * (k + 1)\<rparr>))
   \<and> (pollTranscript provider c = None \<longleftrightarrow>
        (\<forall>k. poll_step (provider (requests c + k)) = None))
   \<and> (poll_step reply = Some (Inr tx) \<longleftrightarrow>
        (\<exists>e. reply = PollBody (Some ''completed'') tx e))
   \<and> (poll_step reply = Some (Inl (Error msg)) \<longleftrightarrow>
        (\<exists>t e. reply = PollBody (Some ''error'') t e
           \<and> msg = ''Transcription error: '' @ str_or e ''unknown''))
   \<and> (poll_step (PollBody status tx' err) = None \<longleftrightarrow>
        status \<noteq> Some ''completed'' \<and> status \<noteq> Some ''error'')
   \<and> (\<exists>p x. pollTranscript p \<lparr>requests = 0, waited_ms = 0\<rparr>
          = Some (x, \<lparr>requests = n + 1, waited_ms = 3000 * (n + 1)\<rparr>))"
proof -
  let ?p = "\<lambda>i. if i < n then PollBody (Some ''processing'') None None
                 else PollBody (Some ''completed'') (Some ''ok'') None"
  have "pollTranscript ?p \<lparr>requests = 0, waited_ms = 0\<rparr>
      = Some (Inr (Some ''ok''), \<lparr>requests = requests \<lparr>requests = 0, waited_ms = 0\<rparr> + n + 1,
            waited_ms = waited_ms \<lparr>requests = 0, waited_ms = 0\<rparr> + 3000 * (n + 1)\<rparr>)"
    by (rule pollTranscript_returns) simp_all
  then have "pollTranscript ?p \<lparr>requests = 0, waited_ms = 0\<rparr>
      = Some (Inr (Some ''ok''), \<lparr>requests = n + 1, waited_ms = 3000 * (n + 1)\<rparr>)"
    by simp
  then have "\<exists>p x. pollTranscript p \<lparr>requests = 0, waited_ms = 0\<rparr>
          = Some (x, \<lparr>requests = n + 1, waited_ms = 3000 * (n + 1)\<rparr>)"
    by blast
  then show ?thesis
    using pollTranscript_Some_iff [of provider c r c'] pollTranscript_None_iff [of provider c]
      poll_step_completed [of reply tx] poll_step_error [of reply msg]
      poll_step_continue [of status tx' err]
    by blast
qed

theorem pollTranscript_terminal_witness:
  "pollTranscript (\<lambda>i. if i < 2 then PollBody (Some ''processing'') None None
                       else PollBody (Some ''completed'') (Some ''hello'') None)
       \<lparr>requests = 0, waited_ms = 0\<rparr>
     = Some (Inr (Some ''hello''), \<lparr>requests = 3, waited_ms = 9000\<rparr>)
   \<and> pollTranscript (\<lambda>i. if i < 1 then PollBody (Some ''queued'') None None
                       else PollBody (Some ''error'') None (Some ''bad audio''))
       \<lparr>requests = 0, waited_ms = 0\<rparr>
     = Some (Inl (Error ''Transcription error: bad audio''), \<lparr>requests = 2, waited_ms = 6000\<rparr>)
   \<and> pollTranscript (\<lambda>i. PollBody (Some ''processing'') None None)
       \<lparr>requests = 0, waited_ms = 0\<rparr> = None"
proof -
  let ?p = "\<lambda>i::nat. if i < 2 then PollBody (Some ''processing'') None None
                       else PollBody (Some ''completed'') (Some ''hello'') None"
  let ?q = "\<lambda>i::nat. if i < 1 then PollBody (Some ''queued'') None None
                       else PollBody (Some ''error'') None (Some ''bad audio'')"
  let ?c = "\<lparr>requests = 0, waited_ms = 0\<rparr>"
  have a: "\<exists>k. poll_step (?p (requests ?c + k)) = Some (Inr (Some ''hello''))
        \<and> (\<forall>j<k. poll_step (?p (requests ?c + j)) = None)
        \<and> \<lparr>requests = 3, waited_ms = 9000\<rparr>
            = \<lparr>requests = requests ?c + k + 1, waited_ms = waited_ms ?c + 3000 * (k + 1)\<rparr>"
    by (rule exI [of _ 2]) simp
  have b: "\<exists>k. poll_step (?q (requests ?c + k)) = Some (Inl (Error ''Transcription error: bad audio''))
        \<and> (\<forall>j<k. poll_step (?q (requests ?c + j)) = None)
        \<and> \<lparr>requests = 2, waited_ms = 6000\<rparr>
            = \<lparr>requests = requests ?c + k + 1, waited_ms = waited_ms ?c + 3000 * (k + 1)\<rparr>"
    by (rule exI [of _ 1]) (simp add: str_or_def)
  show ?thesis
    using a b
      pollTranscript_terminal [of ?p ?c "Inr (Some ''hello'')" "\<lparr>requests = 3, waited_ms = 9000\<rparr>"]
      pollTranscript_terminal [of ?q ?c "Inl (Error ''Transcription error: bad audio'')"
         "\<lparr>requests = 2, waited_ms = 6000\<rparr>"]
      pollTranscript_terminal [of "\<lambda>i. PollBody (Some ''processing'') None None" ?c]
    by simp
qed

section \<open>Properties of the ResponseNormalizer\<close>

lemma prefix_by_length: "prefix_by eq pat xs \<Longrightarrow> length pat \<le> length xs"
  by (induction eq pat xs rule: prefix_by.induct) auto

lemma prefix_by_append_sep:
  assumes "\<forall>p\<in>set pat. \<not> eq p c"
  shows "prefix_by eq pat (xs @ c # ys) = prefix_by eq pat xs"
  using assms
proof (induction pat arbitrary: xs)
  case Nil
  then show ?case by simp
next
  case (Cons p ps)
  then show ?case by (cases xs) auto
qed

lemma remove_all_sep:
  assumes "\<forall>p\<in>set pat. \<not> eq p c"
  shows "remove_all eq pat (xs @ c # ys) = remove_all eq pat xs @ c # remove_all eq pat ys"
  using assms
proof (induction eq pat xs rule: remove_all.induct)
  case (1 eq pat)
  show ?case
  proof (cases pat)
    case Nil
    then show ?thesis by simp
  next
    case (Cons p ps)
    with 1 have "\<not> eq p c" by simp
    with Cons show ?thesis by simp
  qed
next
  case (2 eq pat x xs)
  note sep = 2(3)
  show ?case
  proof (cases "pat \<noteq> [] \<and> prefix_by eq pat (x # xs)")
    case True
    then have m: "prefix_by eq pat ((x # xs) @ c # ys)"
      using sep prefix_by_append_sep [where eq = eq and pat = pat and c = c and xs = "x # xs" and ys = ys]
      by simp
    from True have len: "length pat \<le> length (x # xs)"
      using prefix_by_length by blast
    have "drop (length pat) ((x # xs) @ c # ys)
        = drop (length pat) (x # xs) @ drop (length pat - length (x # xs)) (c # ys)"
      by (rule drop_append)
    with len have d: "drop (length pat) ((x # xs) @ c # ys) = drop (length pat) (x # xs) @ c # ys"
      by (simp del: drop_Cons' append_Cons)
    have "remove_all eq pat ((x # xs) @ c # ys)
          = remove_all eq pat (drop (length pat) ((x # xs) @ c # ys))"
      using True m by simp
    also have "\<dots> = remove_all eq pat (drop (length pat) (x # xs)) @ c # remove_all eq pat ys"
      unfolding d using 2(1) [OF True sep] .
    also have "remove_all eq pat (drop (length pat) (x # xs)) = remove_all eq pat (x # xs)"
      using True by simp
    finally show ?thesis .
  next
    case False
    then have m: "\<not> (pat \<noteq> [] \<and> prefix_by eq pat ((x # xs) @ c # ys))"
      using sep prefix_by_append_sep [where eq = eq and pat = pat and c = c and xs = "x # xs" and ys = ys]
      by simp
    have a: "remove_all eq pat ((x # xs) @ c # ys) = x # remove_all eq pat (xs @ c # ys)"
      using m by auto
    have b: "remove_all eq pat (x # xs) = x # remove_all eq pat xs"
      using False by auto
    show ?thesis
      unfolding a b using 2(2) [OF False sep] by simp
  qed
qed

lemma set_remove_all: "set (remove_all eq pat xs) \<subseteq> set xs"
proof (induction eq pat xs rule: remove_all.induct)
  case (1 eq pat)
  then show ?case by simp
next
  case (2 eq pat c cs)
  show ?case
  proof (cases "pat \<noteq> [] \<and> prefix_by eq pat (c # cs)")
    case True
    have "set (drop (length pat) (c # cs)) \<subseteq> set (c # cs)"
      by (rule set_drop_subset)
    with 2(1) [OF True] True show ?thesis
      by (auto simp del: drop_Cons' split: if_splits)
  next
    case False
    with 2(2) [OF False] show ?thesis by auto
  qed
qed

lemma dropWhile_trim_left:
  assumes "\<not> P y"
  shows "dropWhile P (xs @ y # ys) = dropWhile P xs @ y # ys"
  using assms by (induction xs) auto

lemma trim_around:
  assumes "\<not> is_js_space a" and "\<not> is_js_space b"
  shows "trim (xs @ a # mid @ b # ys)
         = dropWhile is_js_space xs @ a # mid @ b # rev (dropWhile is_js_space (rev ys))"
proof -
  have "dropWhile is_js_space (xs @ a # mid @ b # ys) = dropWhile is_js_space xs @ a # mid @ b # ys"
    using assms(1) by (rule dropWhile_trim_left)
  moreover have "rev (dropWhile is_js_space xs @ a # mid @ b # ys)
      = rev ys @ b # (rev mid @ a # rev (dropWhile is_js_space xs))"
    by simp
  moreover have "dropWhile is_js_space (rev ys @ b # (rev mid @ a # rev (dropWhile is_js_space xs)))
      = dropWhile is_js_space (rev ys) @ b # (rev mid @ a # rev (dropWhile is_js_space xs))"
    using assms(2) by (rule dropWhile_trim_left)
  ultimately show ?thesis
    by (simp add: trim_def)
qed

lemma brace_match_around:
  assumes "CHR ''{'' \<notin> set xs" and "CHR ''}'' \<notin> set ys"
  shows "brace_match (xs @ CHR ''{'' # mid @ CHR ''}'' # ys) = Some (CHR ''{'' # mid @ [CHR ''}''])"
proof -
  have 1: "dropWhile (\<lambda>c. c \<noteq> CHR ''{'') (xs @ CHR ''{'' # mid @ CHR ''}'' # ys)
      = CHR ''{'' # mid @ CHR ''}'' # ys"
    using assms(1) by (induction xs) auto
  have 2: "dropWhile (\<lambda>c. c \<noteq> CHR ''}'') (rev ys @ CHR ''}'' # rev mid @ [CHR ''{''])
      = CHR ''}'' # rev mid @ [CHR ''{'']"
  proof -
    have "dropWhile (\<lambda>c. c \<noteq> CHR ''}'') (rev ys @ CHR ''}'' # rev mid @ [CHR ''{''])
        = dropWhile (\<lambda>c. c \<noteq> CHR ''}'') (CHR ''}'' # rev mid @ [CHR ''{''])"
      by (rule dropWhile_append2) (use assms(2) in auto)
    then show ?thesis by simp
  qed
  show ?thesis
    by (simp add: brace_match_def 1 2 Let_def)
qed

lemma length_remove_all: "length (remove_all eq pat xs) \<le> length xs"
proof (induction eq pat xs rule: remove_all.induct)
  case (1 eq pat)
  then show ?case by simp
next
  case (2 eq pat c cs)
  show ?case
  proof (cases "pat \<noteq> [] \<and> prefix_by eq pat (c # cs)")
    case True
    have "length (drop (length pat) (c # cs)) \<le> length (c # cs)"
      by (simp del: drop_Cons')
    with 2(1) [OF True] True show ?thesis
      by (auto simp del: drop_Cons')
  next
    case False
    with 2(2) [OF False] show ?thesis by auto
  qed
qed

lemma remove_all_same_length:
  "length (remove_all eq pat xs) = length xs \<Longrightarrow> remove_all eq pat xs = xs"
proof (induction eq pat xs rule: remove_all.induct)
  case (1 eq pat)
  then show ?case by simp
next
  case (2 eq pat c cs)
  show ?case
  proof (cases "pat \<noteq> [] \<and> prefix_by eq pat (c # cs)")
    case True
    then have "0 < length pat" by simp
    then have "length (drop (length pat) (c # cs)) < length (c # cs)"
      by (simp del: drop_Cons')
    moreover have "length (remove_all eq pat (drop (length pat) (c # cs)))
        \<le> length (drop (length pat) (c # cs))"
      by (rule length_remove_all)
    moreover have "remove_all eq pat (c # cs) = remove_all eq pat (drop (length pat) (c # cs))"
      using True by simp
    ultimately have "length (remove_all eq pat (c # cs)) < length (c # cs)"
      by (simp del: drop_Cons' remove_all.simps)
    with 2(3) show ?thesis by simp
  next
    case False
    then have r: "remove_all eq pat (c # cs) = c # remove_all eq pat cs" by auto
    with 2(3) have "length (remove_all eq pat cs) = length cs" by simp
    from 2(2) [OF False this] r show ?thesis by simp
  qed
qed

lemma remove_all_around:
  assumes "\<forall>p\<in>set pat. \<not> eq p a" and "\<forall>p\<in>set pat. \<not> eq p b"
  shows "remove_all eq pat (xs @ (a # mid @ [b]) @ ys)
         = remove_all eq pat xs @ remove_all eq pat (a # mid @ [b]) @ remove_all eq pat ys"
proof -
  have 1: "remove_all eq pat (us @ a # mid @ b # vs)
      = remove_all eq pat us @ a # remove_all eq pat mid @ b # remove_all eq pat vs" for us vs
  proof -
    have "remove_all eq pat (us @ a # (mid @ b # vs))
        = remove_all eq pat us @ a # remove_all eq pat (mid @ b # vs)"
      using assms(1) by (rule remove_all_sep)
    also have "remove_all eq pat (mid @ b # vs) = remove_all eq pat mid @ b # remove_all eq pat vs"
      using assms(2) by (rule remove_all_sep)
    finally show ?thesis .
  qed
  from 1 [of xs ys] 1 [of "[]" "[]"] show ?thesis by simp
qed

lemma strip_fences_around:
  assumes "strip_fences (CHR ''{'' # mid @ [CHR ''}'']) = CHR ''{'' # mid @ [CHR ''}'']"
  shows "strip_fences (pre @ (CHR ''{'' # mid @ [CHR ''}'']) @ post)
         = strip_fences pre @ (CHR ''{'' # mid @ [CHR ''}'']) @ strip_fences post"
proof -
  let ?s = "CHR ''{'' # mid @ [CHR ''}'']"
  let ?R1 = "remove_all eq_ci ''```json''"
  let ?R2 = "remove_all (=) ''```''"
  have a1: "\<forall>p\<in>set ''```json''. \<not> eq_ci p (CHR ''{'')"
    by (simp add: eq_ci_def lower_ascii_def)
  have b1: "\<forall>p\<in>set ''```json''. \<not> eq_ci p (CHR ''}'')"
    by (simp add: eq_ci_def lower_ascii_def)
  have a2: "\<forall>p\<in>set ''```''. \<not> p = CHR ''{''" by simp
  have b2: "\<forall>p\<in>set ''```''. \<not> p = CHR ''}''" by simp
  have "length (?R2 (?R1 ?s)) = length ?s"
    using assms by (simp add: strip_fences_def)
  moreover have "length (?R2 (?R1 ?s)) \<le> length (?R1 ?s)" by (rule length_remove_all)
  moreover have "length (?R1 ?s) \<le> length ?s" by (rule length_remove_all)
  ultimately have "length (?R1 ?s) = length ?s" by linarith
  then have r1: "?R1 ?s = ?s" by (rule remove_all_same_length)
  with assms have r2: "?R2 ?s = ?s" by (simp add: strip_fences_def)
  have "?R1 (pre @ ?s @ post) = ?R1 pre @ ?R1 ?s @ ?R1 post"
    using a1 b1 by (rule remove_all_around)
  then have "?R1 (pre @ ?s @ post) = ?R1 pre @ ?s @ ?R1 post"
    by (simp only: r1)
  moreover have "?R2 (?R1 pre @ ?s @ ?R1 post) = ?R2 (?R1 pre) @ ?R2 ?s @ ?R2 (?R1 post)"
    using a2 b2 by (rule remove_all_around)
  ultimately have "?R2 (?R1 (pre @ ?s @ post)) = ?R2 (?R1 pre) @ ?s @ ?R2 (?R1 post)"
    by (simp only: r2)
  then show ?thesis by (simp only: strip_fences_def)
qed

lemma set_strip_fences: "set (strip_fences xs) \<subseteq> set xs"
  unfolding strip_fences_def using set_remove_all by (meson subset_trans)

lemma normalize_raw:
  assumes "strip_fences (CHR ''{'' # mid @ [CHR ''}'']) = CHR ''{'' # mid @ [CHR ''}'']"
  shows "trim (strip_fences (pre @ (CHR ''{'' # mid @ [CHR ''}'']) @ post))
    = dropWhile is_js_space (strip_fences pre) @ (CHR ''{'' # mid @ [CHR ''}''])
        @ rev (dropWhile is_js_space (rev (strip_fences post)))"
proof -
  have "trim (strip_fences pre @ CHR ''{'' # mid @ CHR ''}'' # strip_fences post)
     = dropWhile is_js_space (strip_fences pre) @ CHR ''{'' # mid @ CHR ''}''
         # rev (dropWhile is_js_space (rev (strip_fences post)))"
    by (rule trim_around) (simp_all add: is_js_space_def)
  then show ?thesis
    using strip_fences_around [OF assms, of pre post] by simp
qed

text \<open>
  Claim C3, amended.  Let \<open>s\<close> be a text in braces that \<^verbatim>\<open>JSON.parse\<close> accepts, with value
  \<open>v\<close>, and that fence stripping leaves unchanged (it holds no triple backtick).  Let it
  stand between a text \<open>pre\<close> without \<^verbatim>\<open>{\<close> and a text \<open>post\<close> without \<^verbatim>\<open>}\<close>, fence markers
  allowed in both.  If what remains of \<open>pre\<close> and \<open>post\<close> after stripping is white space, or
  the whole stripped and trimmed text is not itself accepted by \<^verbatim>\<open>JSON.parse\<close> with another
  value, then both normalizers return \<open>v\<close>.
\<close>

theorem normalize_recovers_object:
  fixes pre mid post :: string and v :: json
  defines "s \<equiv> CHR ''{'' # mid @ [CHR ''}'']"
  defines "raw \<equiv> trim (strip_fences (pre @ s @ post))"
  assumes obj: "JSON_parse s = Some v"
    and nofence: "strip_fences s = s"
    and nobrace: "CHR ''{'' \<notin> set pre" "CHR ''}'' \<notin> set post"
    and whole: "(\<forall>c\<in>set (strip_fences pre @ strip_fences post). is_js_space c)
                \<or> JSON_parse raw = None \<or> JSON_parse raw = Some v"
  shows "callGeminiEvaluate_parse (pre @ s @ post) = Inr v
       \<and> callGemini_parse (pre @ s @ post) = Inr v"
proof -
  let ?P = "dropWhile is_js_space (strip_fences pre)"
  let ?Q = "rev (dropWhile is_js_space (rev (strip_fences post)))"
  have raw: "raw = ?P @ s @ ?Q"
    unfolding raw_def s_def using nofence [unfolded s_def] by (rule normalize_raw)
  have P: "CHR ''{'' \<notin> set ?P"
    using nobrace(1) set_strip_fences [of pre] set_dropWhileD by fastforce
  have Q: "CHR ''}'' \<notin> set ?Q"
    using nobrace(2) set_strip_fences [of post] set_dropWhileD by fastforce
  have m: "brace_match raw = Some s"
    unfolding raw s_def using brace_match_around [OF P Q, of mid] by simp
  have direct: "JSON_parse raw = None \<or> JSON_parse raw = Some v"
  proof (cases "\<forall>c\<in>set (strip_fences pre @ strip_fences post). is_js_space c")
    case True
    then have "?P = []" "?Q = []" by auto
    with raw obj show ?thesis by simp
  next
    case False
    with whole show ?thesis by blast
  qed
  then show ?thesis
  proof
    assume n: "JSON_parse raw = None"
    show ?thesis
      using n m obj
      by (simp add: callGeminiEvaluate_parse_def callGemini_parse_def Let_def raw_def [symmetric])
  next
    assume "JSON_parse raw = Some v"
    then show ?thesis
      by (simp add: callGeminiEvaluate_parse_def callGemini_parse_def Let_def raw_def [symmetric])
  qed
qed

lemmas json_eval = JSON_parse_def is_json_ws_def is_digit_def lex_number_def frac_part_def
  exp_part_def digits_val_def digit_of_def pow10_def is_js_space_def lower_ascii_def eq_ci_def
  strip_fences_def trim_def brace_match_def Let_def

theorem normalize_recovers_object_witness:
  "callGeminiEvaluate_parse ''Here you go: {\"a\":1} bye'' = Inr (JObj [(''a'', JNum 1)])
   \<and> callGemini_parse ''Here you go: {\"a\":1} bye'' = Inr (JObj [(''a'', JNum 1)])
   \<and> callGeminiEvaluate_parse (''```json'' @ CHR 0x0A # ''{\"a\":1}'' @ CHR 0x0A # ''```'')
       = Inr (JObj [(''a'', JNum 1)])
   \<and> callGemini_parse (''```json'' @ CHR 0x0A # ''{\"a\":1}'' @ CHR 0x0A # ''```'')
       = Inr (JObj [(''a'', JNum 1)])"
proof -
  have h1: "JSON_parse ''{\"a\":1}'' = Some (JObj [(''a'', JNum 1)])"
    by (simp add: json_eval)
  have h2: "strip_fences ''{\"a\":1}'' = ''{\"a\":1}''"
    by (simp add: json_eval)
  have h3: "JSON_parse (trim (strip_fences ''Here you go: {\"a\":1} bye'')) = None"
    by (simp add: json_eval)
  have h4: "strip_fences [CHR 0x60, CHR 0x60, CHR 0x60, CHR ''j'', CHR ''s'', CHR ''o'', CHR ''n'',
        CHR 0x0A] = [CHR 0x0A]"
    "strip_fences [CHR 0x0A, CHR 0x60, CHR 0x60, CHR 0x60] = [CHR 0x0A]"
    by (simp_all add: json_eval)
  have h5: "is_js_space (CHR 0x0A)"
    by (simp add: is_js_space_def)
  show ?thesis
    using normalize_recovers_object [where mid = "''\"a\":1''" and v = "JObj [(''a'', JNum 1)]"
        and pre = "''Here you go: ''" and post = "'' bye''"]
      normalize_recovers_object [where mid = "''\"a\":1''" and v = "JObj [(''a'', JNum 1)]"
        and pre = "''```json'' @ [CHR 0x0A]" and post = "CHR 0x0A # ''```''"]
    by (simp add: h1 h2 h3 h4 h5)
qed

text \<open>
  Claim C3 as stated fails.  The object \<^verbatim>\<open>{"a":1}\<close> after the prose \<^verbatim>\<open>Result {draft}: \<close> is not
  recovered: the direct parse fails, the span from the first \<^verbatim>\<open>{\<close> to the last \<^verbatim>\<open>}\<close> is
  \<^verbatim>\<open>{draft}: {"a":1}\<close>, and parsing it throws.  An object whose text holds a triple backtick
  comes back changed, and the object \<^verbatim>\<open>{}\<close> between two double quotes comes back as a string.
\<close>

theorem normalize_counterexample:
  "JSON_parse ''{\"a\":1}'' = Some (JObj [(''a'', JNum 1)])
   \<and> callGeminiEvaluate_parse (''Result {draft}: '' @ ''{\"a\":1}'') = Inl SyntaxError
   \<and> callGemini_parse (''Result {draft}: '' @ ''{\"a\":1}'') = Inl SyntaxError
   \<and> JSON_parse ''{\"a\":\"```\"}'' = Some (JObj [(''a'', JStr ''```'')])
   \<and> callGemini_parse ''{\"a\":\"```\"}'' = Inr (JObj [(''a'', JStr [])])
   \<and> JSON_parse ''{}'' = Some (JObj [])
   \<and> callGemini_parse (''\"'' @ ''{}'' @ ''\"'') = Inr (JStr ''{}'')"
  by (simp add: json_eval callGeminiEvaluate_parse_def callGemini_parse_def)

section \<open>Properties of the writing and speaking handlers\<close>

lemma firestore_valid_prop:
  assumes "firestore_valid v" and "get_prop v k = Some w"
  shows "firestore_valid w"
proof (cases v)
  case (JObj kvs)
  with assms(2) have "(k, w) \<in> set kvs"
    by (simp add: map_of_SomeD)
  with assms(1) JObj show ?thesis by auto
qed (use assms(2) in simp_all)

lemma level_or_unknown_valid:
  "firestore_valid v \<Longrightarrow> firestore_valid (level_or_unknown (get_prop v k))"
  by (auto simp: level_or_unknown_def dest: firestore_valid_prop split: option.splits)

lemma confidence_or0_valid:
  assumes "firestore_valid v"
  shows "firestore_valid (confidence_or0 (get_prop v k))"
proof (cases "get_prop v k")
  case None
  then show ?thesis by (simp add: confidence_or0_def)
next
  case (Some w)
  with assms have "firestore_valid w" by (blast intro: firestore_valid_prop)
  then show ?thesis unfolding Some by (cases w) (simp_all add: confidence_or0_def)
qed

lemma assessWriting_success:
  assumes "w_method req = ''POST''"
    and "\<not> falsy_str (w_textSample req)" and "\<not> falsy_str (w_uid req)"
    and "callGemini_parse content = Inr parsed" and "parsed \<noteq> JNull"
    and "get_succeeds store" and "set_succeeds store" and "add_succeeds store"
    and "firestore_valid parsed"
  shows "assessWriting now store (Candidate content) req db =
     (\<lparr>http_status = 200, body = ModelResult parsed\<rparr>,
      add_assessment (str_or (w_uid req) [])
        (WritingEntry (str_or (w_textSample req) []) parsed now)
        (set_progress (str_or (w_uid req) [])
           (level_or_unknown (get_prop parsed ''level''))
           (confidence_or0 (get_prop parsed ''confidence''))
           now
           (todayISO (computeNewStreak now
              (lastAssessmentDateISO (user_data (users db) (str_or (w_uid req) [])))
              (streak (user_data (users db) (str_or (w_uid req) [])))))
           (new_streak (computeNewStreak now
              (lastAssessmentDateISO (user_data (users db) (str_or (w_uid req) [])))
              (streak (user_data (users db) (str_or (w_uid req) [])))))
           db))"
proof -
  from assms(5) have "dot_prop (Some parsed) ''level'' = Inr (get_prop parsed ''level'')"
    by (cases parsed) simp_all
  with assms(1-4,6-9) show ?thesis
    by (simp add: assessWriting_def Let_def level_or_unknown_valid confidence_or0_valid)
qed

lemma assessWriting_provider_failure:
  assumes "w_method req = ''POST''"
    and "\<not> falsy_str (w_textSample req)" and "\<not> falsy_str (w_uid req)"
    and "\<forall>content. gemini \<noteq> Candidate content"
  shows "(http_status (fst (assessWriting now store gemini req db)) = 500
          \<or> http_status (fst (assessWriting now store gemini req db)) = 502)
       \<and> snd (assessWriting now store gemini req db) = db"
  using assms by (cases gemini) (simp_all add: assessWriting_def)

lemma assessSpeaking_provider_failure:
  assumes "s_method req = ''POST''" and "s_file req \<noteq> None"
    and "uploadToAssembly (env_upload env) = Inl e
       \<or> (\<exists>u. uploadToAssembly (env_upload env) = Inr u
              \<and> createTranscription (env_create env) = Inl e)
       \<or> (\<exists>u t c. uploadToAssembly (env_upload env) = Inr u
              \<and> createTranscription (env_create env) = Inr t
              \<and> pollTranscript (env_provider env) \<lparr>requests = 0, waited_ms = 0\<rparr> = Some (Inl e, c))
       \<or> (\<exists>u t c tx. uploadToAssembly (env_upload env) = Inr u
              \<and> createTranscription (env_create env) = Inr t
              \<and> pollTranscript (env_provider env) \<lparr>requests = 0, waited_ms = 0\<rparr> = Some (Inr tx, c)
              \<and> callGemini (env_gemini env) = Inl e)"
  shows "assessSpeaking now store env req db = Some (\<lparr>http_status = 500, body = Thrown e\<rparr>, db)"
  using assms by (auto simp: assessSpeaking_def)

text \<open>A history entry that the store refuses leaves the progress written: the reply
  \<^verbatim>\<open>{"":1}\<close> of the model on the writing path, and a transcription without \<^verbatim>\<open>text\<close> on the
  speaking path.\<close>

lemma assessWriting_refused_entry:
  "assessWriting 1793620800000 \<lparr>get_succeeds = True, set_succeeds = True, add_succeeds = True\<rparr>
      (Candidate ''{\"\":1}'')
      \<lparr>w_method = ''POST'', w_textSample = Some ''My name is Ana.'', w_uid = Some ''u1''\<rparr>
      \<lparr>users = Map.empty, assessments = (\<lambda>u. [])\<rparr>
   = (\<lparr>http_status = 500, body = Thrown StoreError\<rparr>,
      \<lparr>users = [''u1'' \<mapsto> \<lparr>level = Some (JStr ''Unknown''), levelConfidence = Some (JNum 0),
          lastAssessmentAt = Some 1793620800000, lastAssessmentDateISO = Canon 20759,
          streak = Some 1, avatars = None\<rparr>],
        assessments = (\<lambda>u. [])\<rparr>)"
proof -
  have t: "(1793620800000::int) div msPerDay = 20759"
    by (simp add: msPerDay_def)
  have p: "callGemini_parse ''{\"\":1}'' = Inr (JObj [([], JNum 1)])"
    by (simp add: json_eval callGemini_parse_def)
  show ?thesis
    by (simp add: assessWriting_def p falsy_str_def str_or_def level_or_unknown_def
        confidence_or0_def set_progress_def user_data_def empty_doc_def computeNewStreak_def t)
qed

lemma assessSpeaking_refused_entry:
  "assessSpeaking 1793620800000 \<lparr>get_succeeds = True, set_succeeds = True, add_succeeds = True\<rparr>
      \<lparr>env_upload = UploadBody (Some ''https://cdn/upload/1''), env_create = CreateBody (Some ''job1''),
        env_provider = (\<lambda>i. PollBody (Some ''completed'') None None),
        env_gemini = Candidate ''{\"level\":\"B1\"}''\<rparr>
      \<lparr>s_method = ''POST'', s_uid = Some ''u1'', s_file = Some ''/tmp/a.wav''\<rparr>
      \<lparr>users = Map.empty, assessments = (\<lambda>u. [])\<rparr>
   = Some (\<lparr>http_status = 500, body = Thrown StoreError\<rparr>,
      \<lparr>users = [''u1'' \<mapsto> \<lparr>level = Some (JStr ''B1''), levelConfidence = Some (JNum 0),
          lastAssessmentAt = Some 1793620800000, lastAssessmentDateISO = Canon 20759,
          streak = Some 1, avatars = None\<rparr>],
        assessments = (\<lambda>u. [])\<rparr>)"
proof -
  have t: "(1793620800000::int) div msPerDay = 20759"
    by (simp add: msPerDay_def)
  have p: "callGemini_parse ''{\"level\":\"B1\"}'' = Inr (JObj [(''level'', JStr ''B1'')])"
    by (simp add: json_eval callGemini_parse_def)
  have q: "pollTranscript (\<lambda>i. PollBody (Some ''completed'') None None)
      \<lparr>requests = 0, waited_ms = 0\<rparr> = Some (Inr None, \<lparr>requests = 1, waited_ms = 3000\<rparr>)"
    by (subst pollTranscript.simps) simp
  show ?thesis
    by (simp add: assessSpeaking_def p q falsy_str_def str_or_def level_or_unknown_def
        confidence_or0_def set_progress_def user_data_def empty_doc_def computeNewStreak_def t)
qed

section \<open>Properties of the placement handler\<close>




text \<open>The progress write, whatever happens to the history entry after it.\<close>

lemma englishTest_progress:
  assumes "p_method req = ''POST''" and "p_answers req = Some (JArr answers)"
    and "find_writing answers = Inr we" and "\<not> falsy_str (p_uid req)"
    and "get_succeeds store"
    and "placementStreak now
           (lastAssessmentDateISO (user_data (users db) (str_or (p_uid req) [])))
           (streak (user_data (users db) (str_or (p_uid req) []))) = Inr st"
    and "set_succeeds store"
  shows "users (snd (englishTest now store ev req db)) =
     (users db)(str_or (p_uid req) [] \<mapsto>
           (user_data (users db) (str_or (p_uid req) []))
             \<lparr>level := Some (JStr (result_level
                 (placement_result_of (gradeMCQs QUESTIONS (answersByIndex_of answers))
                   (if we = None then None else (case ev of EvalParsed g \<Rightarrow> g | _ \<Rightarrow> None))))),
               levelConfidence := Some (JNum (result_confidence
                 (placement_result_of (gradeMCQs QUESTIONS (answersByIndex_of answers))
                   (if we = None then None else (case ev of EvalParsed g \<Rightarrow> g | _ \<Rightarrow> None))))),
               lastAssessmentAt := Some now,
               lastAssessmentDateISO := Canon (now div msPerDay),
               streak := Some st,
               avatars := Some (award_badges st
                  (avatars_or_empty (user_data (users db) (str_or (p_uid req) []))))\<rparr>)"
  using assms by (simp add: englishTest_def Let_def add_assessment_def)

lemma englishTest_stored:
  assumes "p_method req = ''POST''" and "p_answers req = Some (JArr answers)"
    and "find_writing answers = Inr we" and "\<not> falsy_str (p_uid req)"
    and "get_succeeds store"
    and "placementStreak now
           (lastAssessmentDateISO (user_data (users db) (str_or (p_uid req) [])))
           (streak (user_data (users db) (str_or (p_uid req) []))) = Inr st"
    and "set_succeeds store"
    and "entry_valid (PlacementEntry (p_claimedLevel req) answers
           (placement_result_of (gradeMCQs QUESTIONS (answersByIndex_of answers))
              (if we = None then None else (case ev of EvalParsed g \<Rightarrow> g | _ \<Rightarrow> None))) now)"
    and "add_succeeds store"
  shows "fst (englishTest now store ev req db) =
      \<lparr>http_status = 200, body = PlacementResult
         (placement_result_of (gradeMCQs QUESTIONS (answersByIndex_of answers))
            (if we = None then None else (case ev of EvalParsed g \<Rightarrow> g | _ \<Rightarrow> None)))\<rparr>"
    and "assessments (snd (englishTest now store ev req db)) =
      (assessments db)(str_or (p_uid req) [] := assessments db (str_or (p_uid req) []) @
        [PlacementEntry (p_claimedLevel req) answers
           (placement_result_of (gradeMCQs QUESTIONS (answersByIndex_of answers))
              (if we = None then None else (case ev of EvalParsed g \<Rightarrow> g | _ \<Rightarrow> None))) now])"
  using assms by (simp_all add: englishTest_def Let_def add_assessment_def)










lemma details_placement_result: "details_mcq (placement_result_of g p) = details g"
  by (simp add: placement_result_of_def Let_def)

lemma details_expected:
  assumes "d \<in> set (details (gradeMCQs qs a))"
  shows "\<exists>q \<in> set qs. expected d = answer q"
proof -
  have "details (gradeMCQs qs a) = snd (gradeLoop qs 0 a (0, []))"
    by (simp add: gradeMCQs_def split: prod.splits)
  with assms gradeLoop_snd [of qs 0 a 0 "[]"] obtain i where "i < length qs"
      "expected d = answer (qs ! i)"
    by (auto simp: in_set_enumerate_eq)
  then show ?thesis using nth_mem by blast
qed

lemma QUESTIONS_expected:
  assumes "d \<in> set (details (gradeMCQs QUESTIONS a))"
  shows "firestore_valid (expected d)"
proof -
  from details_expected [OF assms] obtain q where "q \<in> set QUESTIONS" "expected d = answer q"
    by blast
  then show ?thesis by (auto simp: QUESTIONS_def)
qed


lemma find_writing_example:
  "find_writing [JObj [(''selected'', JStr ''went'')], JObj [(''selected'', JStr ''study'')],
       JObj [(''selected'', JStr ''At home'')], JObj [(''selected'', JStr ''He likes pizza'')],
       JObj [(''selected'', JStr ''Verb is incorrect'')],
       JObj [(''type'', JStr ''writing''), (''writingSample'', JStr ''I went to the market yesterday.'')],
       JObj [(''selected'', JStr ''arrived'')], JObj [(''selected'', JStr ''The project finishes'')],
       JObj [(''selected'', JStr ''must'')], JObj [(''selected'', JStr ''He says busy'')],
       JObj [(''selected'', JStr ''turn on'')]]
   = Inr (Some (JObj [(''type'', JStr ''writing''),
        (''writingSample'', JStr ''I went to the market yesterday.'')]))"
  by (simp add: is_writing_entry_def trim_def is_js_space_def)

lemma grade_example:
  "correct (gradeMCQs QUESTIONS (answersByIndex_of
      [JObj [(''selected'', JStr ''went'')], JObj [(''selected'', JStr ''study'')],
       JObj [(''selected'', JStr ''At home'')], JObj [(''selected'', JStr ''He likes pizza'')],
       JObj [(''selected'', JStr ''Verb is incorrect'')],
       JObj [(''type'', JStr ''writing''), (''writingSample'', JStr ''I went to the market yesterday.'')],
       JObj [(''selected'', JStr ''arrived'')], JObj [(''selected'', JStr ''The project finishes'')],
       JObj [(''selected'', JStr ''must'')], JObj [(''selected'', JStr ''He says busy'')],
       JObj [(''selected'', JStr ''turn on'')]])) = 3"
  "\<forall>d \<in> set (details (gradeMCQs QUESTIONS (answersByIndex_of
      [JObj [(''selected'', JStr ''went'')], JObj [(''selected'', JStr ''study'')],
       JObj [(''selected'', JStr ''At home'')], JObj [(''selected'', JStr ''He likes pizza'')],
       JObj [(''selected'', JStr ''Verb is incorrect'')],
       JObj [(''type'', JStr ''writing''), (''writingSample'', JStr ''I went to the market yesterday.'')],
       JObj [(''selected'', JStr ''arrived'')], JObj [(''selected'', JStr ''The project finishes'')],
       JObj [(''selected'', JStr ''must'')], JObj [(''selected'', JStr ''He says busy'')],
       JObj [(''selected'', JStr ''turn on'')]]))). defined_valid (selected d)"
  by code_simp+


section \<open>Provider failures and the store\<close>

text \<open>
  Claim C9, amended.  In the writing path, a model call that is rejected, is not \<^verbatim>\<open>ok\<close> or
  has a body that is not JSON ends the request with status 500 or 502 and leaves the
  store as it was.  In the speaking path, an upload, a job creation, a poll or a model
  call that fails with an error \<open>e\<close> (a rejected request, a body that is not JSON, a job
  that ends with status \<^verbatim>\<open>error\<close>, a model response that is not \<^verbatim>\<open>ok\<close>) ends the request
  with status 500 carrying \<open>e\<close> and leaves the store as it was.
\<close>

theorem provider_failure_writes_nothing:
  "(w_method wreq = ''POST'' \<and> \<not> falsy_str (w_textSample wreq) \<and> \<not> falsy_str (w_uid wreq)
      \<and> (\<forall>content. gemini \<noteq> Candidate content) \<longrightarrow>
      (http_status (fst (assessWriting now store gemini wreq db)) = 500
         \<or> http_status (fst (assessWriting now store gemini wreq db)) = 502)
      \<and> snd (assessWriting now store gemini wreq db) = db)
   \<and> (s_method sreq = ''POST'' \<and> s_file sreq \<noteq> None
      \<and> (uploadToAssembly (env_upload env) = Inl e
         \<or> (\<exists>u. uploadToAssembly (env_upload env) = Inr u
                \<and> createTranscription (env_create env) = Inl e)
         \<or> (\<exists>u t c. uploadToAssembly (env_upload env) = Inr u
                \<and> createTranscription (env_create env) = Inr t
                \<and> pollTranscript (env_provider env) \<lparr>requests = 0, waited_ms = 0\<rparr>
                    = Some (Inl e, c))
         \<or> (\<exists>u t c tx. uploadToAssembly (env_upload env) = Inr u
                \<and> createTranscription (env_create env) = Inr t
                \<and> pollTranscript (env_provider env) \<lparr>requests = 0, waited_ms = 0\<rparr>
                    = Some (Inr tx, c)
                \<and> callGemini (env_gemini env) = Inl e)) \<longrightarrow>
      assessSpeaking now store env sreq db = Some (\<lparr>http_status = 500, body = Thrown e\<rparr>, db))"
proof -
  have 1: "w_method wreq = ''POST'' \<and> \<not> falsy_str (w_textSample wreq) \<and> \<not> falsy_str (w_uid wreq)
      \<and> (\<forall>content. gemini \<noteq> Candidate content) \<longrightarrow>
      (http_status (fst (assessWriting now store gemini wreq db)) = 500
         \<or> http_status (fst (assessWriting now store gemini wreq db)) = 502)
      \<and> snd (assessWriting now store gemini wreq db) = db"
    using assessWriting_provider_failure [of wreq gemini now store db] by blast
  have 2: "s_method sreq = ''POST'' \<and> s_file sreq \<noteq> None
      \<and> (uploadToAssembly (env_upload env) = Inl e
         \<or> (\<exists>u. uploadToAssembly (env_upload env) = Inr u
                \<and> createTranscription (env_create env) = Inl e)
         \<or> (\<exists>u t c. uploadToAssembly (env_upload env) = Inr u
                \<and> createTranscription (env_create env) = Inr t
                \<and> pollTranscript (env_provider env) \<lparr>requests = 0, waited_ms = 0\<rparr>
                    = Some (Inl e, c))
         \<or> (\<exists>u t c tx. uploadToAssembly (env_upload env) = Inr u
                \<and> createTranscription (env_create env) = Inr t
                \<and> pollTranscript (env_provider env) \<lparr>requests = 0, waited_ms = 0\<rparr>
                    = Some (Inr tx, c)
                \<and> callGemini (env_gemini env) = Inl e)) \<longrightarrow>
      assessSpeaking now store env sreq db = Some (\<lparr>http_status = 500, body = Thrown e\<rparr>, db)"
    using assessSpeaking_provider_failure [of sreq env e now store db] by blast
  from 1 2 show ?thesis by blast
qed

lemma poll_error_example:
  "pollTranscript (\<lambda>i. PollBody (Some ''error'') None (Some ''bad audio''))
      \<lparr>requests = 0, waited_ms = 0\<rparr>
   = Some (Inl (Error ''Transcription error: bad audio''), \<lparr>requests = 1, waited_ms = 3000\<rparr>)"
  by (subst pollTranscript.simps) (simp add: str_or_def)

theorem provider_failure_writes_nothing_witness:
  "assessWriting 1793620800000 \<lparr>get_succeeds = True, set_succeeds = True, add_succeeds = True\<rparr>
      (NotOk 503 ''overloaded'')
      \<lparr>w_method = ''POST'', w_textSample = Some ''My name is Ana.'', w_uid = Some ''u1''\<rparr>
      \<lparr>users = Map.empty, assessments = (\<lambda>u. [])\<rparr>
    = (\<lparr>http_status = 502, body = GeminiError 503 ''overloaded''\<rparr>,
       \<lparr>users = Map.empty, assessments = (\<lambda>u. [])\<rparr>)
   \<and> assessSpeaking 1793620800000 \<lparr>get_succeeds = True, set_succeeds = True, add_succeeds = True\<rparr>
      \<lparr>env_upload = UploadBody (Some ''https://cdn/upload/1''), env_create = CreateBody (Some ''job1''),
        env_provider = (\<lambda>i. PollBody (Some ''error'') None (Some ''bad audio'')),
        env_gemini = FetchRejected\<rparr>
      \<lparr>s_method = ''POST'', s_uid = Some ''u1'', s_file = Some ''/tmp/a.wav''\<rparr>
      \<lparr>users = Map.empty, assessments = (\<lambda>u. [])\<rparr>
    = Some (\<lparr>http_status = 500, body = Thrown (Error ''Transcription error: bad audio'')\<rparr>,
       \<lparr>users = Map.empty, assessments = (\<lambda>u. [])\<rparr>)"
proof -
  let ?db = "\<lparr>users = Map.empty, assessments = (\<lambda>u. [])\<rparr>"
  let ?store = "\<lparr>get_succeeds = True, set_succeeds = True, add_succeeds = True\<rparr>"
  let ?wreq = "\<lparr>w_method = ''POST'', w_textSample = Some ''My name is Ana.'', w_uid = Some ''u1''\<rparr>"
  let ?env = "\<lparr>env_upload = UploadBody (Some ''https://cdn/upload/1''),
        env_create = CreateBody (Some ''job1''),
        env_provider = (\<lambda>i. PollBody (Some ''error'') None (Some ''bad audio'')),
        env_gemini = FetchRejected\<rparr>"
  let ?sreq = "\<lparr>s_method = ''POST'', s_uid = Some ''u1'', s_file = Some ''/tmp/a.wav''\<rparr>"
  have w: "fst (assessWriting 1793620800000 ?store (NotOk 503 ''overloaded'') ?wreq ?db)
      = \<lparr>http_status = 502, body = GeminiError 503 ''overloaded''\<rparr>"
    by (simp add: assessWriting_def falsy_str_def)
  have "snd (assessWriting 1793620800000 ?store (NotOk 503 ''overloaded'') ?wreq ?db) = ?db"
    using provider_failure_writes_nothing [of ?wreq "NotOk 503 ''overloaded''" 1793620800000
        ?store ?db]
    by (simp add: falsy_str_def)
  with w have a: "assessWriting 1793620800000 ?store (NotOk 503 ''overloaded'') ?wreq ?db
      = (\<lparr>http_status = 502, body = GeminiError 503 ''overloaded''\<rparr>, ?db)"
    by (simp add: prod_eq_iff)
  have b: "assessSpeaking 1793620800000 ?store ?env ?sreq ?db
      = Some (\<lparr>http_status = 500, body = Thrown (Error ''Transcription error: bad audio'')\<rparr>, ?db)"
    using provider_failure_writes_nothing [where sreq = ?sreq and env = ?env
        and e = "Error ''Transcription error: bad audio''" and now = 1793620800000 and db = ?db
        and store = ?store]
      poll_error_example
    by simp
  from a b show ?thesis by simp
qed

text \<open>
  Claim C9 as stated fails on the placement path: a model call that throws is caught,
  the request is answered with 200, and the progress and a history entry are written.
  On the speaking path, answers of the transcription provider that carry an error message
  and none of \<^verbatim>\<open>upload_url\<close>, \<^verbatim>\<open>id\<close>, \<^verbatim>\<open>status\<close> (what it sends with a failing HTTP status)
  are not noticed: the handler polls for ever and sends no response.
\<close>

theorem provider_failure_counterexample:
  "(let answers =
      [JObj [(''selected'', JStr ''went'')], JObj [(''selected'', JStr ''study'')],
       JObj [(''selected'', JStr ''At home'')], JObj [(''selected'', JStr ''He likes pizza'')],
       JObj [(''selected'', JStr ''Verb is incorrect'')],
       JObj [(''type'', JStr ''writing''), (''writingSample'', JStr ''I went to the market yesterday.'')],
       JObj [(''selected'', JStr ''arrived'')], JObj [(''selected'', JStr ''The project finishes'')],
       JObj [(''selected'', JStr ''must'')], JObj [(''selected'', JStr ''He says busy'')],
       JObj [(''selected'', JStr ''turn on'')]];
       req = \<lparr>p_method = ''POST'', p_uid = Some ''u1'', p_claimedLevel = Some (JStr ''B1''),
               p_answers = Some (JArr answers)\<rparr>;
       out = englishTest 1793620800000
          \<lparr>get_succeeds = True, set_succeeds = True, add_succeeds = True\<rparr>
          (EvalThrows FetchError) req \<lparr>users = Map.empty, assessments = (\<lambda>u. [])\<rparr>
    in http_status (fst out) = 200
       \<and> map_option streak (users (snd out) ''u1'') = Some (Some 1)
       \<and> map atype (assessments (snd out) ''u1'') = [''placement''])
   \<and> assessSpeaking 1793620800000 \<lparr>get_succeeds = True, set_succeeds = True, add_succeeds = True\<rparr>
      \<lparr>env_upload = UploadBody None, env_create = CreateBody None,
        env_provider = (\<lambda>i. PollBody None None (Some ''Not found'')),
        env_gemini = FetchRejected\<rparr>
      \<lparr>s_method = ''POST'', s_uid = Some ''u1'', s_file = Some ''/tmp/a.wav''\<rparr>
      \<lparr>users = Map.empty, assessments = (\<lambda>u. [])\<rparr> = None"
proof -
  let ?answers = "[JObj [(''selected'', JStr ''went'')], JObj [(''selected'', JStr ''study'')],
       JObj [(''selected'', JStr ''At home'')], JObj [(''selected'', JStr ''He likes pizza'')],
       JObj [(''selected'', JStr ''Verb is incorrect'')],
       JObj [(''type'', JStr ''writing''), (''writingSample'', JStr ''I went to the market yesterday.'')],
       JObj [(''selected'', JStr ''arrived'')], JObj [(''selected'', JStr ''The project finishes'')],
       JObj [(''selected'', JStr ''must'')], JObj [(''selected'', JStr ''He says busy'')],
       JObj [(''selected'', JStr ''turn on'')]]"
  let ?req = "\<lparr>p_method = ''POST'', p_uid = Some ''u1'', p_claimedLevel = Some (JStr ''B1''),
        p_answers = Some (JArr ?answers)\<rparr>"
  let ?store = "\<lparr>get_succeeds = True, set_succeeds = True, add_succeeds = True\<rparr>"
  let ?db = "\<lparr>users = Map.empty, assessments = (\<lambda>u. [])\<rparr>"
  have st: "placementStreak 1793620800000
           (lastAssessmentDateISO (user_data (users ?db) (str_or (p_uid ?req) [])))
           (streak (user_data (users ?db) (str_or (p_uid ?req) []))) = Inr 1"
    by (simp add: user_data_def empty_doc_def placementStreak_days str_or_def)
  have u: "\<not> falsy_str (p_uid ?req)"
    by (simp add: falsy_str_def)
  have p: "p_method ?req = ''POST''" "p_answers ?req = Some (JArr ?answers)"
    by simp_all
  have s: "get_succeeds ?store" "set_succeeds ?store" "add_succeeds ?store"
    by simp_all
  have v: "entry_valid (PlacementEntry (p_claimedLevel ?req) ?answers
      (placement_result_of (gradeMCQs QUESTIONS (answersByIndex_of ?answers)) gp) 1793620800000)"
    for gp
    using grade_example(2) QUESTIONS_expected
    by (simp add: details_placement_result defined_valid_def)
  have never: "pollTranscript (\<lambda>i. PollBody None None (Some ''Not found''))
      \<lparr>requests = 0, waited_ms = 0\<rparr> = None"
    by (simp add: pollTranscript_None_iff)
  have speaking: "assessSpeaking 1793620800000 ?store
      \<lparr>env_upload = UploadBody None, env_create = CreateBody None,
        env_provider = (\<lambda>i. PollBody None None (Some ''Not found'')),
        env_gemini = FetchRejected\<rparr>
      \<lparr>s_method = ''POST'', s_uid = Some ''u1'', s_file = Some ''/tmp/a.wav''\<rparr> ?db = None"
    by (simp add: assessSpeaking_def never)
  show ?thesis
    unfolding Let_def speaking
      englishTest_stored [where ev = "EvalThrows FetchError",
        OF p find_writing_example u s(1) st s(2) v s(3)]
      englishTest_progress [where ev = "EvalThrows FetchError",
        OF p find_writing_example u s(1) st s(2)]
    by (simp add: str_or_def)
qed

section \<open>Properties of the badges\<close>

lemma push_badge_mem:
  "b' \<in> set (push_badge st th b av) \<longleftrightarrow> b' \<in> set av \<or> (b' = b \<and> th \<le> st)"
  by (auto simp: push_badge_def)

lemma award_badges_starter:
  "''starter'' \<in> set (award_badges st av) \<longleftrightarrow> 3 \<le> st \<or> ''starter'' \<in> set av"
  by (auto simp: award_badges_def push_badge_mem)

lemma award_badges_bronze:
  "''bronze'' \<in> set (award_badges st av) \<longleftrightarrow> 7 \<le> st \<or> ''bronze'' \<in> set av"
  by (auto simp: award_badges_def push_badge_mem)

lemma award_badges_silver:
  "''silver'' \<in> set (award_badges st av) \<longleftrightarrow> 14 \<le> st \<or> ''silver'' \<in> set av"
  by (auto simp: award_badges_def push_badge_mem)

lemma award_badges_gold:
  "''gold'' \<in> set (award_badges st av) \<longleftrightarrow> 30 \<le> st \<or> ''gold'' \<in> set av"
  by (auto simp: award_badges_def push_badge_mem)

lemma push_badge_extends:
  assumes "cur = av @ added" and "distinct added" and "set added \<inter> set av = {}"
  shows "\<exists>added'. push_badge st th b cur = av @ added' \<and> distinct added'
           \<and> set added' \<inter> set av = {}"
proof (cases "th \<le> st \<and> b \<notin> set cur")
  case True
  with assms have "push_badge st th b cur = av @ (added @ [b])"
    "distinct (added @ [b])" "set (added @ [b]) \<inter> set av = {}"
    by (auto simp: push_badge_def)
  then show ?thesis by blast
next
  case False
  with assms have "push_badge st th b cur = av @ added"
    by (auto simp: push_badge_def)
  with assms show ?thesis by blast
qed

lemma award_badges_extends:
  "\<exists>added. award_badges st av = av @ added \<and> distinct added \<and> set added \<inter> set av = {}"
proof -
  have 0: "av = av @ []" "distinct ([]::string list)" "set ([]::string list) \<inter> set av = {}"
    by simp_all
  from push_badge_extends [OF 0] obtain a1 where
    1: "push_badge st 3 ''starter'' av = av @ a1" "distinct a1" "set a1 \<inter> set av = {}"
    by blast
  from push_badge_extends [OF 1] obtain a2 where
    2: "push_badge st 7 ''bronze'' (push_badge st 3 ''starter'' av) = av @ a2"
       "distinct a2" "set a2 \<inter> set av = {}"
    by blast
  from push_badge_extends [OF 2] obtain a3 where
    3: "push_badge st 14 ''silver''
          (push_badge st 7 ''bronze'' (push_badge st 3 ''starter'' av)) = av @ a3"
       "distinct a3" "set a3 \<inter> set av = {}"
    by blast
  from push_badge_extends [OF 3] obtain a4 where
    "push_badge st 30 ''gold'' (push_badge st 14 ''silver''
          (push_badge st 7 ''bronze'' (push_badge st 3 ''starter'' av))) = av @ a4"
       "distinct a4" "set a4 \<inter> set av = {}"
    by blast
  then show ?thesis
    unfolding award_badges_def by blast
qed

lemma push_badge_id: "b \<in> set av \<or> \<not> th \<le> st \<Longrightarrow> push_badge st th b av = av"
  by (auto simp: push_badge_def)

lemma award_badges_idem: "award_badges st (award_badges st av) = award_badges st av"
proof -
  let ?A = "award_badges st av"
  have s: "push_badge st 3 ''starter'' ?A = ?A"
    by (rule push_badge_id) (use award_badges_starter [of st av] in auto)
  have b: "push_badge st 7 ''bronze'' ?A = ?A"
    by (rule push_badge_id) (use award_badges_bronze [of st av] in auto)
  have v: "push_badge st 14 ''silver'' ?A = ?A"
    by (rule push_badge_id) (use award_badges_silver [of st av] in auto)
  have g: "push_badge st 30 ''gold'' ?A = ?A"
    by (rule push_badge_id) (use award_badges_gold [of st av] in auto)
  have "award_badges st ?A = push_badge st 30 ''gold'' (push_badge st 14 ''silver''
          (push_badge st 7 ''bronze'' (push_badge st 3 ''starter'' ?A)))"
    by (simp only: award_badges_def [of st ?A])
  also have "\<dots> = ?A"
    by (simp only: s b v g)
  finally show ?thesis .
qed

lemma award_badges_superset: "set av \<subseteq> set (award_badges st av)"
  using award_badges_extends [of st av] by auto

lemma assessWriting_avatars:
  "avatars (user_data (users (snd (assessWriting now store gemini req db))) u)
     = avatars (user_data (users db) u)"
  by (auto simp: assessWriting_def Let_def set_progress_def add_assessment_def user_data_def
      split: gemini_http.splits sum.splits if_splits option.splits)

lemma assessSpeaking_avatars:
  "assessSpeaking now store env req db = Some (resp, db')
     \<Longrightarrow> avatars (user_data (users db') u) = avatars (user_data (users db) u)"
  by (auto simp: assessSpeaking_def Let_def set_progress_def add_assessment_def user_data_def
      split: sum.splits if_splits option.splits prod.splits)

lemma englishTest_avatars:
  "set (avatars_or_empty (user_data (users db) u))
     \<subseteq> set (avatars_or_empty (user_data (users (snd (englishTest now store ev req db))) u))"
proof -
  have "set (avatars_or_empty d) \<subseteq> set (award_badges st (avatars_or_empty d))" for d st
    by (rule award_badges_superset)
  then show ?thesis
    by (auto simp: englishTest_def Let_def add_assessment_def user_data_def avatars_or_empty_def
        split: json.splits sum.splits if_splits option.splits)
qed

text \<open>
  Claim C6, amended.  On the placement path, a request that is stored for a user (the
  store reads the user and performs the progress write) writes the streak computed for it
  and the badges \<open>award_badges\<close> gives for that streak, whether or not the streak changed.  \<open>award_badges\<close> holds \<^verbatim>\<open>starter\<close>, \<^verbatim>\<open>bronze\<close>, \<^verbatim>\<open>silver\<close>,
  \<^verbatim>\<open>gold\<close> exactly when the streak is at least 3, 7, 14, 30 or the badge was there
  before; it keeps the badges there were, in their places, and appends each new badge
  once; applying it again changes nothing.  No handler removes a badge: the placement
  handler keeps every badge of every user, and the writing and speaking handlers leave
  the badge field of every user as it is, so they award no badge.
\<close>

theorem badges_awarded_and_kept:
  "(p_method req = ''POST'' \<and> p_answers req = Some (JArr answers)
      \<and> find_writing answers = Inr we \<and> \<not> falsy_str (p_uid req)
      \<and> get_succeeds store \<and> set_succeeds store
      \<and> placementStreak now
            (lastAssessmentDateISO (user_data (users db) (str_or (p_uid req) [])))
            (streak (user_data (users db) (str_or (p_uid req) []))) = Inr st \<longrightarrow>
      map_option streak (users (snd (englishTest now store ev req db)) (str_or (p_uid req) []))
        = Some (Some st)
      \<and> map_option avatars (users (snd (englishTest now store ev req db)) (str_or (p_uid req) []))
        = Some (Some (award_badges st
            (avatars_or_empty (user_data (users db) (str_or (p_uid req) []))))))
   \<and> (''starter'' \<in> set (award_badges n av) \<longleftrightarrow> 3 \<le> n \<or> ''starter'' \<in> set av)
   \<and> (''bronze'' \<in> set (award_badges n av) \<longleftrightarrow> 7 \<le> n \<or> ''bronze'' \<in> set av)
   \<and> (''silver'' \<in> set (award_badges n av) \<longleftrightarrow> 14 \<le> n \<or> ''silver'' \<in> set av)
   \<and> (''gold'' \<in> set (award_badges n av) \<longleftrightarrow> 30 \<le> n \<or> ''gold'' \<in> set av)
   \<and> (\<exists>added. award_badges n av = av @ added \<and> distinct added \<and> set added \<inter> set av = {})
   \<and> award_badges n (award_badges n av) = award_badges n av
   \<and> set (avatars_or_empty (user_data (users db) u))
        \<subseteq> set (avatars_or_empty (user_data (users (snd (englishTest now store ev req db))) u))
   \<and> avatars (user_data (users (snd (assessWriting now store gemini wreq db))) u)
        = avatars (user_data (users db) u)
   \<and> (\<forall>resp db'. assessSpeaking now store env sreq db = Some (resp, db') \<longrightarrow>
         avatars (user_data (users db') u) = avatars (user_data (users db) u))"
proof -
  have 1: "p_method req = ''POST'' \<and> p_answers req = Some (JArr answers)
      \<and> find_writing answers = Inr we \<and> \<not> falsy_str (p_uid req)
      \<and> get_succeeds store \<and> set_succeeds store
      \<and> placementStreak now
            (lastAssessmentDateISO (user_data (users db) (str_or (p_uid req) [])))
            (streak (user_data (users db) (str_or (p_uid req) []))) = Inr st \<longrightarrow>
      map_option streak (users (snd (englishTest now store ev req db)) (str_or (p_uid req) []))
        = Some (Some st)
      \<and> map_option avatars (users (snd (englishTest now store ev req db)) (str_or (p_uid req) []))
        = Some (Some (award_badges st
            (avatars_or_empty (user_data (users db) (str_or (p_uid req) [])))))"
  proof (intro impI, elim conjE)
    assume a: "p_method req = ''POST''" "p_answers req = Some (JArr answers)"
      "find_writing answers = Inr we" "\<not> falsy_str (p_uid req)"
      "get_succeeds store" "set_succeeds store"
      "placementStreak now
            (lastAssessmentDateISO (user_data (users db) (str_or (p_uid req) [])))
            (streak (user_data (users db) (str_or (p_uid req) []))) = Inr st"
    show "map_option streak (users (snd (englishTest now store ev req db)) (str_or (p_uid req) []))
        = Some (Some st)
      \<and> map_option avatars (users (snd (englishTest now store ev req db)) (str_or (p_uid req) []))
        = Some (Some (award_badges st
            (avatars_or_empty (user_data (users db) (str_or (p_uid req) [])))))"
      unfolding englishTest_progress [OF a(1-5,7,6)] by simp
  qed
  have 2: "\<forall>resp db'. assessSpeaking now store env sreq db = Some (resp, db') \<longrightarrow>
         avatars (user_data (users db') u) = avatars (user_data (users db) u)"
    using assessSpeaking_avatars by blast
  from 1 2 award_badges_starter [of n av] award_badges_bronze [of n av]
    award_badges_silver [of n av] award_badges_gold [of n av]
    award_badges_extends [of n av] award_badges_idem [of n av]
    englishTest_avatars [of db u now store ev req]
    assessWriting_avatars [of now store gemini wreq db u]
  show ?thesis by blast
qed

lemma find_writing_incomplete:
  "find_writing [JObj [(''selected'', JStr ''went'')],
       JObj [(''type'', JStr ''writing''), (''writingSample'', JStr ''I went to the market yesterday.'')]]
   = Inr (Some (JObj [(''type'', JStr ''writing''),
        (''writingSample'', JStr ''I went to the market yesterday.'')]))"
  by (simp add: is_writing_entry_def trim_def is_js_space_def)

theorem badges_awarded_and_kept_witness:
  "map_option avatars (users (snd (englishTest 1793620800000
      \<lparr>get_succeeds = True, set_succeeds = True, add_succeeds = True\<rparr> EvalNoKey
      \<lparr>p_method = ''POST'', p_uid = Some ''u1'', p_claimedLevel = None,
        p_answers = Some (JArr [JObj [(''selected'', JStr ''went'')],
          JObj [(''type'', JStr ''writing''),
                (''writingSample'', JStr ''I went to the market yesterday.'')]])\<rparr>
      \<lparr>users = [''u1'' \<mapsto> \<lparr>level = None, levelConfidence = None, lastAssessmentAt = None,
          lastAssessmentDateISO = Canon 20758, streak = Some 2, avatars = None\<rparr>],
        assessments = (\<lambda>u. [])\<rparr>)) ''u1'') = Some (Some [''starter''])
   \<and> map_option avatars (users (snd (englishTest 1793620800000
      \<lparr>get_succeeds = True, set_succeeds = True, add_succeeds = True\<rparr> EvalNoKey
      \<lparr>p_method = ''POST'', p_uid = Some ''u1'', p_claimedLevel = None,
        p_answers = Some (JArr [JObj [(''selected'', JStr ''went'')],
          JObj [(''type'', JStr ''writing''),
                (''writingSample'', JStr ''I went to the market yesterday.'')]])\<rparr>
      \<lparr>users = [''u1'' \<mapsto> \<lparr>level = None, levelConfidence = None, lastAssessmentAt = None,
          lastAssessmentDateISO = Canon 20759, streak = Some 7, avatars = Some [''starter'']\<rparr>],
        assessments = (\<lambda>u. [])\<rparr>)) ''u1'') = Some (Some [''starter'', ''bronze''])"
proof -
  let ?answers = "[JObj [(''selected'', JStr ''went'')],
          JObj [(''type'', JStr ''writing''),
                (''writingSample'', JStr ''I went to the market yesterday.'')]]"
  let ?req = "\<lparr>p_method = ''POST'', p_uid = Some ''u1'', p_claimedLevel = None,
        p_answers = Some (JArr ?answers)\<rparr>"
  let ?d1 = "\<lparr>level = None, levelConfidence = None, lastAssessmentAt = None,
          lastAssessmentDateISO = Canon 20758, streak = Some 2, avatars = None\<rparr>"
  let ?d2 = "\<lparr>level = None, levelConfidence = None, lastAssessmentAt = None,
          lastAssessmentDateISO = Canon 20759, streak = Some 7, avatars = Some [''starter'']\<rparr>"
  let ?db1 = "\<lparr>users = [''u1'' \<mapsto> ?d1], assessments = (\<lambda>u. [])\<rparr>"
  let ?db2 = "\<lparr>users = [''u1'' \<mapsto> ?d2], assessments = (\<lambda>u. [])\<rparr>"
  let ?store = "\<lparr>get_succeeds = True, set_succeeds = True, add_succeeds = True\<rparr>"
  have t: "(1793620800000::int) div msPerDay = 20759"
    by (simp add: msPerDay_def)
  have u: "\<not> falsy_str (p_uid ?req)" "str_or (p_uid ?req) [] = ''u1''"
    by (simp_all add: falsy_str_def str_or_def)
  have s1: "placementStreak 1793620800000
            (lastAssessmentDateISO (user_data (users ?db1) (str_or (p_uid ?req) [])))
            (streak (user_data (users ?db1) (str_or (p_uid ?req) []))) = Inr 3"
    by (simp add: str_or_def user_data_def placementStreak_days t streak_or_def)
  have s2: "placementStreak 1793620800000
            (lastAssessmentDateISO (user_data (users ?db2) (str_or (p_uid ?req) [])))
            (streak (user_data (users ?db2) (str_or (p_uid ?req) []))) = Inr 7"
    by (simp add: str_or_def user_data_def placementStreak_days t streak_or_def)
  have b1: "award_badges 3 (avatars_or_empty (user_data (users ?db1) ''u1'')) = [''starter'']"
    by (simp add: user_data_def avatars_or_empty_def award_badges_def push_badge_def)
  have b2: "award_badges 7 (avatars_or_empty (user_data (users ?db2) ''u1''))
      = [''starter'', ''bronze'']"
    by (simp add: user_data_def avatars_or_empty_def award_badges_def push_badge_def)
  from badges_awarded_and_kept [where req = ?req and answers = ?answers and db = ?db1
      and now = 1793620800000 and st = 3 and ev = EvalNoKey and store = ?store]
    find_writing_incomplete u s1
  have 1: "map_option avatars (users (snd (englishTest 1793620800000 ?store EvalNoKey ?req ?db1))
        ''u1'')
      = Some (Some (award_badges 3 (avatars_or_empty (user_data (users ?db1) ''u1''))))"
    by (simp add: str_or_def)
  from badges_awarded_and_kept [where req = ?req and answers = ?answers and db = ?db2
      and now = 1793620800000 and st = 7 and ev = EvalNoKey and store = ?store]
    find_writing_incomplete u s2
  have 2: "map_option avatars (users (snd (englishTest 1793620800000 ?store EvalNoKey ?req ?db2))
        ''u1'')
      = Some (Some (award_badges 7 (avatars_or_empty (user_data (users ?db2) ''u1''))))"
    by (simp add: str_or_def)
  from 1 2 show ?thesis
    by (simp only: b1 b2) 
qed

text \<open>
  Claim C6 as stated fails on the writing path, which has no badge code: a user whose
  streak goes from 2 to 3 by a writing assessment gets no \<^verbatim>\<open>starter\<close> badge.
\<close>

theorem badges_counterexample:
  "map_option streak (users (snd (assessWriting 1793620800000
      \<lparr>get_succeeds = True, set_succeeds = True, add_succeeds = True\<rparr>
      (Candidate ''{\"level\":\"B1\"}'')
      \<lparr>w_method = ''POST'', w_textSample = Some ''My name is Ana.'', w_uid = Some ''u1''\<rparr>
      \<lparr>users = [''u1'' \<mapsto> \<lparr>level = None, levelConfidence = None, lastAssessmentAt = None,
          lastAssessmentDateISO = Canon 20758, streak = Some 2, avatars = None\<rparr>],
        assessments = (\<lambda>u. [])\<rparr>)) ''u1'') = Some (Some 3)
   \<and> map_option avatars (users (snd (assessWriting 1793620800000
      \<lparr>get_succeeds = True, set_succeeds = True, add_succeeds = True\<rparr>
      (Candidate ''{\"level\":\"B1\"}'')
      \<lparr>w_method = ''POST'', w_textSample = Some ''My name is Ana.'', w_uid = Some ''u1''\<rparr>
      \<lparr>users = [''u1'' \<mapsto> \<lparr>level = None, levelConfidence = None, lastAssessmentAt = None,
          lastAssessmentDateISO = Canon 20758, streak = Some 2, avatars = None\<rparr>],
        assessments = (\<lambda>u. [])\<rparr>)) ''u1'') = Some None"
proof -
  let ?req = "\<lparr>w_method = ''POST'', w_textSample = Some ''My name is Ana.'', w_uid = Some ''u1''\<rparr>"
  have t: "(1793620800000::int) div msPerDay = 20759"
    by (simp add: msPerDay_def)
  have p: "callGemini_parse ''{\"level\":\"B1\"}'' = Inr (JObj [(''level'', JStr ''B1'')])"
    by (simp add: json_eval callGemini_parse_def)
  have r: "w_method ?req = ''POST''" "\<not> falsy_str (w_textSample ?req)" "\<not> falsy_str (w_uid ?req)"
    "JObj [(''level'', JStr ''B1'')] \<noteq> JNull"
    "get_succeeds \<lparr>get_succeeds = True, set_succeeds = True, add_succeeds = True\<rparr>"
    "set_succeeds \<lparr>get_succeeds = True, set_succeeds = True, add_succeeds = True\<rparr>"
    "add_succeeds \<lparr>get_succeeds = True, set_succeeds = True, add_succeeds = True\<rparr>"
    "firestore_valid (JObj [(''level'', JStr ''B1'')])"
    by (simp_all add: falsy_str_def)
  show ?thesis
    unfolding assessWriting_success [OF r(1-3) p r(4-8)]
    by (simp add: set_progress_def add_assessment_def user_data_def str_or_def
        computeNewStreak_days t streak_or_def)
qed

section \<open>The first writing assessment of a user\<close>

text \<open>
  Claim C7, amended.  For a first-time user (no document, no history) and a writing
  sample for which the model call succeeds with a parsed reply other than \<^verbatim>\<open>null\<close>, when
  the store performs its calls and the reply is a value its client takes, the
  request is answered with 200 and the stored progress has the level the reply itself
  carries (\<^verbatim>\<open>Unknown\<close> when it carries none), the confidence of the reply (0 when it carries
  none), today's date, streak 1 and no badge field; the history of the user is exactly
  one entry, of type \<^verbatim>\<open>writing\<close>.  The writing path does not call the level mapper and
  stores no composite.
\<close>

theorem first_writing_assessment:
  assumes "w_method req = ''POST''"
    and "w_textSample req = Some sample" and "sample \<noteq> []"
    and "w_uid req = Some uid" and "uid \<noteq> []"
    and "users db uid = None" and "assessments db uid = []"
    and "callGemini_parse content = Inr parsed" and "parsed \<noteq> JNull"
    and "get_succeeds store" and "set_succeeds store" and "add_succeeds store"
    and "firestore_valid parsed"
  shows "fst (assessWriting now store (Candidate content) req db)
           = \<lparr>http_status = 200, body = ModelResult parsed\<rparr>
    \<and> users (snd (assessWriting now store (Candidate content) req db)) uid
           = Some \<lparr>level = Some (level_or_unknown (get_prop parsed ''level'')),
                   levelConfidence = Some (confidence_or0 (get_prop parsed ''confidence'')),
                   lastAssessmentAt = Some now,
                   lastAssessmentDateISO = Canon (now div msPerDay),
                   streak = Some 1,
                   avatars = None\<rparr>
    \<and> assessments (snd (assessWriting now store (Candidate content) req db)) uid
           = [WritingEntry sample parsed now]
    \<and> map atype (assessments (snd (assessWriting now store (Candidate content) req db)) uid)
           = [''writing'']"
proof -
  have f: "\<not> falsy_str (w_textSample req)" "\<not> falsy_str (w_uid req)"
    using assms(2-5) by (simp_all add: falsy_str_def)
  have s: "str_or (w_uid req) [] = uid" "str_or (w_textSample req) [] = sample"
    using assms(2-5) by (simp_all add: str_or_def)
  show ?thesis
    unfolding assessWriting_success [OF assms(1) f assms(8-13)] s
    using assms(6,7)
    by (simp add: set_progress_def add_assessment_def user_data_def empty_doc_def
        computeNewStreak_def Let_def)
qed

theorem first_writing_assessment_witness:
  "fst (assessWriting 1793620800000
      \<lparr>get_succeeds = True, set_succeeds = True, add_succeeds = True\<rparr>
      (Candidate ''{\"level\":\"B1\",\"confidence\":0.76,\"scores\":{\"vocab\":72,\"grammar\":68,\"cohesion\":70}}'')
      \<lparr>w_method = ''POST'', w_textSample = Some ''My name is Ana.'', w_uid = Some ''u1''\<rparr>
      \<lparr>users = Map.empty, assessments = (\<lambda>u. [])\<rparr>)
     = \<lparr>http_status = 200, body = ModelResult
          (JObj [(''level'', JStr ''B1''), (''confidence'', JNum 0.76),
             (''scores'', JObj [(''vocab'', JNum 72), (''grammar'', JNum 68),
                (''cohesion'', JNum 70)])])\<rparr>
   \<and> users (snd (assessWriting 1793620800000
      \<lparr>get_succeeds = True, set_succeeds = True, add_succeeds = True\<rparr>
      (Candidate ''{\"level\":\"B1\",\"confidence\":0.76,\"scores\":{\"vocab\":72,\"grammar\":68,\"cohesion\":70}}'')
      \<lparr>w_method = ''POST'', w_textSample = Some ''My name is Ana.'', w_uid = Some ''u1''\<rparr>
      \<lparr>users = Map.empty, assessments = (\<lambda>u. [])\<rparr>)) ''u1''
     = Some \<lparr>level = Some (JStr ''B1''), levelConfidence = Some (JNum 0.76),
          lastAssessmentAt = Some 1793620800000, lastAssessmentDateISO = Canon 20759,
          streak = Some 1, avatars = None\<rparr>
   \<and> map atype (assessments (snd (assessWriting 1793620800000
      \<lparr>get_succeeds = True, set_succeeds = True, add_succeeds = True\<rparr>
      (Candidate ''{\"level\":\"B1\",\"confidence\":0.76,\"scores\":{\"vocab\":72,\"grammar\":68,\"cohesion\":70}}'')
      \<lparr>w_method = ''POST'', w_textSample = Some ''My name is Ana.'', w_uid = Some ''u1''\<rparr>
      \<lparr>users = Map.empty, assessments = (\<lambda>u. [])\<rparr>)) ''u1'') = [''writing'']"
proof -
  let ?content = "''{\"level\":\"B1\",\"confidence\":0.76,\"scores\":{\"vocab\":72,\"grammar\":68,\"cohesion\":70}}''"
  let ?parsed = "JObj [(''level'', JStr ''B1''), (''confidence'', JNum 0.76),
             (''scores'', JObj [(''vocab'', JNum 72), (''grammar'', JNum 68),
                (''cohesion'', JNum 70)])]"
  let ?req = "\<lparr>w_method = ''POST'', w_textSample = Some ''My name is Ana.'', w_uid = Some ''u1''\<rparr>"
  let ?db = "\<lparr>users = Map.empty, assessments = (\<lambda>u. [])\<rparr>"
  let ?store = "\<lparr>get_succeeds = True, set_succeeds = True, add_succeeds = True\<rparr>"
  have t: "(1793620800000::int) div msPerDay = 20759"
    by (simp add: msPerDay_def)
  have p: "callGemini_parse ?content = Inr ?parsed"
    by (simp add: json_eval callGemini_parse_def)
  have h: "w_method ?req = ''POST''" "w_textSample ?req = Some ''My name is Ana.''"
    "''My name is Ana.'' \<noteq> []" "w_uid ?req = Some ''u1''" "''u1'' \<noteq> []"
    "users ?db ''u1'' = None" "assessments ?db ''u1'' = []" "?parsed \<noteq> JNull"
    "get_succeeds ?store" "set_succeeds ?store" "add_succeeds ?store" "firestore_valid ?parsed"
    by simp_all
  from first_writing_assessment [OF h(1-7) p h(8-12), of 1793620800000]
  show ?thesis
    by (simp add: level_or_unknown_def confidence_or0_def t)
qed

text \<open>
  Claim C7 as stated fails.  When the reply carries the three scores and the confidence
  but no level, the stored level is \<^verbatim>\<open>Unknown\<close>, not \<^verbatim>\<open>B1\<close>.  The composite of 72, 68 and 70
  is 70, not 70.4, and the level mapper gives B2 for it.
\<close>

theorem first_writing_assessment_counterexample:
  "map_option level (users (snd (assessWriting 1793620800000
      \<lparr>get_succeeds = True, set_succeeds = True, add_succeeds = True\<rparr>
      (Candidate ''{\"scores\":{\"vocab\":72,\"grammar\":68,\"cohesion\":70},\"confidence\":0.76}'')
      \<lparr>w_method = ''POST'', w_textSample = Some ''My name is Ana.'', w_uid = Some ''u1''\<rparr>
      \<lparr>users = Map.empty, assessments = (\<lambda>u. [])\<rparr>)) ''u1'')
     = Some (Some (JStr ''Unknown''))
   \<and> mapScoresToLevel \<lparr>vocab = Num 72, grammar = Num 68, cohesion = Num 70\<rparr>
     = \<lparr>map_level = ''B2'', map_overall = Num 70\<rparr>"
proof -
  let ?content = "''{\"scores\":{\"vocab\":72,\"grammar\":68,\"cohesion\":70},\"confidence\":0.76}''"
  let ?parsed = "JObj [(''scores'', JObj [(''vocab'', JNum 72), (''grammar'', JNum 68),
                (''cohesion'', JNum 70)]), (''confidence'', JNum 0.76)]"
  let ?req = "\<lparr>w_method = ''POST'', w_textSample = Some ''My name is Ana.'', w_uid = Some ''u1''\<rparr>"
  have p: "callGemini_parse ?content = Inr ?parsed"
    by (simp add: json_eval callGemini_parse_def)
  have r: "w_method ?req = ''POST''" "\<not> falsy_str (w_textSample ?req)" "\<not> falsy_str (w_uid ?req)"
    "?parsed \<noteq> JNull"
    "get_succeeds \<lparr>get_succeeds = True, set_succeeds = True, add_succeeds = True\<rparr>"
    "set_succeeds \<lparr>get_succeeds = True, set_succeeds = True, add_succeeds = True\<rparr>"
    "add_succeeds \<lparr>get_succeeds = True, set_succeeds = True, add_succeeds = True\<rparr>"
    "firestore_valid ?parsed"
    by (simp_all add: falsy_str_def)
  have a: "map_option level (users (snd (assessWriting 1793620800000
      \<lparr>get_succeeds = True, set_succeeds = True, add_succeeds = True\<rparr> (Candidate ?content) ?req
      \<lparr>users = Map.empty, assessments = (\<lambda>u. [])\<rparr>)) ''u1'') = Some (Some (JStr ''Unknown''))"
    unfolding assessWriting_success [OF r(1-3) p r(4-8)]
    by (simp add: set_progress_def add_assessment_def str_or_def level_or_unknown_def)
  have b: "mapScoresToLevel \<lparr>vocab = Num 72, grammar = Num 68, cohesion = Num 70\<rparr>
     = \<lparr>map_level = ''B2'', map_overall = Num 70\<rparr>"
    using composite_examples(1)
      mapScoresToLevel_level [of "\<lparr>vocab = Num 72, grammar = Num 68, cohesion = Num 70\<rparr>"]
    by (simp add: mapScoresToLevel_def Let_def)
  from a b show ?thesis by simp
qed

end
